theory Spec2Isabelle
  imports Complex_Main
begin

section \<open>Errors as values\<close>

text \<open>
  Every exception of the Python source (and of the PyTorch calls it makes) is a value of
  type \<open>error\<close>; a fallible operation returns \<open>error + 'a\<close> with \<open>Inl\<close> the exception.
\<close>

datatype error = ValueError | RuntimeError | TypeError | IndexError | ZeroDivisionError
  | FileNotFoundError

definition ebind :: "error + 'a \<Rightarrow> ('a \<Rightarrow> error + 'b) \<Rightarrow> error + 'b" where
  "ebind m f = (case m of Inl e \<Rightarrow> Inl e | Inr v \<Rightarrow> f v)"

text \<open>A Python loop that builds a list and stops at the first exception.\<close>

primrec emap :: "('a \<Rightarrow> error + 'b) \<Rightarrow> 'a list \<Rightarrow> error + 'b list" where
  "emap f [] = Inr []"
| "emap f (x # xs) = ebind (f x) (\<lambda>y. ebind (emap f xs) (\<lambda>ys. Inr (y # ys)))"

section \<open>Tensor shapes and the PyTorch layers the network is built from\<close>

text \<open>
  The network is embedded at the level of tensor shapes: a 4-D activation is its shape
  \<open>(batch, channels, height, width)\<close>, a token sequence is \<open>(batch, seq, dim)\<close> and the
  time embedding is \<open>(batch, dim)\<close>. Constructor arguments are Python integers (\<open>int\<close>).
\<close>

type_synonym shape4 = "nat \<times> nat \<times> nat \<times> nat"
type_synonym shape3 = "nat \<times> nat \<times> nat"
type_synonym shape2 = "nat \<times> nat"

record Linear =
  in_features :: int
  out_features :: int

text \<open>\<open>nn.Linear(n_in, n_out)\<close>: a negative size cannot be allocated.\<close>

definition Linear_init :: "int \<Rightarrow> int \<Rightarrow> error + Linear" where
  "Linear_init n_in n_out =
     (if n_in < 0 \<or> n_out < 0 then Inl RuntimeError
      else Inr \<lparr>in_features = n_in, out_features = n_out\<rparr>)"

text \<open>A linear layer acts on the last dimension, whose size \<open>d\<close> must be \<open>in_features\<close>.\<close>

definition Linear_forward :: "Linear \<Rightarrow> nat \<Rightarrow> error + nat" where
  "Linear_forward l d =
     (if int d = in_features l then Inr (nat (out_features l)) else Inl RuntimeError)"

record LayerNorm =
  normalized_shape :: int

definition LayerNorm_init :: "int \<Rightarrow> error + LayerNorm" where
  "LayerNorm_init d = (if d < 0 then Inl RuntimeError else Inr \<lparr>normalized_shape = d\<rparr>)"

definition LayerNorm_forward :: "LayerNorm \<Rightarrow> shape3 \<Rightarrow> error + shape3" where
  "LayerNorm_forward lnorm x =
     (case x of (b, s, d) \<Rightarrow>
        if int d = normalized_shape lnorm then Inr (b, s, d) else Inl RuntimeError)"

record GroupNorm =
  num_groups :: int
  num_channels :: int

text \<open>\<open>nn.GroupNorm\<close> raises \<open>ValueError\<close> when the groups do not divide the channels.\<close>

definition GroupNorm_init :: "int \<Rightarrow> int \<Rightarrow> error + GroupNorm" where
  "GroupNorm_init g c =
     (if g = 0 then Inl ZeroDivisionError
      else if c mod g \<noteq> 0 then Inl ValueError
      else if c < 0 then Inl RuntimeError
      else Inr \<lparr>num_groups = g, num_channels = c\<rparr>)"

definition GroupNorm_forward :: "GroupNorm \<Rightarrow> shape4 \<Rightarrow> error + shape4" where
  "GroupNorm_forward gn x =
     (case x of (b, c, h, w) \<Rightarrow>
        if int c = num_channels gn then Inr (b, c, h, w) else Inl RuntimeError)"

record Conv2d =
  in_channels :: int
  out_channels :: int
  kernel_size :: nat
  stride :: nat
  padding :: nat

definition Conv2d_init :: "int \<Rightarrow> int \<Rightarrow> nat \<Rightarrow> nat \<Rightarrow> nat \<Rightarrow> error + Conv2d" where
  "Conv2d_init c_in c_out k s p =
     (if c_in < 0 \<or> c_out < 0 then Inl RuntimeError
      else Inr \<lparr>in_channels = c_in, out_channels = c_out, kernel_size = k, stride = s,
                padding = p\<rparr>)"

text \<open>
  The output size of a convolution along one spatial axis; PyTorch refuses an input
  whose padded size is smaller than the kernel.
\<close>

definition conv_out :: "Conv2d \<Rightarrow> nat \<Rightarrow> nat" where
  "conv_out cv n = (n + 2 * padding cv - kernel_size cv) div stride cv + 1"

definition Conv2d_forward :: "Conv2d \<Rightarrow> shape4 \<Rightarrow> error + shape4" where
  "Conv2d_forward cv x =
     (case x of (b, c, h, w) \<Rightarrow>
        if int c \<noteq> in_channels cv then Inl RuntimeError
        else if h + 2 * padding cv < kernel_size cv \<or> w + 2 * padding cv < kernel_size cv
        then Inl RuntimeError
        else Inr (b, nat (out_channels cv), conv_out cv h, conv_out cv w))"

text \<open>
  An in-place addition \<open>x += y\<close> of 4-D tensors: \<open>y\<close> must broadcast to the shape of \<open>x\<close>,
  which is kept.
\<close>

definition iadd4 :: "shape4 \<Rightarrow> shape4 \<Rightarrow> error + shape4" where
  "iadd4 x y =
     (case (x, y) of ((b, c, h, w), (b', c', h', w')) \<Rightarrow>
        if (b' = b \<or> b' = 1) \<and> (c' = c \<or> c' = 1) \<and> (h' = h \<or> h' = 1) \<and> (w' = w \<or> w' = 1)
        then Inr (b, c, h, w) else Inl RuntimeError)"

definition iadd3 :: "shape3 \<Rightarrow> shape3 \<Rightarrow> error + shape3" where
  "iadd3 x y =
     (case (x, y) of ((b, s, d), (b', s', d')) \<Rightarrow>
        if (b' = b \<or> b' = 1) \<and> (s' = s \<or> s' = 1) \<and> (d' = d \<or> d' = 1)
        then Inr (b, s, d) else Inl RuntimeError)"

text \<open>\<open>torch.cat([x, y], dim=1)\<close>: all dimensions but the channels must agree.\<close>

definition cat1 :: "shape4 \<Rightarrow> shape4 \<Rightarrow> error + shape4" where
  "cat1 x y =
     (case (x, y) of ((b, c, h, w), (b', c', h', w')) \<Rightarrow>
        if b' = b \<and> h' = h \<and> w' = w then Inr (b, c + c', h, w) else Inl RuntimeError)"

section \<open>The attention unit\<close>

text \<open>
  Modelled from the spec: the class \<open>MultiheadSelfAttention\<close> of \<open>models/attention.py\<close>,
  which the network imports. The spec's contract (section 4.1): given a token sequence
  \<open>[batch, seq, dim]\<close> and head count \<open>H\<close> (\<open>dim\<close> divisible by \<open>H\<close>, else it fails with a
  configuration error) it returns a sequence of the same shape; keys and values come from
  the sequence itself, or from a conditioning sequence \<open>[batch, seq', cond_dim]\<close>. Each of its
  four projections carries an optional low-rank adapter with an enabling flag, and the
  accelerated code path is a configuration flag.
\<close>

record MultiheadSelfAttention =
  mhsa_num_heads :: int
  mhsa_embedding_dim :: int
  mhsa_cond_dim :: "int option"
  proj_q_lora_enabled :: bool
  proj_k_lora_enabled :: bool
  proj_v_lora_enabled :: bool
  proj_out_lora_enabled :: bool
  use_flash_attention :: bool

text \<open>
  Modelled from the spec: the constructor of the absent class. It fails with the
  configuration error when the head count does not divide the width; a negative size
  cannot be allocated; the adapters and the accelerated path start disabled.
\<close>

definition MultiheadSelfAttention_init ::
  "int \<Rightarrow> int \<Rightarrow> int option \<Rightarrow> error + MultiheadSelfAttention" where
  "MultiheadSelfAttention_init nh ed cd =
     (if nh = 0 \<or> ed mod nh \<noteq> 0 then Inl ValueError
      else if ed < 0 \<or> (case cd of None \<Rightarrow> False | Some c \<Rightarrow> c < 0) then Inl RuntimeError
      else Inr \<lparr>mhsa_num_heads = nh, mhsa_embedding_dim = ed, mhsa_cond_dim = cd,
                proj_q_lora_enabled = False, proj_k_lora_enabled = False,
                proj_v_lora_enabled = False, proj_out_lora_enabled = False,
                use_flash_attention = False\<rparr>)"

text \<open>
  Modelled from the spec: the forward pass of the absent class, on shapes. The sequence
  must have the unit's width and the conditioning sequence, when there is one, the
  sequence's batch size and the width the keys and values are projected from; the result
  has the shape of the sequence. The flags play no part in it.
\<close>

definition MultiheadSelfAttention_forward ::
  "MultiheadSelfAttention \<Rightarrow> shape3 \<Rightarrow> shape3 option \<Rightarrow> error + shape3" where
  "MultiheadSelfAttention_forward a x cond =
     (case x of (b, s, d) \<Rightarrow>
        if int d \<noteq> mhsa_embedding_dim a then Inl RuntimeError
        else (case cond of
                None \<Rightarrow>
                  (case mhsa_cond_dim a of
                     None \<Rightarrow> Inr (b, s, d)
                   | Some cd \<Rightarrow> if cd = int d then Inr (b, s, d) else Inl RuntimeError)
              | Some (b', s', d') \<Rightarrow>
                  (case mhsa_cond_dim a of
                     None \<Rightarrow> if d' = d \<and> b' = b then Inr (b, s, d) else Inl RuntimeError
                   | Some cd \<Rightarrow>
                       if cd = int d' \<and> b' = b then Inr (b, s, d) else Inl RuntimeError)))"

text \<open>\<open>checkpoint.checkpoint(f, x, ...)\<close> computes \<open>f(x, ...)\<close> in the forward pass.\<close>

definition checkpoint :: "('a \<Rightarrow> 'b) \<Rightarrow> 'a \<Rightarrow> 'b" where
  "checkpoint f x = f x"

section \<open>The transformer block (\<open>UNet_AttentionBlock\<close>)\<close>

record GeGELU =
  proj :: Linear

definition GeGELU_init :: "int \<Rightarrow> int \<Rightarrow> error + GeGELU" where
  "GeGELU_init c_in c_out = ebind (Linear_init c_in (c_out * 2)) (\<lambda>l. Inr \<lparr>proj = l\<rparr>)"

text \<open>
  \<open>x, gate = self.proj(x).chunk(2, dim=-1)\<close>: \<open>chunk\<close> cuts the last dimension, of size \<open>n\<close>,
  into pieces of size \<open>ceil(n / 2)\<close> (two empty pieces when \<open>n\<close> is 0); unpacking into two
  names needs exactly two pieces. The product \<open>x * gelu(gate)\<close> needs the two pieces to
  broadcast.
\<close>

definition chunk2 :: "nat \<Rightarrow> error + nat \<times> nat" where
  "chunk2 n =
     (if n = 0 then Inr (0, 0)
      else let k = (n + 1) div 2 in if n \<le> k then Inl ValueError else Inr (k, n - k))"

definition GeGELU_forward :: "GeGELU \<Rightarrow> nat \<Rightarrow> error + nat" where
  "GeGELU_forward g d =
     ebind (Linear_forward (proj g) d) (\<lambda>n.
     ebind (chunk2 n) (\<lambda>(x, gate).
       if x = gate then Inr x
       else if gate = 1 then Inr x
       else if x = 1 then Inr gate
       else Inl RuntimeError))"

record UNet_AttentionBlock =
  head_dim :: int
  layernorm_1 :: LayerNorm
  attn1 :: MultiheadSelfAttention
  layernorm_2 :: LayerNorm
  attn2 :: MultiheadSelfAttention
  layernorm_3 :: LayerNorm
  ffn :: "GeGELU \<times> Linear"
  gradient_checkpointing :: bool

definition enable_lora :: "MultiheadSelfAttention \<Rightarrow> MultiheadSelfAttention" where
  "enable_lora a = a\<lparr>proj_q_lora_enabled := True, proj_k_lora_enabled := True,
                     proj_v_lora_enabled := True, proj_out_lora_enabled := True\<rparr>"

definition UNet_AttentionBlock_init ::
  "int \<Rightarrow> int \<Rightarrow> int \<Rightarrow> bool \<Rightarrow> error + UNet_AttentionBlock" where
  "UNet_AttentionBlock_init num_heads embedding_dim cond_dim use_lora =
     (if num_heads = 0 then Inl ZeroDivisionError
      else if embedding_dim mod num_heads \<noteq> 0 then Inl ValueError
      else
        ebind (LayerNorm_init embedding_dim) (\<lambda>ln1.
        ebind (MultiheadSelfAttention_init num_heads embedding_dim None) (\<lambda>a1.
        ebind (LayerNorm_init embedding_dim) (\<lambda>ln2.
        ebind (MultiheadSelfAttention_init num_heads embedding_dim (Some cond_dim)) (\<lambda>a2.
        ebind (LayerNorm_init embedding_dim) (\<lambda>ln3.
        ebind (GeGELU_init embedding_dim (embedding_dim * 4)) (\<lambda>g.
        ebind (Linear_init (embedding_dim * 4) embedding_dim) (\<lambda>l.
          Inr \<lparr>head_dim = embedding_dim div num_heads,
               layernorm_1 = ln1,
               attn1 = (if use_lora then enable_lora a1 else a1),
               layernorm_2 = ln2,
               attn2 = (if use_lora then enable_lora a2 else a2),
               layernorm_3 = ln3,
               ffn = (g, l),
               gradient_checkpointing = False\<rparr>))))))))"

definition ffn_forward :: "GeGELU \<times> Linear \<Rightarrow> shape3 \<Rightarrow> error + shape3" where
  "ffn_forward f x =
     (case x of (b, s, d) \<Rightarrow>
        ebind (GeGELU_forward (fst f) d) (\<lambda>d1.
        ebind (Linear_forward (snd f) d1) (\<lambda>d2. Inr (b, s, d2))))"

definition UNet_AttentionBlock_forward ::
  "UNet_AttentionBlock \<Rightarrow> shape3 \<Rightarrow> shape3 option \<Rightarrow> error + shape3" where
  "UNet_AttentionBlock_forward blk x cond =
     ebind (LayerNorm_forward (layernorm_1 blk) x) (\<lambda>x1.
     ebind (if gradient_checkpointing blk
            then checkpoint (\<lambda>y. MultiheadSelfAttention_forward (attn1 blk) y None) x1
            else MultiheadSelfAttention_forward (attn1 blk) x1 None) (\<lambda>x2.
     ebind (iadd3 x2 x) (\<lambda>x3.
     ebind (LayerNorm_forward (layernorm_2 blk) x3) (\<lambda>x4.
     ebind (if gradient_checkpointing blk
            then checkpoint (\<lambda>(y, c). MultiheadSelfAttention_forward (attn2 blk) y c) (x4, cond)
            else MultiheadSelfAttention_forward (attn2 blk) x4 cond) (\<lambda>x5.
     ebind (iadd3 x5 x3) (\<lambda>x6.
     ebind (LayerNorm_forward (layernorm_3 blk) x6) (\<lambda>x7.
     ebind (ffn_forward (ffn blk) x7) (\<lambda>x8.
     iadd3 x8 x6))))))))"

section \<open>The spatial transformer wrapper (\<open>UNet_TransformerEncoder\<close>)\<close>

record UNet_TransformerEncoder =
  groupnorm :: GroupNorm
  conv_input :: Conv2d
  transformer_block :: UNet_AttentionBlock
  conv_output :: Conv2d

definition UNet_TransformerEncoder_init ::
  "int \<Rightarrow> int \<Rightarrow> int \<Rightarrow> bool \<Rightarrow> error + UNet_TransformerEncoder" where
  "UNet_TransformerEncoder_init num_heads embedding_dim cond_dim use_lora =
     (let channels = embedding_dim * num_heads in
        ebind (GroupNorm_init 32 channels) (\<lambda>gn.
        ebind (Conv2d_init channels channels 1 1 0) (\<lambda>ci.
        ebind (UNet_AttentionBlock_init num_heads channels cond_dim use_lora) (\<lambda>tb.
        ebind (Conv2d_init channels channels 1 1 0) (\<lambda>co.
          Inr \<lparr>groupnorm = gn, conv_input = ci, transformer_block = tb,
               conv_output = co\<rparr>)))))"

text \<open>
  \<open>x.view(b, c, -1)\<close>: the two given sizes must divide the number of elements, and the
  free size cannot be inferred when their product is zero.
\<close>

definition view_b_c_rest :: "nat \<Rightarrow> nat \<Rightarrow> shape4 \<Rightarrow> error + shape3" where
  "view_b_c_rest b c x =
     (case x of (b', c', h', w') \<Rightarrow>
        let numel = b' * c' * h' * w' in
        if b * c = 0 \<or> numel mod (b * c) \<noteq> 0 then Inl RuntimeError
        else Inr (b, c, numel div (b * c)))"

text \<open>\<open>x.transpose(-1, -2)\<close> on a 3-D tensor.\<close>

definition transpose3 :: "shape3 \<Rightarrow> shape3" where
  "transpose3 x = (case x of (b, s, d) \<Rightarrow> (b, d, s))"

text \<open>\<open>x.view(b, c, h, w)\<close>: the number of elements must be kept.\<close>

definition view4 :: "nat \<Rightarrow> nat \<Rightarrow> nat \<Rightarrow> nat \<Rightarrow> shape3 \<Rightarrow> error + shape4" where
  "view4 b c h w x =
     (case x of (b', s', d') \<Rightarrow>
        if b' * s' * d' = b * c * h * w then Inr (b, c, h, w) else Inl RuntimeError)"

definition UNet_TransformerEncoder_forward ::
  "UNet_TransformerEncoder \<Rightarrow> shape4 \<Rightarrow> shape3 option \<Rightarrow> error + shape4" where
  "UNet_TransformerEncoder_forward te x cond =
     (case x of (b, c, h, w) \<Rightarrow>
        ebind (GroupNorm_forward (groupnorm te) x) (\<lambda>x1.
        ebind (Conv2d_forward (conv_input te) x1) (\<lambda>x2.
        ebind (view_b_c_rest b c x2) (\<lambda>x3.
        ebind (UNet_AttentionBlock_forward (transformer_block te) (transpose3 x3) cond) (\<lambda>x4.
        ebind (view4 b c h w (transpose3 x4)) (\<lambda>x5.
        ebind (Conv2d_forward (conv_output te) x5) (\<lambda>x6.
        iadd4 x6 x)))))))"

section \<open>The residual block (\<open>UNet_ResBlock\<close>)\<close>

text \<open>The field \<open>proj_input\<close> is \<open>None\<close> for \<open>nn.Identity()\<close> and a 1x1 convolution otherwise.\<close>

record UNet_ResBlock =
  groupnorm_1 :: GroupNorm
  conv_1 :: Conv2d
  groupnorm_2 :: GroupNorm
  conv_2 :: Conv2d
  t_embed :: Linear
  proj_input :: "Conv2d option"

definition UNet_ResBlock_init :: "int \<Rightarrow> int \<Rightarrow> int \<Rightarrow> error + UNet_ResBlock" where
  "UNet_ResBlock_init c_in c_out t_embed_dim =
     ebind (GroupNorm_init 32 c_in) (\<lambda>gn1.
     ebind (Conv2d_init c_in c_out 3 1 1) (\<lambda>c1.
     ebind (GroupNorm_init 32 c_out) (\<lambda>gn2.
     ebind (Conv2d_init c_out c_out 3 1 1) (\<lambda>c2.
     ebind (Linear_init t_embed_dim c_out) (\<lambda>te.
     ebind (if c_in = c_out then Inr None
            else ebind (Conv2d_init c_in c_out 1 1 0) (\<lambda>cv. Inr (Some cv))) (\<lambda>pr.
       Inr \<lparr>groupnorm_1 = gn1, conv_1 = c1, groupnorm_2 = gn2, conv_2 = c2, t_embed = te,
            proj_input = pr\<rparr>))))))"

definition UNet_ResBlock_forward :: "UNet_ResBlock \<Rightarrow> shape4 \<Rightarrow> shape2 \<Rightarrow> error + shape4" where
  "UNet_ResBlock_forward rb x temb =
     ebind (GroupNorm_forward (groupnorm_1 rb) x) (\<lambda>h1.
     ebind (Conv2d_forward (conv_1 rb) h1) (\<lambda>h2.
     ebind (Linear_forward (t_embed rb) (snd temb)) (\<lambda>tc.
     ebind (iadd4 h2 (fst temb, tc, 1, 1)) (\<lambda>h3.
     ebind (GroupNorm_forward (groupnorm_2 rb) h3) (\<lambda>h4.
     ebind (Conv2d_forward (conv_2 rb) h4) (\<lambda>h5.
     ebind (case proj_input rb of None \<Rightarrow> Inr x | Some cv \<Rightarrow> Conv2d_forward cv x) (\<lambda>x'.
     iadd4 h5 x')))))))"

section \<open>The time embedding\<close>

record TimeEmbedding =
  t_embed_dim :: int
  time_ffn :: "Linear \<times> Linear"

definition TimeEmbedding_init :: "int \<Rightarrow> error + TimeEmbedding" where
  "TimeEmbedding_init d =
     ebind (Linear_init d (d * 4)) (\<lambda>l1.
     ebind (Linear_init (d * 4) (d * 4)) (\<lambda>l2.
       Inr \<lparr>t_embed_dim = d, time_ffn = (l1, l2)\<rparr>))"

text \<open>
  \<open>_get_time_embedding\<close>, on values. \<open>timestep\<close> is a 1-D tensor of integers; the result has
  one row per timestep. The floating-point numbers of the source are real numbers here.
\<close>

definition get_time_embedding :: "TimeEmbedding \<Rightarrow> int list \<Rightarrow> real list list" where
  "get_time_embedding te timestep =
     (let half = t_embed_dim te div 2;
          freqs = map (\<lambda>i. 10000 powr (- (real i) / real_of_int half)) [0 ..< nat half];
          x = map (\<lambda>t. map (\<lambda>f. real_of_int t * f) freqs) timestep
      in map (\<lambda>row. map cos row @ map sin row) x)"

text \<open>The shape of \<open>_get_time_embedding(timestep)\<close> for \<open>n\<close> timesteps.\<close>

definition get_time_embedding_shape :: "TimeEmbedding \<Rightarrow> nat \<Rightarrow> shape2" where
  "get_time_embedding_shape te n = (n, 2 * nat (t_embed_dim te div 2))"

definition TimeEmbedding_forward :: "TimeEmbedding \<Rightarrow> nat \<Rightarrow> error + shape2" where
  "TimeEmbedding_forward te n =
     (case get_time_embedding_shape te n of (n', d) \<Rightarrow>
        ebind (Linear_forward (fst (time_ffn te)) d) (\<lambda>d1.
        ebind (Linear_forward (snd (time_ffn te)) d1) (\<lambda>d2. Inr (n', d2))))"

section \<open>Layer containers, downsampling and upsampling\<close>

text \<open>
  A \<open>TimeStepSequential\<close> is a list of layers; its forward pass dispatches on the class of
  each layer. The network only ever puts these two classes into one.
\<close>

datatype layer = ResBlock UNet_ResBlock | TransformerEncoder UNet_TransformerEncoder

primrec TimeStepSequential_forward ::
  "layer list \<Rightarrow> shape4 \<Rightarrow> shape2 \<Rightarrow> shape3 option \<Rightarrow> error + shape4" where
  "TimeStepSequential_forward [] x temb cond = Inr x"
| "TimeStepSequential_forward (l # ls) x temb cond =
     ebind (case l of
              ResBlock rb \<Rightarrow> UNet_ResBlock_forward rb x temb
            | TransformerEncoder te \<Rightarrow> UNet_TransformerEncoder_forward te x cond)
       (\<lambda>x'. TimeStepSequential_forward ls x' temb cond)"

datatype downsample = UNet_Downsample Conv2d | Identity_down

definition UNet_Downsample_init :: "int \<Rightarrow> error + downsample" where
  "UNet_Downsample_init c = ebind (Conv2d_init c c 3 2 1) (\<lambda>cv. Inr (UNet_Downsample cv))"

definition downsample_forward :: "downsample \<Rightarrow> shape4 \<Rightarrow> error + shape4" where
  "downsample_forward d x =
     (case d of UNet_Downsample cv \<Rightarrow> Conv2d_forward cv x | Identity_down \<Rightarrow> Inr x)"

datatype upsample = UNet_Upsample Conv2d | Identity_up

definition UNet_Upsample_init :: "int \<Rightarrow> error + upsample" where
  "UNet_Upsample_init c = ebind (Conv2d_init c c 3 1 1) (\<lambda>cv. Inr (UNet_Upsample cv))"

text \<open>\<open>F.interpolate(x, scale_factor=2, mode='nearest')\<close> doubles height and width.\<close>

definition interpolate2 :: "shape4 \<Rightarrow> shape4" where
  "interpolate2 x = (case x of (b, c, h, w) \<Rightarrow> (b, c, 2 * h, 2 * w))"

definition UNet_Upsample_forward :: "Conv2d \<Rightarrow> shape4 \<Rightarrow> bool \<Rightarrow> error + shape4" where
  "UNet_Upsample_forward cv x upscale =
     Conv2d_forward cv (if upscale then interpolate2 x else x)"

text \<open>
  The two calls the decoder makes on \<open>up.upsample\<close>. The argument is \<open>Some upscale\<close> when the
  keyword is passed and \<open>None\<close> when it is not; \<open>nn.Identity.forward\<close> takes no keyword.
\<close>

definition upsample_call :: "upsample \<Rightarrow> shape4 \<Rightarrow> bool option \<Rightarrow> error + shape4" where
  "upsample_call u x kw =
     (case u of
        UNet_Upsample cv \<Rightarrow>
          UNet_Upsample_forward cv x (case kw of None \<Rightarrow> True | Some upscale \<Rightarrow> upscale)
      | Identity_up \<Rightarrow> (case kw of None \<Rightarrow> Inr x | Some upscale \<Rightarrow> Inl TypeError))"

definition floordiv :: "int \<Rightarrow> int \<Rightarrow> error + int" where
  "floordiv a b = (if b = 0 then Inl ZeroDivisionError else Inr (a div b))"

section \<open>The encoder\<close>

record down_stage =
  down_block :: "layer list list"
  down_downsample :: downsample

record UNet_Encoder =
  conv_in :: Conv2d
  down :: "down_stage list"

text \<open>One iteration of the constructor's loop, for the stage index \<open>i\<close>.\<close>

definition down_stage_init ::
  "int \<Rightarrow> int \<Rightarrow> int \<Rightarrow> int list \<Rightarrow> bool \<Rightarrow> nat \<Rightarrow> error + down_stage" where
  "down_stage_init num_heads t_dim cond_dim ch_multiplier use_lora i =
     (let ch = 320;
          in_ch_multiplier = 1 # ch_multiplier;
          c_in = ch * in_ch_multiplier ! i;
          c_out = ch * ch_multiplier ! i
      in if int i \<noteq> int (length ch_multiplier) - 1 then
           ebind (UNet_ResBlock_init c_in c_out t_dim) (\<lambda>r1.
           ebind (floordiv c_out num_heads) (\<lambda>e1.
           ebind (UNet_TransformerEncoder_init num_heads e1 cond_dim use_lora) (\<lambda>t1.
           ebind (UNet_ResBlock_init c_out c_out t_dim) (\<lambda>r2.
           ebind (floordiv c_out num_heads) (\<lambda>e2.
           ebind (UNet_TransformerEncoder_init num_heads e2 cond_dim use_lora) (\<lambda>t2.
           ebind (UNet_Downsample_init c_out) (\<lambda>ds.
             Inr \<lparr>down_block = [[ResBlock r1, TransformerEncoder t1],
                                 [ResBlock r2, TransformerEncoder t2]],
                  down_downsample = ds\<rparr>)))))))
         else
           ebind (UNet_ResBlock_init c_in c_out t_dim) (\<lambda>r1.
           ebind (UNet_ResBlock_init c_out c_out t_dim) (\<lambda>r2.
             Inr \<lparr>down_block = [[ResBlock r1], [ResBlock r2]],
                  down_downsample = Identity_down\<rparr>)))"

definition UNet_Encoder_init ::
  "int \<Rightarrow> int \<Rightarrow> int \<Rightarrow> int \<Rightarrow> int list \<Rightarrow> bool \<Rightarrow> error + UNet_Encoder" where
  "UNet_Encoder_init c_in num_heads t_dim cond_dim ch_multiplier use_lora =
     ebind (Conv2d_init c_in 320 3 1 1) (\<lambda>ci.
     ebind (emap (down_stage_init num_heads t_dim cond_dim ch_multiplier use_lora)
              [0 ..< length ch_multiplier]) (\<lambda>ds.
       Inr \<lparr>conv_in = ci, down = ds\<rparr>))"

text \<open>
  The skip-connection stack is a Python list: \<open>append\<close> adds at the end, \<open>pop()\<close> removes the
  last element. The inner loop of the encoder runs the layers of one stage and appends
  every output.
\<close>

primrec encoder_block_forward ::
  "layer list list \<Rightarrow> shape4 \<Rightarrow> shape2 \<Rightarrow> shape3 option \<Rightarrow> shape4 list
     \<Rightarrow> error + shape4 \<times> shape4 list" where
  "encoder_block_forward [] x temb cond skip_connections = Inr (x, skip_connections)"
| "encoder_block_forward (l # ls) x temb cond skip_connections =
     ebind (TimeStepSequential_forward l x temb cond) (\<lambda>x'.
       encoder_block_forward ls x' temb cond (skip_connections @ [x']))"

primrec encoder_down_forward ::
  "down_stage list \<Rightarrow> shape4 \<Rightarrow> shape2 \<Rightarrow> shape3 option \<Rightarrow> shape4 list
     \<Rightarrow> error + shape4 \<times> shape4 list" where
  "encoder_down_forward [] x temb cond skip_connections = Inr (x, skip_connections)"
| "encoder_down_forward (d # ds) x temb cond skip_connections =
     ebind (encoder_block_forward (down_block d) x temb cond skip_connections) (\<lambda>(x1, sk1).
     ebind (downsample_forward (down_downsample d) x1) (\<lambda>x2.
       encoder_down_forward ds x2 temb cond
         (if down_downsample d \<noteq> Identity_down then sk1 @ [x2] else sk1)))"

definition UNet_Encoder_forward ::
  "UNet_Encoder \<Rightarrow> shape4 \<Rightarrow> shape2 \<Rightarrow> shape3 option \<Rightarrow> error + shape4 \<times> shape4 list" where
  "UNet_Encoder_forward enc x temb cond =
     ebind (Conv2d_forward (conv_in enc) x) (\<lambda>x0.
       encoder_down_forward (down enc) x0 temb cond [x0])"

section \<open>The decoder\<close>

record up_stage =
  up_block :: "layer list list"
  up_upsample :: upsample

record UNet_Decoder =
  up :: "up_stage list"

definition up_stage_init ::
  "int \<Rightarrow> int \<Rightarrow> int \<Rightarrow> int list \<Rightarrow> bool \<Rightarrow> nat \<Rightarrow> error + up_stage" where
  "up_stage_init num_heads t_dim cond_dim ch_multiplier use_lora i =
     (let ch = 320;
          decoder_channels = ch_multiplier @ [4];
          in_ch = decoder_channels ! (i + 1) * ch;
          out_ch = decoder_channels ! i * ch;
          mid_ch = (if i > 0 then decoder_channels ! (i - 1) * ch else ch)
      in ebind
           (if int i = int (length ch_multiplier) - 1 then
              ebind (UNet_ResBlock_init (in_ch + out_ch) out_ch t_dim) (\<lambda>r1.
              ebind (UNet_ResBlock_init (out_ch + out_ch) out_ch t_dim) (\<lambda>r2.
              ebind (UNet_ResBlock_init (out_ch + mid_ch) out_ch t_dim) (\<lambda>r3.
                Inr [[ResBlock r1], [ResBlock r2], [ResBlock r3]])))
            else
              ebind (UNet_ResBlock_init (in_ch + out_ch) out_ch t_dim) (\<lambda>r1.
              ebind (floordiv out_ch num_heads) (\<lambda>e1.
              ebind (UNet_TransformerEncoder_init num_heads e1 cond_dim use_lora) (\<lambda>t1.
              ebind (UNet_ResBlock_init (out_ch + out_ch) out_ch t_dim) (\<lambda>r2.
              ebind (floordiv out_ch num_heads) (\<lambda>e2.
              ebind (UNet_TransformerEncoder_init num_heads e2 cond_dim use_lora) (\<lambda>t2.
              ebind (UNet_ResBlock_init (out_ch + mid_ch) out_ch t_dim) (\<lambda>r3.
              ebind (floordiv out_ch num_heads) (\<lambda>e3.
              ebind (UNet_TransformerEncoder_init num_heads e3 cond_dim use_lora) (\<lambda>t3.
                Inr [[ResBlock r1, TransformerEncoder t1],
                     [ResBlock r2, TransformerEncoder t2],
                     [ResBlock r3, TransformerEncoder t3]]))))))))))
           (\<lambda>blk.
      ebind (if i \<noteq> 0 then UNet_Upsample_init out_ch else Inr Identity_up) (\<lambda>us.
        Inr \<lparr>up_block = blk, up_upsample = us\<rparr>)))"

definition UNet_Decoder_init ::
  "int \<Rightarrow> int \<Rightarrow> int \<Rightarrow> int list \<Rightarrow> bool \<Rightarrow> error + UNet_Decoder" where
  "UNet_Decoder_init num_heads t_dim cond_dim ch_multiplier use_lora =
     ebind (emap (up_stage_init num_heads t_dim cond_dim ch_multiplier use_lora)
              (rev [0 ..< length ch_multiplier])) (\<lambda>us.
       Inr \<lparr>up = us\<rparr>)"

text \<open>
  The inner loop of the decoder: every layer pops one skip tensor (\<open>IndexError\<close> on an
  empty list), concatenates it to the activation and runs. The list is mutated, so it is
  returned with the activation.
\<close>

primrec decoder_block_forward ::
  "layer list list \<Rightarrow> shape4 \<Rightarrow> shape4 list \<Rightarrow> shape2 \<Rightarrow> shape3 option
     \<Rightarrow> error + shape4 \<times> shape4 list" where
  "decoder_block_forward [] x skip_connections temb cond = Inr (x, skip_connections)"
| "decoder_block_forward (l # ls) x skip_connections temb cond =
     (if skip_connections = [] then Inl IndexError
      else let tmp = last skip_connections; sk = butlast skip_connections in
        ebind (cat1 x tmp) (\<lambda>x1.
        ebind (TimeStepSequential_forward l x1 temb cond) (\<lambda>x2.
          decoder_block_forward ls x2 sk temb cond)))"

text \<open>\<open>t.shape[-1]\<close> of a 4-D tensor.\<close>

definition width :: "shape4 \<Rightarrow> nat" where
  "width x = (case x of (b, c, h, w) \<Rightarrow> w)"

primrec decoder_up_forward ::
  "up_stage list \<Rightarrow> shape4 \<Rightarrow> shape4 list \<Rightarrow> shape2 \<Rightarrow> shape3 option
     \<Rightarrow> error + shape4 \<times> shape4 list" where
  "decoder_up_forward [] x skip_connections temb cond = Inr (x, skip_connections)"
| "decoder_up_forward (u # us) x skip_connections temb cond =
     (if skip_connections = [] then Inl IndexError
      else let prev_hw = width (last skip_connections) in
        ebind (decoder_block_forward (up_block u) x skip_connections temb cond) (\<lambda>(x1, sk).
        ebind (if sk \<noteq> [] \<and> width (last sk) = prev_hw
               then upsample_call (up_upsample u) x1 (Some False)
               else upsample_call (up_upsample u) x1 None) (\<lambda>x2.
          decoder_up_forward us x2 sk temb cond)))"

definition UNet_Decoder_forward ::
  "UNet_Decoder \<Rightarrow> shape4 \<Rightarrow> shape4 list \<Rightarrow> shape2 \<Rightarrow> shape3 option
     \<Rightarrow> error + shape4 \<times> shape4 list" where
  "UNet_Decoder_forward dec x skip_connections temb cond =
     decoder_up_forward (up dec) x skip_connections temb cond"

section \<open>The top-level network\<close>

record UNet =
  time_embedding :: TimeEmbedding
  encoder :: UNet_Encoder
  bottleneck :: "layer list"
  decoder :: UNet_Decoder
  output_norm :: GroupNorm
  output_conv :: Conv2d

text \<open>
  The constructor does not pass \<open>ch_multiplier\<close> on, so encoder and decoder are built with
  their default schedule \<open>[1, 2, 4, 4]\<close>.
\<close>

definition UNet_init :: "int \<Rightarrow> int \<Rightarrow> int \<Rightarrow> int \<Rightarrow> int \<Rightarrow> bool \<Rightarrow> error + UNet" where
  "UNet_init c_in c_out num_heads t_dim cond_dim use_lora =
     ebind (TimeEmbedding_init t_dim) (\<lambda>te.
     ebind (UNet_Encoder_init c_in num_heads (t_dim * 4) cond_dim [1, 2, 4, 4] use_lora)
       (\<lambda>enc.
     ebind (UNet_ResBlock_init 1280 1280 (t_dim * 4)) (\<lambda>r1.
     ebind (UNet_TransformerEncoder_init 8 160 cond_dim use_lora) (\<lambda>t1.
     ebind (UNet_ResBlock_init 1280 1280 (t_dim * 4)) (\<lambda>r2.
     ebind (UNet_Decoder_init num_heads (t_dim * 4) cond_dim [1, 2, 4, 4] use_lora)
       (\<lambda>dec.
     ebind (GroupNorm_init 32 320) (\<lambda>gn.
     ebind (Conv2d_init 320 c_out 3 1 1) (\<lambda>co.
       Inr \<lparr>time_embedding = te, encoder = enc,
            bottleneck = [ResBlock r1, TransformerEncoder t1, ResBlock r2],
            decoder = dec, output_norm = gn, output_conv = co\<rparr>))))))))"

text \<open>
  The forward pass, on a latent of shape \<open>x\<close>, a 1-D tensor of \<open>length timestep\<close> integer
  timesteps and a conditioning sequence of shape \<open>cond\<close>.
\<close>

definition UNet_forward :: "UNet \<Rightarrow> shape4 \<Rightarrow> int list \<Rightarrow> shape3 \<Rightarrow> error + shape4" where
  "UNet_forward m x timestep cond =
     ebind (TimeEmbedding_forward (time_embedding m) (length timestep)) (\<lambda>temb.
     ebind (UNet_Encoder_forward (encoder m) x temb (Some cond)) (\<lambda>(x1, skip_connections).
     ebind (TimeStepSequential_forward (bottleneck m) x1 temb (Some cond)) (\<lambda>x2.
     ebind (UNet_Decoder_forward (decoder m) x2 skip_connections temb (Some cond)) (\<lambda>(x3, sk).
     ebind (GroupNorm_forward (output_norm m) x3) (\<lambda>x4.
       Conv2d_forward (output_conv m) x4)))))"

section \<open>The pushes of an encoder pass, as the specification words them\<close>

text \<open>
  The specification lists what an encoder pass pushes onto the skip stack: the output of
  \<open>conv_in\<close>, then the output of every layer of every stage, and the output of every real
  downsample. \<open>layer_outputs\<close> are the successive outputs of the layers of one stage,
  \<open>stage_pushes\<close> adds the output of a downsample that is not the identity, and
  \<open>encoder_pushes\<close> runs the stages in order, each on the activation the previous one left.
\<close>

primrec layer_outputs ::
  "layer list list \<Rightarrow> shape4 \<Rightarrow> shape2 \<Rightarrow> shape3 option \<Rightarrow> error + shape4 list" where
  "layer_outputs [] x temb cond = Inr []"
| "layer_outputs (l # ls) x temb cond =
     ebind (TimeStepSequential_forward l x temb cond) (\<lambda>x'.
     ebind (layer_outputs ls x' temb cond) (\<lambda>outs. Inr (x' # outs)))"

definition stage_pushes ::
  "down_stage \<Rightarrow> shape4 \<Rightarrow> shape2 \<Rightarrow> shape3 option \<Rightarrow> error + shape4 list" where
  "stage_pushes d x temb cond =
     ebind (layer_outputs (down_block d) x temb cond) (\<lambda>outs.
       case down_downsample d of
         Identity_down \<Rightarrow> Inr outs
       | UNet_Downsample cv \<Rightarrow>
           ebind (Conv2d_forward cv (last (x # outs))) (\<lambda>y. Inr (outs @ [y])))"

primrec encoder_pushes ::
  "down_stage list \<Rightarrow> shape4 \<Rightarrow> shape2 \<Rightarrow> shape3 option \<Rightarrow> error + shape4 list" where
  "encoder_pushes [] x temb cond = Inr []"
| "encoder_pushes (d # ds) x temb cond =
     ebind (stage_pushes d x temb cond) (\<lambda>ps.
     ebind (encoder_pushes ds (last (x # ps)) temb cond) (\<lambda>rest. Inr (ps @ rest)))"

text \<open>The number of pushes the structure of the encoder announces.\<close>

definition stage_push_count :: "down_stage \<Rightarrow> nat" where
  "stage_push_count d =
     length (down_block d) + (if down_downsample d = Identity_down then 0 else 1)"

section \<open>The configuration toggles of the network\<close>

text \<open>
  \<open>named_modules()\<close> of the encoder, the bottleneck and the decoder visits every layer of
  every stage; an assignment to the modules of one class is a map over the layers.
\<close>

definition encoder_map_layers :: "(layer \<Rightarrow> layer) \<Rightarrow> UNet_Encoder \<Rightarrow> UNet_Encoder" where
  "encoder_map_layers f enc =
     enc\<lparr>down := map (\<lambda>d. d\<lparr>down_block := map (map f) (down_block d)\<rparr>) (down enc)\<rparr>"

definition decoder_map_layers :: "(layer \<Rightarrow> layer) \<Rightarrow> UNet_Decoder \<Rightarrow> UNet_Decoder" where
  "decoder_map_layers f dec =
     dec\<lparr>up := map (\<lambda>u. u\<lparr>up_block := map (map f) (up_block u)\<rparr>) (up dec)\<rparr>"

text \<open>\<open>module.gradient_checkpointing = enabled\<close> on a \<open>UNet_AttentionBlock\<close>.\<close>

definition set_gradient_checkpointing :: "bool \<Rightarrow> layer \<Rightarrow> layer" where
  "set_gradient_checkpointing enabled l =
     (case l of
        ResBlock rb \<Rightarrow> ResBlock rb
      | TransformerEncoder te \<Rightarrow>
          TransformerEncoder
            (te\<lparr>transformer_block := (transformer_block te)\<lparr>gradient_checkpointing := enabled\<rparr>\<rparr>))"

text \<open>
  The method returns nothing: its result is the mutated network. The default of the
  parameter is \<open>enabled=False\<close>.
\<close>

definition gradient_checkpointing_enabled :: "UNet \<Rightarrow> bool \<Rightarrow> UNet" where
  "gradient_checkpointing_enabled m enabled =
     m\<lparr>encoder := encoder_map_layers (set_gradient_checkpointing enabled) (encoder m),
       bottleneck := map (set_gradient_checkpointing enabled) (bottleneck m),
       decoder := decoder_map_layers (set_gradient_checkpointing enabled) (decoder m)\<rparr>"

text \<open>\<open>module.use_flash_attention = True\<close> on the two attention units of a block.\<close>

definition set_flash_attention :: "layer \<Rightarrow> layer" where
  "set_flash_attention l =
     (case l of
        ResBlock rb \<Rightarrow> ResBlock rb
      | TransformerEncoder te \<Rightarrow>
          TransformerEncoder
            (te\<lparr>transformer_block := (transformer_block te)
                 \<lparr>attn1 := (attn1 (transformer_block te))\<lparr>use_flash_attention := True\<rparr>,
                  attn2 := (attn2 (transformer_block te))\<lparr>use_flash_attention := True\<rparr>\<rparr>\<rparr>))"

definition enable_flash_attn :: "UNet \<Rightarrow> UNet" where
  "enable_flash_attn m =
     m\<lparr>encoder := encoder_map_layers set_flash_attention (encoder m),
       bottleneck := map set_flash_attention (bottleneck m),
       decoder := decoder_map_layers set_flash_attention (decoder m)\<rparr>"

text \<open>The transformer blocks and the attention units of a network, in module order.\<close>

definition layer_attention_blocks :: "layer \<Rightarrow> UNet_AttentionBlock list" where
  "layer_attention_blocks l =
     (case l of ResBlock rb \<Rightarrow> [] | TransformerEncoder te \<Rightarrow> [transformer_block te])"

definition attention_blocks :: "UNet \<Rightarrow> UNet_AttentionBlock list" where
  "attention_blocks m =
     concat (map layer_attention_blocks
       (concat (concat (map down_block (down (encoder m))))
        @ bottleneck m
        @ concat (concat (map up_block (up (decoder m))))))"

definition attention_units :: "UNet \<Rightarrow> MultiheadSelfAttention list" where
  "attention_units m = concat (map (\<lambda>blk. [attn1 blk, attn2 blk]) (attention_blocks m))"

section \<open>The forward pass on values\<close>

text \<open>
  The numerical output of the forward pass. A tensor is a value of an arbitrary type
  \<open>'t\<close>. The operations of PyTorch on tensors that the network calls are the fields of
  \<open>tensor_ops\<close>, and the numerical function of every module with trained parameters (a
  convolution, a normalisation, a linear layer, the feed-forward unit) is a function
  \<open>'t \<Rightarrow> error + 't\<close>, held in a tree of functions with the shape of the module tree, as a
  loaded state dict gives every module its own parameters. The forward pass below is the
  source's, on these functions; it reads the configuration (the flags among it) in the
  module tree.
\<close>

record 't tensor_ops =
  silu :: "'t \<Rightarrow> 't"
  iadd :: "'t \<Rightarrow> 't \<Rightarrow> error + 't"
  cat_dim1 :: "'t \<Rightarrow> 't \<Rightarrow> error + 't"
  interpolate_nearest :: "'t \<Rightarrow> 't"
  last_dim :: "'t \<Rightarrow> nat"
  to_tokens :: "'t \<Rightarrow> 't \<Rightarrow> error + 't"
  from_tokens :: "'t \<Rightarrow> 't \<Rightarrow> error + 't"
  broadcast_hw :: "'t \<Rightarrow> 't"
  time_features :: "real list list \<Rightarrow> 't"

text \<open>
  \<open>iadd x y\<close> is \<open>x += y\<close>, \<open>cat_dim1 x y\<close> is \<open>torch.cat([x, y], dim=1)\<close>, \<open>interpolate_nearest\<close> is
  \<open>F.interpolate(x, scale_factor=2, mode='nearest')\<close>, \<open>last_dim x\<close> is \<open>x.shape[-1]\<close>,
  \<open>to_tokens x0 x\<close> is \<open>x.view(b, c, -1).transpose(-1, -2)\<close> and \<open>from_tokens x0 x\<close> is
  \<open>x.transpose(-1, -2).view(b, c, h, w)\<close> for \<open>b, c, h, w = x0.shape\<close>, \<open>broadcast_hw t\<close> is
  \<open>t[:, :, None, None]\<close>, and \<open>time_features\<close> makes a tensor of the rows of the sinusoidal
  embedding.
\<close>

text \<open>
  Modelled from the spec: the numerical behaviour of the absent class
  \<open>MultiheadSelfAttention\<close>. The unit has a reference computation and an accelerated code
  path (section 4.1), and the flag \<open>use_flash_attention\<close> selects between them. That the two
  return the same is the unit's contract in the spec; it is not built into the model.
\<close>

record 't MultiheadSelfAttention_paths =
  reference_path :: "'t \<Rightarrow> 't option \<Rightarrow> error + 't"
  accelerated_path :: "'t \<Rightarrow> 't option \<Rightarrow> error + 't"

text \<open>Modelled from the spec: the forward pass of the absent class, on values.\<close>

definition MultiheadSelfAttention_forward_values ::
  "MultiheadSelfAttention \<Rightarrow> 't MultiheadSelfAttention_paths \<Rightarrow> 't \<Rightarrow> 't option
     \<Rightarrow> error + 't" where
  "MultiheadSelfAttention_forward_values a av x cond =
     (if use_flash_attention a then accelerated_path av x cond else reference_path av x cond)"

record 't UNet_AttentionBlock_fns =
  ab_layernorm_1_fn :: "'t \<Rightarrow> error + 't"
  ab_attn1_paths :: "'t MultiheadSelfAttention_paths"
  ab_layernorm_2_fn :: "'t \<Rightarrow> error + 't"
  ab_attn2_paths :: "'t MultiheadSelfAttention_paths"
  ab_layernorm_3_fn :: "'t \<Rightarrow> error + 't"
  ab_ffn_fn :: "'t \<Rightarrow> error + 't"

definition UNet_AttentionBlock_forward_values ::
  "'t tensor_ops \<Rightarrow> UNet_AttentionBlock \<Rightarrow> 't UNet_AttentionBlock_fns \<Rightarrow> 't \<Rightarrow> 't option
     \<Rightarrow> error + 't" where
  "UNet_AttentionBlock_forward_values ops blk bv x cond =
     ebind (ab_layernorm_1_fn bv x) (\<lambda>x1.
     ebind (if gradient_checkpointing blk
            then checkpoint
                   (\<lambda>y. MultiheadSelfAttention_forward_values (attn1 blk) (ab_attn1_paths bv)
                          y None) x1
            else MultiheadSelfAttention_forward_values (attn1 blk) (ab_attn1_paths bv) x1 None)
       (\<lambda>x2.
     ebind (iadd ops x2 x) (\<lambda>x3.
     ebind (ab_layernorm_2_fn bv x3) (\<lambda>x4.
     ebind (if gradient_checkpointing blk
            then checkpoint
                   (\<lambda>(y, c). MultiheadSelfAttention_forward_values (attn2 blk)
                               (ab_attn2_paths bv) y c) (x4, cond)
            else MultiheadSelfAttention_forward_values (attn2 blk) (ab_attn2_paths bv) x4 cond)
       (\<lambda>x5.
     ebind (iadd ops x5 x3) (\<lambda>x6.
     ebind (ab_layernorm_3_fn bv x6) (\<lambda>x7.
     ebind (ab_ffn_fn bv x7) (\<lambda>x8.
     iadd ops x8 x6))))))))"

record 't UNet_TransformerEncoder_fns =
  te_groupnorm_fn :: "'t \<Rightarrow> error + 't"
  te_conv_input_fn :: "'t \<Rightarrow> error + 't"
  te_transformer_block_fns :: "'t UNet_AttentionBlock_fns"
  te_conv_output_fn :: "'t \<Rightarrow> error + 't"

definition UNet_TransformerEncoder_forward_values ::
  "'t tensor_ops \<Rightarrow> UNet_TransformerEncoder \<Rightarrow> 't UNet_TransformerEncoder_fns \<Rightarrow> 't
     \<Rightarrow> 't option \<Rightarrow> error + 't" where
  "UNet_TransformerEncoder_forward_values ops te tv x cond =
     ebind (te_groupnorm_fn tv x) (\<lambda>x1.
     ebind (te_conv_input_fn tv x1) (\<lambda>x2.
     ebind (to_tokens ops x x2) (\<lambda>x3.
     ebind (UNet_AttentionBlock_forward_values ops (transformer_block te)
              (te_transformer_block_fns tv) x3 cond) (\<lambda>x4.
     ebind (from_tokens ops x x4) (\<lambda>x5.
     ebind (te_conv_output_fn tv x5) (\<lambda>x6.
     iadd ops x6 x))))))"

record 't UNet_ResBlock_fns =
  rb_groupnorm_1_fn :: "'t \<Rightarrow> error + 't"
  rb_conv_1_fn :: "'t \<Rightarrow> error + 't"
  rb_groupnorm_2_fn :: "'t \<Rightarrow> error + 't"
  rb_conv_2_fn :: "'t \<Rightarrow> error + 't"
  rb_t_embed_fn :: "'t \<Rightarrow> error + 't"
  rb_proj_input_fn :: "'t \<Rightarrow> error + 't"

definition UNet_ResBlock_forward_values ::
  "'t tensor_ops \<Rightarrow> UNet_ResBlock \<Rightarrow> 't UNet_ResBlock_fns \<Rightarrow> 't \<Rightarrow> 't \<Rightarrow> error + 't" where
  "UNet_ResBlock_forward_values ops rb rv x temb =
     ebind (rb_groupnorm_1_fn rv x) (\<lambda>h1.
     ebind (rb_conv_1_fn rv (silu ops h1)) (\<lambda>h2.
     ebind (rb_t_embed_fn rv (silu ops temb)) (\<lambda>time.
     ebind (iadd ops h2 (broadcast_hw ops time)) (\<lambda>h3.
     ebind (rb_groupnorm_2_fn rv h3) (\<lambda>h4.
     ebind (rb_conv_2_fn rv (silu ops h4)) (\<lambda>h5.
     ebind (case proj_input rb of None \<Rightarrow> Inr x | Some cv \<Rightarrow> rb_proj_input_fn rv x) (\<lambda>x'.
     iadd ops h5 x')))))))"

datatype 't layer_fns = ResBlock_fns "'t UNet_ResBlock_fns"
  | TransformerEncoder_fns "'t UNet_TransformerEncoder_fns"

text \<open>
  One layer of a \<open>TimeStepSequential\<close> with its functions. Functions of the other class do
  not belong to the layer: parameters that do not fit the module tree are refused when
  they are loaded.
\<close>

definition layer_forward_values ::
  "'t tensor_ops \<Rightarrow> layer \<Rightarrow> 't layer_fns \<Rightarrow> 't \<Rightarrow> 't \<Rightarrow> 't option \<Rightarrow> error + 't" where
  "layer_forward_values ops l v x temb cond =
     (case l of
        ResBlock rb \<Rightarrow>
          (case v of
             ResBlock_fns rv \<Rightarrow> UNet_ResBlock_forward_values ops rb rv x temb
           | TransformerEncoder_fns tv \<Rightarrow> Inl RuntimeError)
      | TransformerEncoder te \<Rightarrow>
          (case v of
             ResBlock_fns rv \<Rightarrow> Inl RuntimeError
           | TransformerEncoder_fns tv \<Rightarrow>
               UNet_TransformerEncoder_forward_values ops te tv x cond))"

primrec TimeStepSequential_forward_values ::
  "'t tensor_ops \<Rightarrow> layer list \<Rightarrow> 't layer_fns list \<Rightarrow> 't \<Rightarrow> 't \<Rightarrow> 't option
     \<Rightarrow> error + 't" where
  "TimeStepSequential_forward_values ops [] vs x temb cond =
     (case vs of [] \<Rightarrow> Inr x | v # vs' \<Rightarrow> Inl RuntimeError)"
| "TimeStepSequential_forward_values ops (l # ls) vs x temb cond =
     (case vs of
        [] \<Rightarrow> Inl RuntimeError
      | v # vs' \<Rightarrow>
          ebind (layer_forward_values ops l v x temb cond) (\<lambda>x'.
            TimeStepSequential_forward_values ops ls vs' x' temb cond))"

record 't down_stage_fns =
  down_block_fns :: "'t layer_fns list list"
  down_downsample_fn :: "'t \<Rightarrow> error + 't"

record 't UNet_Encoder_fns =
  conv_in_fn :: "'t \<Rightarrow> error + 't"
  down_fns :: "'t down_stage_fns list"

primrec encoder_block_forward_values ::
  "'t tensor_ops \<Rightarrow> layer list list \<Rightarrow> 't layer_fns list list \<Rightarrow> 't \<Rightarrow> 't \<Rightarrow> 't option
     \<Rightarrow> 't list \<Rightarrow> error + 't \<times> 't list" where
  "encoder_block_forward_values ops [] vss x temb cond skip_connections =
     (case vss of [] \<Rightarrow> Inr (x, skip_connections) | vs # vss' \<Rightarrow> Inl RuntimeError)"
| "encoder_block_forward_values ops (l # ls) vss x temb cond skip_connections =
     (case vss of
        [] \<Rightarrow> Inl RuntimeError
      | vs # vss' \<Rightarrow>
          ebind (TimeStepSequential_forward_values ops l vs x temb cond) (\<lambda>x'.
            encoder_block_forward_values ops ls vss' x' temb cond (skip_connections @ [x'])))"

primrec encoder_down_forward_values ::
  "'t tensor_ops \<Rightarrow> down_stage list \<Rightarrow> 't down_stage_fns list \<Rightarrow> 't \<Rightarrow> 't \<Rightarrow> 't option
     \<Rightarrow> 't list \<Rightarrow> error + 't \<times> 't list" where
  "encoder_down_forward_values ops [] dvs x temb cond skip_connections =
     (case dvs of [] \<Rightarrow> Inr (x, skip_connections) | dv # dvs' \<Rightarrow> Inl RuntimeError)"
| "encoder_down_forward_values ops (d # ds) dvs x temb cond skip_connections =
     (case dvs of
        [] \<Rightarrow> Inl RuntimeError
      | dv # dvs' \<Rightarrow>
          ebind (encoder_block_forward_values ops (down_block d) (down_block_fns dv) x temb cond
                   skip_connections) (\<lambda>(x1, sk1).
          ebind (case down_downsample d of
                   UNet_Downsample cv \<Rightarrow> down_downsample_fn dv x1
                 | Identity_down \<Rightarrow> Inr x1) (\<lambda>x2.
            encoder_down_forward_values ops ds dvs' x2 temb cond
              (if down_downsample d \<noteq> Identity_down then sk1 @ [x2] else sk1))))"

definition UNet_Encoder_forward_values ::
  "'t tensor_ops \<Rightarrow> UNet_Encoder \<Rightarrow> 't UNet_Encoder_fns \<Rightarrow> 't \<Rightarrow> 't \<Rightarrow> 't option
     \<Rightarrow> error + 't \<times> 't list" where
  "UNet_Encoder_forward_values ops enc ev x temb cond =
     ebind (conv_in_fn ev x) (\<lambda>x0.
       encoder_down_forward_values ops (down enc) (down_fns ev) x0 temb cond [x0])"

record 't up_stage_fns =
  up_block_fns :: "'t layer_fns list list"
  up_upsample_fn :: "'t \<Rightarrow> error + 't"

record 't UNet_Decoder_fns =
  up_fns :: "'t up_stage_fns list"

primrec decoder_block_forward_values ::
  "'t tensor_ops \<Rightarrow> layer list list \<Rightarrow> 't layer_fns list list \<Rightarrow> 't \<Rightarrow> 't list \<Rightarrow> 't
     \<Rightarrow> 't option \<Rightarrow> error + 't \<times> 't list" where
  "decoder_block_forward_values ops [] vss x skip_connections temb cond =
     (case vss of [] \<Rightarrow> Inr (x, skip_connections) | vs # vss' \<Rightarrow> Inl RuntimeError)"
| "decoder_block_forward_values ops (l # ls) vss x skip_connections temb cond =
     (case vss of
        [] \<Rightarrow> Inl RuntimeError
      | vs # vss' \<Rightarrow>
          if skip_connections = [] then Inl IndexError
          else let tmp = last skip_connections; sk = butlast skip_connections in
            ebind (cat_dim1 ops x tmp) (\<lambda>x1.
            ebind (TimeStepSequential_forward_values ops l vs x1 temb cond) (\<lambda>x2.
              decoder_block_forward_values ops ls vss' x2 sk temb cond)))"

definition upsample_call_values ::
  "'t tensor_ops \<Rightarrow> upsample \<Rightarrow> ('t \<Rightarrow> error + 't) \<Rightarrow> 't \<Rightarrow> bool option \<Rightarrow> error + 't" where
  "upsample_call_values ops u conv_fn x kw =
     (case u of
        UNet_Upsample cv \<Rightarrow>
          (if (case kw of None \<Rightarrow> True | Some upscale \<Rightarrow> upscale)
           then conv_fn (interpolate_nearest ops x) else conv_fn x)
      | Identity_up \<Rightarrow> (case kw of None \<Rightarrow> Inr x | Some upscale \<Rightarrow> Inl TypeError))"

primrec decoder_up_forward_values ::
  "'t tensor_ops \<Rightarrow> up_stage list \<Rightarrow> 't up_stage_fns list \<Rightarrow> 't \<Rightarrow> 't list \<Rightarrow> 't \<Rightarrow> 't option
     \<Rightarrow> error + 't \<times> 't list" where
  "decoder_up_forward_values ops [] uvs x skip_connections temb cond =
     (case uvs of [] \<Rightarrow> Inr (x, skip_connections) | uv # uvs' \<Rightarrow> Inl RuntimeError)"
| "decoder_up_forward_values ops (u # us) uvs x skip_connections temb cond =
     (case uvs of
        [] \<Rightarrow> Inl RuntimeError
      | uv # uvs' \<Rightarrow>
          if skip_connections = [] then Inl IndexError
          else let prev_hw = last_dim ops (last skip_connections) in
            ebind (decoder_block_forward_values ops (up_block u) (up_block_fns uv) x
                     skip_connections temb cond) (\<lambda>(x1, sk).
            ebind (if sk \<noteq> [] \<and> last_dim ops (last sk) = prev_hw
                   then upsample_call_values ops (up_upsample u) (up_upsample_fn uv) x1
                          (Some False)
                   else upsample_call_values ops (up_upsample u) (up_upsample_fn uv) x1 None)
              (\<lambda>x2. decoder_up_forward_values ops us uvs' x2 sk temb cond)))"

definition UNet_Decoder_forward_values ::
  "'t tensor_ops \<Rightarrow> UNet_Decoder \<Rightarrow> 't UNet_Decoder_fns \<Rightarrow> 't \<Rightarrow> 't list \<Rightarrow> 't \<Rightarrow> 't option
     \<Rightarrow> error + 't \<times> 't list" where
  "UNet_Decoder_forward_values ops dec dv x skip_connections temb cond =
     decoder_up_forward_values ops (up dec) (up_fns dv) x skip_connections temb cond"

record 't UNet_fns =
  time_linear_1_fn :: "'t \<Rightarrow> error + 't"
  time_linear_2_fn :: "'t \<Rightarrow> error + 't"
  encoder_fns :: "'t UNet_Encoder_fns"
  bottleneck_fns :: "'t layer_fns list"
  decoder_fns :: "'t UNet_Decoder_fns"
  output_norm_fn :: "'t \<Rightarrow> error + 't"
  output_conv_fn :: "'t \<Rightarrow> error + 't"

definition TimeEmbedding_forward_values ::
  "'t tensor_ops \<Rightarrow> TimeEmbedding \<Rightarrow> 't UNet_fns \<Rightarrow> int list \<Rightarrow> error + 't" where
  "TimeEmbedding_forward_values ops te w timestep =
     ebind (time_linear_1_fn w (time_features ops (get_time_embedding te timestep))) (\<lambda>t1.
       time_linear_2_fn w (silu ops t1))"

definition UNet_forward_values ::
  "'t tensor_ops \<Rightarrow> 't UNet_fns \<Rightarrow> UNet \<Rightarrow> 't \<Rightarrow> int list \<Rightarrow> 't \<Rightarrow> error + 't" where
  "UNet_forward_values ops w m x timestep cond =
     ebind (TimeEmbedding_forward_values ops (time_embedding m) w timestep) (\<lambda>temb.
     ebind (UNet_Encoder_forward_values ops (encoder m) (encoder_fns w) x temb (Some cond))
       (\<lambda>(x1, skip_connections).
     ebind (TimeStepSequential_forward_values ops (bottleneck m) (bottleneck_fns w) x1 temb
              (Some cond)) (\<lambda>x2.
     ebind (UNet_Decoder_forward_values ops (decoder m) (decoder_fns w) x2 skip_connections
              temb (Some cond)) (\<lambda>(x3, sk).
     ebind (output_norm_fn w x3) (\<lambda>x4.
       output_conv_fn w (silu ops x4))))))"

text \<open>The attention units of a tree of functions, and the contract of one unit.\<close>

definition layer_fns_paths :: "'t layer_fns \<Rightarrow> 't MultiheadSelfAttention_paths list" where
  "layer_fns_paths v =
     (case v of
        ResBlock_fns rv \<Rightarrow> []
      | TransformerEncoder_fns tv \<Rightarrow>
          [ab_attn1_paths (te_transformer_block_fns tv),
           ab_attn2_paths (te_transformer_block_fns tv)])"

definition UNet_fns_paths :: "'t UNet_fns \<Rightarrow> 't MultiheadSelfAttention_paths list" where
  "UNet_fns_paths w =
     concat (map layer_fns_paths
       (concat (concat (map down_block_fns (down_fns (encoder_fns w))))
        @ bottleneck_fns w
        @ concat (concat (map up_block_fns (up_fns (decoder_fns w))))))"

definition paths_agree :: "'t MultiheadSelfAttention_paths \<Rightarrow> bool" where
  "paths_agree av \<longleftrightarrow> accelerated_path av = reference_path av"

text \<open>
  An instance on which the forward pass on values is evaluated: tensors are natural
  numbers, every parametrised module is the identity, an addition and a concatenation
  add, and the reference path of an attention unit adds the conditioning (1 without
  one). The accelerated path adds \<open>k\<close> more, so that the two paths agree for \<open>k = 0\<close> only.
  The network is the default one with the stages of encoder and decoder taken out, that
  is its bottleneck of a residual block, a transformer encoder and a residual block.
\<close>

definition toy_ops :: "nat tensor_ops" where
  "toy_ops =
     \<lparr>silu = (\<lambda>x. x), iadd = (\<lambda>x y. Inr (x + y)), cat_dim1 = (\<lambda>x y. Inr (x + y)),
      interpolate_nearest = (\<lambda>x. 2 * x), last_dim = (\<lambda>x. x),
      to_tokens = (\<lambda>x0 x. Inr x), from_tokens = (\<lambda>x0 x. Inr x),
      broadcast_hw = (\<lambda>t. t), time_features = (\<lambda>rows. length rows)\<rparr>"

definition toy_paths :: "nat \<Rightarrow> nat MultiheadSelfAttention_paths" where
  "toy_paths k =
     \<lparr>reference_path = (\<lambda>x c. Inr (x + (case c of None \<Rightarrow> 1 | Some y \<Rightarrow> y))),
      accelerated_path = (\<lambda>x c. Inr (x + k + (case c of None \<Rightarrow> 1 | Some y \<Rightarrow> y)))\<rparr>"

definition toy_ResBlock_fns :: "nat UNet_ResBlock_fns" where
  "toy_ResBlock_fns =
     \<lparr>rb_groupnorm_1_fn = Inr, rb_conv_1_fn = Inr, rb_groupnorm_2_fn = Inr, rb_conv_2_fn = Inr,
      rb_t_embed_fn = Inr, rb_proj_input_fn = Inr\<rparr>"

definition toy_fns :: "nat \<Rightarrow> nat UNet_fns" where
  "toy_fns k =
     \<lparr>time_linear_1_fn = Inr, time_linear_2_fn = Inr,
      encoder_fns = \<lparr>conv_in_fn = Inr, down_fns = []\<rparr>,
      bottleneck_fns =
        [ResBlock_fns toy_ResBlock_fns,
         TransformerEncoder_fns
           \<lparr>te_groupnorm_fn = Inr, te_conv_input_fn = Inr,
            te_transformer_block_fns =
              \<lparr>ab_layernorm_1_fn = Inr, ab_attn1_paths = toy_paths k,
               ab_layernorm_2_fn = Inr, ab_attn2_paths = toy_paths k,
               ab_layernorm_3_fn = Inr, ab_ffn_fn = Inr\<rparr>,
            te_conv_output_fn = Inr\<rparr>,
         ResBlock_fns toy_ResBlock_fns],
      decoder_fns = \<lparr>up_fns = []\<rparr>,
      output_norm_fn = Inr, output_conv_fn = Inr\<rparr>"

definition bottleneck_only :: UNet where
  "bottleneck_only =
     (let m = projr (UNet_init 4 4 8 320 768 False)
      in m\<lparr>encoder := (encoder m)\<lparr>down := []\<rparr>, decoder := (decoder m)\<lparr>up := []\<rparr>\<rparr>)"

section \<open>The gated feed-forward unit on values\<close>

text \<open>
  A linear layer on one token: a weight matrix with one row per output feature, and a
  bias. \<open>nn.Linear\<close> acts on the last dimension, so a tensor is transformed token by token.
  The floating-point numbers of the source are real numbers here.
\<close>

record Linear_params =
  weight :: "real list list"
  bias :: "real list"

definition Linear_values :: "Linear_params \<Rightarrow> real list \<Rightarrow> error + real list" where
  "Linear_values p x =
     (if list_all (\<lambda>row. length row = length x) (weight p)
      then Inr (map (\<lambda>(row, c). sum_list (map2 (*) row x) + c) (zip (weight p) (bias p)))
      else Inl RuntimeError)"

text \<open>
  \<open>GeGELU.forward\<close> on one token. \<open>gelu\<close> is PyTorch's \<open>F.gelu\<close> on a number; \<open>chunk(2, dim=-1)\<close>
  cuts the projection into pieces of \<open>ceil(n / 2)\<close> entries (two empty pieces of an empty
  projection), and the two names need two pieces. The product of two pieces of different
  sizes broadcasts a piece of size 1.
\<close>

definition GeGELU_values ::
  "(real \<Rightarrow> real) \<Rightarrow> Linear_params \<Rightarrow> real list \<Rightarrow> error + real list" where
  "GeGELU_values gelu p x =
     ebind (Linear_values p x) (\<lambda>y.
       let k = (length y + 1) div 2;
           v = take k y;
           gate = drop k y
       in if y = [] then Inr []
          else if gate = [] then Inl ValueError
          else if length v = length gate then Inr (map2 (\<lambda>a g. a * gelu g) v gate)
          else if length gate = 1 then Inr (map (\<lambda>a. a * gelu (hd gate)) v)
          else Inl RuntimeError)"

text \<open>The feed-forward unit \<open>nn.Sequential(GeGELU(...), nn.Linear(...))\<close> on one token.\<close>

definition ffn_values ::
  "(real \<Rightarrow> real) \<Rightarrow> Linear_params \<Rightarrow> Linear_params \<Rightarrow> real list \<Rightarrow> error + real list" where
  "ffn_values gelu p1 p2 x = ebind (GeGELU_values gelu p1 x) (Linear_values p2)"

text \<open>
  The parameters \<open>nn.Linear\<close> allocates for a layer: \<open>out_features\<close> rows of \<open>in_features\<close>
  weights and \<open>out_features\<close> biases.
\<close>

definition params_of :: "Linear \<Rightarrow> Linear_params \<Rightarrow> bool" where
  "params_of l p \<longleftrightarrow>
     int (length (weight p)) = out_features l \<and> int (length (bias p)) = out_features l
     \<and> list_all (\<lambda>row. int (length row) = in_features l) (weight p)"

section \<open>The sinusoidal embedding, as the specification words it\<close>

text \<open>
  The embedding of one timestep \<open>t\<close> with \<open>half\<close> frequencies \<open>10000^(-i/half)\<close>: the cosines
  of \<open>t\<close> times each frequency, followed by the sines.
\<close>

definition sinusoidal_embedding :: "nat \<Rightarrow> real \<Rightarrow> real list" where
  "sinusoidal_embedding half t =
     map (\<lambda>i. cos (t * 10000 powr (- (real i / real half)))) [0 ..< half]
     @ map (\<lambda>i. sin (t * 10000 powr (- (real i / real half)))) [0 ..< half]"

section \<open>Image rescaling (\<open>scale_img\<close>)\<close>

text \<open>
  Tensors are objects: the store holds the data of every tensor, and a tensor is its
  address in the store (an index). An in-place operation updates the store at the
  address; an operation that returns a new tensor allocates it at the end of the store.
  The numbers are real numbers.
\<close>

type_synonym addr = nat
type_synonym store = "real list list"

definition inplace :: "(real \<Rightarrow> real) \<Rightarrow> addr \<Rightarrow> store \<Rightarrow> store" where
  "inplace f x st = st[x := map f (st ! x)]"

text \<open>
  \<open>scale_img(x, old_range, new_range, clamp)\<close>. The ranges are pairs of Python numbers, so
  the quotient raises \<open>ZeroDivisionError\<close> for an empty old range; by then \<open>x -= old_min\<close>
  has happened. The store is returned in every case, with the result or the exception.
\<close>

definition scale_img ::
  "store \<Rightarrow> addr \<Rightarrow> real \<times> real \<Rightarrow> real \<times> real \<Rightarrow> bool \<Rightarrow> store \<times> (error + addr)" where
  "scale_img st x old_range new_range clamp =
     (case old_range of (old_min, old_max) \<Rightarrow>
      case new_range of (new_min, new_max) \<Rightarrow>
        let st1 = inplace (\<lambda>v. v - old_min) x st in
        if old_max - old_min = 0 then (st1, Inl ZeroDivisionError)
        else
          let st2 = inplace (\<lambda>v. v * ((new_max - new_min) / (old_max - old_min))) x st1;
              st3 = inplace (\<lambda>v. v + new_min) x st2
          in if clamp
             then (st3 @ [map (\<lambda>v. min (max v new_min) new_max) (st3 ! x)], Inr (length st3))
             else (st3, Inr x))"

section \<open>The dataloaders (\<open>create_dataloaders\<close>)\<close>

text \<open>
  What \<open>DreamboothDataset.load_data\<close> reads of the data directory: the \<open>*.jpg\<close> paths of its
  two subdirectories, in the order \<open>glob\<close> yields them, and the contents of the two label
  files (\<open>None\<close> for a file that cannot be opened).
\<close>

record data_dir =
  generated_jpgs :: "string list"
  train_jpgs :: "string list"
  generated_label :: "string option"
  train_label :: "string option"

record DreamboothDataset =
  imgs_path :: "string list"
  labels :: "string list"
  img_size :: "nat \<times> nat"

definition load_data :: "data_dir \<Rightarrow> error + string list \<times> string list" where
  "load_data dir =
     (case generated_label dir of
        None \<Rightarrow> Inl FileNotFoundError
      | Some generated_img_label \<Rightarrow>
          (case train_label dir of
             None \<Rightarrow> Inl FileNotFoundError
           | Some train_img_label \<Rightarrow>
               Inr (generated_jpgs dir @ train_jpgs dir,
                    map (\<lambda>_. generated_img_label) (generated_jpgs dir)
                    @ map (\<lambda>_. train_img_label) (train_jpgs dir))))"

definition DreamboothDataset_init :: "data_dir \<Rightarrow> nat \<times> nat \<Rightarrow> error + DreamboothDataset" where
  "DreamboothDataset_init dir sz =
     ebind (load_data dir) (\<lambda>(imgs, lbls).
       Inr \<lparr>imgs_path = imgs, labels = lbls, img_size = sz\<rparr>)"

definition dataset_len :: "DreamboothDataset \<Rightarrow> nat" where
  "dataset_len ds = length (imgs_path ds)"

text \<open>\<open>int(r)\<close> of a Python float truncates towards zero.\<close>

definition py_int :: "real \<Rightarrow> int" where
  "py_int r = (if 0 \<le> r then \<lfloor>r\<rfloor> else \<lceil>r\<rceil>)"

text \<open>The slice \<open>xs[i:j]\<close> of a Python list.\<close>

definition py_slice :: "'a list \<Rightarrow> int \<Rightarrow> int \<Rightarrow> 'a list" where
  "py_slice xs i j =
     (let n = int (length xs);
          a = (if i < 0 then max 0 (i + n) else min i n);
          b = (if j < 0 then max 0 (j + n) else min j n)
      in take (nat (b - a)) (drop (nat a) xs))"

record Subset =
  subset_dataset :: DreamboothDataset
  indices :: "nat list"

text \<open>
  \<open>torch.utils.data.random_split(dataset, [l1, l2])\<close> for integer lengths: the lengths must
  add up to the length of the dataset, and the subsets are consecutive slices of a random
  permutation of the indices, which is the parameter \<open>perm\<close> here.
\<close>

definition random_split ::
  "DreamboothDataset \<Rightarrow> int \<times> int \<Rightarrow> nat list \<Rightarrow> error + Subset \<times> Subset" where
  "random_split ds lengths perm =
     (case lengths of (l1, l2) \<Rightarrow>
        if l1 + l2 \<noteq> int (dataset_len ds) then Inl ValueError
        else Inr (\<lparr>subset_dataset = ds, indices = py_slice perm (l1 - l1) l1\<rparr>,
                  \<lparr>subset_dataset = ds, indices = py_slice perm (l1 + l2 - l2) (l1 + l2)\<rparr>))"

record DataLoader =
  dl_dataset :: Subset
  batch_size :: int
  shuffle :: bool
  num_workers :: int

text \<open>
  \<open>DataLoader(dataset, batch_size=..., shuffle=..., num_workers=...)\<close>: PyTorch refuses a
  negative worker count, a batch size that is not positive, and a shuffling sampler over
  an empty dataset.
\<close>

definition DataLoader_init :: "Subset \<Rightarrow> int \<Rightarrow> bool \<Rightarrow> int \<Rightarrow> error + DataLoader" where
  "DataLoader_init ds bs sh nw =
     (if nw < 0 then Inl ValueError
      else if bs \<le> 0 then Inl ValueError
      else if sh \<and> indices ds = [] then Inl ValueError
      else Inr \<lparr>dl_dataset = ds, batch_size = bs, shuffle = sh, num_workers = nw\<rparr>)"

text \<open>The first lines of \<open>create_dataloaders\<close>: the dataset and its random split.\<close>

definition split_dataset ::
  "data_dir \<Rightarrow> nat list \<Rightarrow> real \<Rightarrow> nat \<times> nat \<Rightarrow> error + Subset \<times> Subset" where
  "split_dataset dir perm train_test_split sz =
     ebind (DreamboothDataset_init dir sz) (\<lambda>dataset.
       let train_size = py_int (train_test_split * real (dataset_len dataset));
           test_size = int (dataset_len dataset) - train_size
       in random_split dataset (train_size, test_size) perm)"

definition create_dataloaders ::
  "data_dir \<Rightarrow> nat list \<Rightarrow> real \<Rightarrow> int \<Rightarrow> int \<Rightarrow> nat \<times> nat
     \<Rightarrow> error + DataLoader \<times> DataLoader" where
  "create_dataloaders dir perm train_test_split bs nw sz =
     ebind (split_dataset dir perm train_test_split sz) (\<lambda>(train_dataset, test_dataset).
     ebind (DataLoader_init train_dataset bs True nw) (\<lambda>train_dataloader.
     ebind (DataLoader_init train_dataset bs False nw) (\<lambda>test_dataloader.
       Inr (train_dataloader, test_dataloader))))"

section \<open>Basic facts about the error monad\<close>

lemma ebind_Inr [simp]: "ebind (Inr v) f = f v"
  by (simp add: ebind_def)

lemma ebind_Inl [simp]: "ebind (Inl e) f = Inl e"
  by (simp add: ebind_def)

section \<open>Construction of the transformer block\<close>

text \<open>
  Claim C6. For a positive head count and a positive embedding width (and a conditioning
  width that is not negative), constructing a \<open>UNet_AttentionBlock\<close> raises the
  configuration error \<open>ValueError\<close> exactly when the head count does not divide the
  embedding width; it raises no other exception; and when the head count divides the
  width the constructor returns a block whose \<open>head_dim\<close> is the quotient. The exception
  is a result of the constructor: no forward pass is involved.
\<close>

theorem attention_block_init_divisibility:
  assumes "0 < num_heads" and "0 < embedding_dim" and "0 \<le> cond_dim"
  shows "(UNet_AttentionBlock_init num_heads embedding_dim cond_dim use_lora = Inl ValueError
            \<longleftrightarrow> embedding_dim mod num_heads \<noteq> 0)
       \<and> ((\<exists>e. UNet_AttentionBlock_init num_heads embedding_dim cond_dim use_lora = Inl e)
            \<longleftrightarrow> embedding_dim mod num_heads \<noteq> 0)
       \<and> (embedding_dim mod num_heads = 0 \<longrightarrow>
            (\<exists>blk. UNet_AttentionBlock_init num_heads embedding_dim cond_dim use_lora = Inr blk
                   \<and> head_dim blk = embedding_dim div num_heads
                   \<and> gradient_checkpointing blk = False))"
  using assms
  by (simp add: UNet_AttentionBlock_init_def LayerNorm_init_def
      MultiheadSelfAttention_init_def GeGELU_init_def Linear_init_def)

theorem attention_block_init_divisibility_witness:
  "UNet_AttentionBlock_init 7 320 768 False = Inl ValueError
   \<and> (\<exists>blk. UNet_AttentionBlock_init 8 320 768 False = Inr blk \<and> head_dim blk = 40)"
  using attention_block_init_divisibility [of 7 320 768 False]
    attention_block_init_divisibility [of 8 320 768 False]
  by auto

section \<open>The structure built by the constructors\<close>

lemma ebind_eq_Inr: "ebind m f = Inr v \<longleftrightarrow> (\<exists>a. m = Inr a \<and> f a = Inr v)"
  by (cases m) simp_all

lemma ebind_eq_Inl: "ebind m f = Inl e \<longleftrightarrow> m = Inl e \<or> (\<exists>a. m = Inr a \<and> f a = Inl e)"
  by (cases m) simp_all

lemma emap_Inr:
  "emap f xs = Inr ys \<Longrightarrow> length ys = length xs \<and> (\<forall>i<length xs. f (xs ! i) = Inr (ys ! i))"
proof (induction xs arbitrary: ys)
  case Nil
  then show ?case by simp
next
  case (Cons x xs)
  from Cons.prems obtain y ys' where y: "f x = Inr y" and ys': "emap f xs = Inr ys'"
    and eq: "ys = y # ys'"
    by (auto simp: ebind_eq_Inr)
  from Cons.IH [OF ys'] have len: "length ys' = length xs"
    and nth: "\<forall>i<length xs. f (xs ! i) = Inr (ys' ! i)" by simp_all
  show ?case
  proof (intro conjI allI impI)
    show "length ys = length (x # xs)" using len eq by simp
  next
    fix i assume "i < length (x # xs)"
    then show "f ((x # xs) ! i) = Inr (ys ! i)"
      using y nth eq by (cases i) simp_all
  qed
qed

lemma down_stage_init_structure:
  assumes "down_stage_init nh td cd cm lora i = Inr d"
  shows "length (down_block d) = 2
       \<and> (down_downsample d = Identity_down \<longleftrightarrow> int i = int (length cm) - 1)"
  using assms
  by (auto simp: down_stage_init_def Let_def ebind_eq_Inr UNet_Downsample_init_def
      split: if_splits)

lemma up_stage_init_structure:
  assumes "up_stage_init nh td cd cm lora i = Inr u"
  shows "length (up_block u) = 3
       \<and> (up_upsample u = Identity_up \<longleftrightarrow> i = 0)
       \<and> (i \<noteq> 0 \<longrightarrow> (\<exists>cv. up_upsample u = UNet_Upsample cv \<and> kernel_size cv = 3
                          \<and> stride cv = 1 \<and> padding cv = 1))"
  using assms
  by (auto simp: up_stage_init_def Let_def ebind_eq_Inr UNet_Upsample_init_def Conv2d_init_def
      split: if_splits)

section \<open>Shapes through the layers\<close>

lemma conv_3_1_1 [simp]:
  "Conv2d_forward \<lparr>in_channels = ci, out_channels = co, kernel_size = 3, stride = Suc 0, padding = Suc 0\<rparr> (b, c, h, w)
   = (if int c = ci \<and> 0 < h \<and> 0 < w then Inr (b, nat co, h, w) else Inl RuntimeError)"
  by (auto simp: Conv2d_forward_def conv_out_def)

lemma conv_1_1_0 [simp]:
  "Conv2d_forward \<lparr>in_channels = ci, out_channels = co, kernel_size = Suc 0, stride = Suc 0, padding = 0\<rparr> (b, c, h, w)
   = (if int c = ci \<and> 0 < h \<and> 0 < w then Inr (b, nat co, h, w) else Inl RuntimeError)"
  by (auto simp: Conv2d_forward_def conv_out_def)

lemma conv_3_2_1 [simp]:
  "Conv2d_forward \<lparr>in_channels = ci, out_channels = co, kernel_size = 3, stride = 2, padding = Suc 0\<rparr> (b, c, 2 * h, 2 * w)
   = (if int c = ci \<and> 0 < h \<and> 0 < w then Inr (b, nat co, h, w) else Inl RuntimeError)"
  by (auto simp: Conv2d_forward_def conv_out_def)

lemma resblock_init_Inr:
  assumes "UNet_ResBlock_init ci co td = Inr rb"
  shows "0 \<le> ci \<and> 0 \<le> co \<and> 0 \<le> td
    \<and> groupnorm_1 rb = \<lparr>num_groups = 32, num_channels = ci\<rparr>
    \<and> conv_1 rb = \<lparr>in_channels = ci, out_channels = co, kernel_size = 3, stride = 1, padding = 1\<rparr>
    \<and> groupnorm_2 rb = \<lparr>num_groups = 32, num_channels = co\<rparr>
    \<and> conv_2 rb = \<lparr>in_channels = co, out_channels = co, kernel_size = 3, stride = 1, padding = 1\<rparr>
    \<and> t_embed rb = \<lparr>in_features = td, out_features = co\<rparr>
    \<and> proj_input rb = (if ci = co then None else
         Some \<lparr>in_channels = ci, out_channels = co, kernel_size = 1, stride = 1, padding = 0\<rparr>)"
  using assms
  by (auto simp: UNet_ResBlock_init_def ebind_eq_Inr GroupNorm_init_def
       Conv2d_init_def Linear_init_def split: if_splits)

lemma resblock_forward:
  assumes "UNet_ResBlock_init ci co td = Inr rb" "0 < h" "0 < w" "n = b \<or> n = 1"
  shows "UNet_ResBlock_forward rb (b, nat ci, h, w) (n, nat td) = Inr (b, nat co, h, w)"
  using resblock_init_Inr [OF assms(1)] assms(2-)
  by (auto simp: UNet_ResBlock_forward_def GroupNorm_forward_def Linear_forward_def iadd4_def)


lemma attention_block_init_Inr:
  assumes "UNet_AttentionBlock_init nh c cd lora = Inr blk"
  shows "0 \<le> c \<and> 0 \<le> cd
    \<and> layernorm_1 blk = \<lparr>normalized_shape = c\<rparr>
    \<and> layernorm_2 blk = \<lparr>normalized_shape = c\<rparr>
    \<and> layernorm_3 blk = \<lparr>normalized_shape = c\<rparr>
    \<and> mhsa_embedding_dim (attn1 blk) = c \<and> mhsa_cond_dim (attn1 blk) = None
    \<and> mhsa_embedding_dim (attn2 blk) = c \<and> mhsa_cond_dim (attn2 blk) = Some cd
    \<and> ffn blk = (\<lparr>proj = \<lparr>in_features = c, out_features = 8 * c\<rparr>\<rparr>,
                  \<lparr>in_features = c * 4, out_features = c\<rparr>)"
  using assms
  by (auto simp: UNet_AttentionBlock_init_def ebind_eq_Inr LayerNorm_init_def
       MultiheadSelfAttention_init_def GeGELU_init_def Linear_init_def enable_lora_def
       split: if_splits)

lemma chunk2_8: "0 < c \<Longrightarrow> chunk2 (nat (8 * c)) = Inr (nat (c * 4), nat (c * 4))"
  by (simp add: chunk2_def Let_def nat_mult_distrib)

lemma ffn_forward_shape:
  assumes "0 < c"
  shows "ffn_forward (\<lparr>proj = \<lparr>in_features = c, out_features = 8 * c\<rparr>\<rparr>,
                      \<lparr>in_features = c * 4, out_features = c\<rparr>) (b, s, nat c) = Inr (b, s, nat c)"
  using assms
  by (simp add: ffn_forward_def GeGELU_forward_def Linear_forward_def chunk2_8)

lemma attention_block_forward:
  assumes "UNet_AttentionBlock_init nh c cd lora = Inr blk" "0 < c"
  shows "UNet_AttentionBlock_forward blk (b, s, nat c) (Some (b, s', nat cd)) = Inr (b, s, nat c)"
  using attention_block_init_Inr [OF assms(1)] assms(2)
  by (simp add: UNet_AttentionBlock_forward_def LayerNorm_forward_def checkpoint_def
      MultiheadSelfAttention_forward_def iadd3_def ffn_forward_shape)

lemma transformer_encoder_init_Inr:
  assumes "UNet_TransformerEncoder_init nh ed cd lora = Inr te"
  shows "groupnorm te = \<lparr>num_groups = 32, num_channels = ed * nh\<rparr>
    \<and> conv_input te = \<lparr>in_channels = ed * nh, out_channels = ed * nh, kernel_size = 1,
                        stride = 1, padding = 0\<rparr>
    \<and> conv_output te = \<lparr>in_channels = ed * nh, out_channels = ed * nh, kernel_size = 1,
                        stride = 1, padding = 0\<rparr>
    \<and> UNet_AttentionBlock_init nh (ed * nh) cd lora = Inr (transformer_block te)"
  using assms
  by (auto simp: UNet_TransformerEncoder_init_def Let_def ebind_eq_Inr GroupNorm_init_def
      Conv2d_init_def split: if_splits)

lemma view_b_c_rest_same:
  "0 < b \<Longrightarrow> 0 < c \<Longrightarrow> view_b_c_rest b c (b, c, h, w) = Inr (b, c, h * w)"
  by (simp add: view_b_c_rest_def Let_def mult.assoc)

lemma view4_back: "view4 b c h w (b, c, h * w) = Inr (b, c, h, w)"
  by (simp add: view4_def mult.assoc)

lemma transformer_encoder_forward:
  assumes "UNet_TransformerEncoder_init nh ed cd lora = Inr te"
    and "0 < ed * nh" and "0 < b" and "0 < h" and "0 < w"
  shows "UNet_TransformerEncoder_forward te (b, nat (ed * nh), h, w) (Some (b, s, nat cd))
           = Inr (b, nat (ed * nh), h, w)"
proof -
  note te = transformer_encoder_init_Inr [OF assms(1)]
  from te have blk: "UNet_AttentionBlock_init nh (ed * nh) cd lora = Inr (transformer_block te)"
    by simp
  have c: "0 < nat (ed * nh)" using assms(2) by simp
  show ?thesis
    using te assms(2-) c
    by (simp add: UNet_TransformerEncoder_forward_def GroupNorm_forward_def
        view_b_c_rest_same transpose3_def attention_block_forward [OF blk assms(2)]
        view4_back iadd4_def)
qed


lemma down_stage_init_mid:
  assumes "down_stage_init nh td cd cm lora i = Inr d" and "Suc i < length cm"
  obtains r1 t1 r2 t2 where
    "UNet_ResBlock_init (320 * (1 # cm) ! i) (320 * cm ! i) td = Inr r1"
    "UNet_TransformerEncoder_init nh (320 * cm ! i div nh) cd lora = Inr t1"
    "UNet_ResBlock_init (320 * cm ! i) (320 * cm ! i) td = Inr r2"
    "UNet_TransformerEncoder_init nh (320 * cm ! i div nh) cd lora = Inr t2"
    "d = \<lparr>down_block = [[ResBlock r1, TransformerEncoder t1],
                          [ResBlock r2, TransformerEncoder t2]],
          down_downsample = UNet_Downsample
            \<lparr>in_channels = 320 * cm ! i, out_channels = 320 * cm ! i, kernel_size = 3,
             stride = 2, padding = 1\<rparr>\<rparr>"
proof -
  have ne: "int i \<noteq> int (length cm) - 1" using assms(2) by simp
  show thesis
    using assms(1) that unfolding down_stage_init_def Let_def
    by (simp only: ne if_True not_False_eq_True)
       (auto simp: ebind_eq_Inr floordiv_def UNet_Downsample_init_def Conv2d_init_def
         split: if_splits)
qed

lemma down_stage_init_last:
  assumes "down_stage_init nh td cd cm lora i = Inr d" and "Suc i = length cm"
  obtains r1 r2 where
    "UNet_ResBlock_init (320 * (1 # cm) ! i) (320 * cm ! i) td = Inr r1"
    "UNet_ResBlock_init (320 * cm ! i) (320 * cm ! i) td = Inr r2"
    "d = \<lparr>down_block = [[ResBlock r1], [ResBlock r2]], down_downsample = Identity_down\<rparr>"
proof -
  have e: "int i = int (length cm) - 1" using assms(2) by auto
  show thesis
    using assms(1) that unfolding down_stage_init_def Let_def
    by (simp only: e) (auto simp: ebind_eq_Inr)
qed

lemma down_stage_forward_mid:
  assumes init: "down_stage_init nh td cd cm lora i = Inr d"
    and i: "Suc i < length cm"
    and cin: "int cin = 320 * (1 # cm) ! i"
    and cout: "int cout = 320 * cm ! i"
    and td: "int tdn = td"
    and dv: "int cout div nh * nh = int cout"
    and pos: "0 < cout" "0 < b" "0 < h" "0 < w" "n = b \<or> n = 1"
    and h2: "h2 = 2 * h" "w2 = 2 * w"
  shows "encoder_down_forward (d # ds) (b, cin, h2, w2) (n, tdn) (Some (b, s, nat cd)) sk
       = encoder_down_forward ds (b, cout, h, w) (n, tdn) (Some (b, s, nat cd))
           (sk @ [(b, cout, h2, w2), (b, cout, h2, w2), (b, cout, h, w)])"
proof -
  from init i obtain r1 t1 r2 t2 where
    r1: "UNet_ResBlock_init (320 * (1 # cm) ! i) (320 * cm ! i) td = Inr r1" and
    t1: "UNet_TransformerEncoder_init nh (320 * cm ! i div nh) cd lora = Inr t1" and
    r2: "UNet_ResBlock_init (320 * cm ! i) (320 * cm ! i) td = Inr r2" and
    t2: "UNet_TransformerEncoder_init nh (320 * cm ! i div nh) cd lora = Inr t2" and
    d: "d = \<lparr>down_block = [[ResBlock r1, TransformerEncoder t1],
                          [ResBlock r2, TransformerEncoder t2]],
          down_downsample = UNet_Downsample
            \<lparr>in_channels = 320 * cm ! i, out_channels = 320 * cm ! i, kernel_size = 3,
             stride = 2, padding = 1\<rparr>\<rparr>"
    by (rule down_stage_init_mid)
  have p2: "0 < h2" "0 < w2" using pos h2 by simp_all
  have cp: "0 < int cout div nh * nh" using dv pos(1) by simp
  have n1: "nat (320 * (1 # cm) ! i) = cin" and n2: "nat (320 * cm ! i) = cout"
    and n3: "nat td = tdn" and n4: "nat (int cout) = cout"
    using cin cout td by simp_all
  note f1 = resblock_forward [OF r1 p2 pos(5), unfolded n1 n2 n3]
  note f2 = resblock_forward [OF r2 p2 pos(5), unfolded n1 n2 n3]
  note g1 = transformer_encoder_forward [OF t1 [folded cout] cp pos(2) p2, where s = s,
      unfolded dv n4]
  note g2 = transformer_encoder_forward [OF t2 [folded cout] cp pos(2) p2, where s = s,
      unfolded dv n4]
  have dsf: "downsample_forward (down_downsample d) (b, cout, h2, w2) = Inr (b, cout, h, w)"
    using pos by (simp add: d downsample_forward_def h2 cout [symmetric])
  have ne: "down_downsample d \<noteq> Identity_down" by (simp add: d)
  have blk: "encoder_block_forward (down_block d) (b, cin, h2, w2) (n, tdn)
               (Some (b, s, nat cd)) sk
             = Inr ((b, cout, h2, w2), sk @ [(b, cout, h2, w2), (b, cout, h2, w2)])"
    by (simp add: d f1 f2 g1 g2)
  show ?thesis
    by (simp add: blk dsf ne)
qed

lemma down_stage_forward_last:
  assumes init: "down_stage_init nh td cd cm lora i = Inr d"
    and i: "Suc i = length cm"
    and cin: "int cin = 320 * (1 # cm) ! i"
    and cout: "int cout = 320 * cm ! i"
    and td: "int tdn = td"
    and pos: "0 < h" "0 < w" "n = b \<or> n = 1"
  shows "encoder_down_forward (d # ds) (b, cin, h, w) (n, tdn) (Some (b, s, nat cd)) sk
       = encoder_down_forward ds (b, cout, h, w) (n, tdn) (Some (b, s, nat cd))
           (sk @ [(b, cout, h, w), (b, cout, h, w)])"
proof -
  from init i obtain r1 r2 where
    r1: "UNet_ResBlock_init (320 * (1 # cm) ! i) (320 * cm ! i) td = Inr r1" and
    r2: "UNet_ResBlock_init (320 * cm ! i) (320 * cm ! i) td = Inr r2" and
    d: "d = \<lparr>down_block = [[ResBlock r1], [ResBlock r2]], down_downsample = Identity_down\<rparr>"
    by (rule down_stage_init_last)
  have n1: "nat (320 * (1 # cm) ! i) = cin" and n2: "nat (320 * cm ! i) = cout"
    and n3: "nat td = tdn"
    using cin cout td by simp_all
  note f1 = resblock_forward [OF r1 pos, unfolded n1 n2 n3]
  note f2 = resblock_forward [OF r2 pos, unfolded n1 n2 n3]
  show ?thesis
    by (simp add: d f1 f2 downsample_forward_def)
qed

lemma up_stage_init_Inr:
  assumes "up_stage_init nh td cd cm lora i = Inr u"
  shows "up_upsample u = (if i \<noteq> 0 then UNet_Upsample
            \<lparr>in_channels = (cm @ [4]) ! i * 320, out_channels = (cm @ [4]) ! i * 320,
             kernel_size = 3, stride = 1, padding = 1\<rparr> else Identity_up)
     \<and> (\<exists>r1 r2 r3.
          UNet_ResBlock_init ((cm @ [4]) ! (i + 1) * 320 + (cm @ [4]) ! i * 320)
             ((cm @ [4]) ! i * 320) td = Inr r1
        \<and> UNet_ResBlock_init ((cm @ [4]) ! i * 320 + (cm @ [4]) ! i * 320)
             ((cm @ [4]) ! i * 320) td = Inr r2
        \<and> UNet_ResBlock_init ((cm @ [4]) ! i * 320
               + (if i > 0 then (cm @ [4]) ! (i - 1) * 320 else 320))
             ((cm @ [4]) ! i * 320) td = Inr r3
        \<and> (if int i = int (length cm) - 1
            then up_block u = [[ResBlock r1], [ResBlock r2], [ResBlock r3]]
            else (\<exists>t1 t2 t3.
               UNet_TransformerEncoder_init nh ((cm @ [4]) ! i * 320 div nh) cd lora = Inr t1
             \<and> UNet_TransformerEncoder_init nh ((cm @ [4]) ! i * 320 div nh) cd lora = Inr t2
             \<and> UNet_TransformerEncoder_init nh ((cm @ [4]) ! i * 320 div nh) cd lora = Inr t3
             \<and> up_block u = [[ResBlock r1, TransformerEncoder t1],
                              [ResBlock r2, TransformerEncoder t2],
                              [ResBlock r3, TransformerEncoder t3]])))"
  using assms unfolding up_stage_init_def Let_def
  by (auto simp: ebind_eq_Inr floordiv_def UNet_Upsample_init_def Conv2d_init_def
      split: if_splits)


lemma cat1_same: "cat1 (b, c, h, w) (b, c', h, w) = Inr (b, c + c', h, w)"
  by (simp add: cat1_def)

lemma up_block_forward:
  assumes init: "up_stage_init nh td cd cm lora i = Inr u"
    and cin: "cin = (cm @ [4]) ! (i + 1) * 320"
    and cout: "cout = (cm @ [4]) ! i * 320"
    and cmid: "cmid = (if i > 0 then (cm @ [4]) ! (i - 1) * 320 else 320)"
    and pos: "0 < cin" "0 < cout" "0 < cmid"
    and dv: "int i \<noteq> int (length cm) - 1 \<Longrightarrow> cout div nh * nh = cout"
    and sz: "0 < b" "0 < h" "0 < w" "n = b \<or> n = 1"
  shows "decoder_block_forward (up_block u) (b, nat cin, h, w)
           (sk @ [(b, nat cmid, h, w), (b, nat cout, h, w), (b, nat cout, h, w)])
           (n, nat td) (Some (b, s, nat cd))
         = Inr ((b, nat cout, h, w), sk)"
proof -
  from up_stage_init_Inr [OF init, folded cin cout, folded cmid] obtain r1 r2 r3 where
    r1: "UNet_ResBlock_init (cin + cout) cout td = Inr r1" and
    r2: "UNet_ResBlock_init (cout + cout) cout td = Inr r2" and
    r3: "UNet_ResBlock_init (cout + cmid) cout td = Inr r3" and
    blk: "if int i = int (length cm) - 1
          then up_block u = [[ResBlock r1], [ResBlock r2], [ResBlock r3]]
          else (\<exists>t1 t2 t3.
               UNet_TransformerEncoder_init nh (cout div nh) cd lora = Inr t1
             \<and> UNet_TransformerEncoder_init nh (cout div nh) cd lora = Inr t2
             \<and> UNet_TransformerEncoder_init nh (cout div nh) cd lora = Inr t3
             \<and> up_block u = [[ResBlock r1, TransformerEncoder t1],
                              [ResBlock r2, TransformerEncoder t2],
                              [ResBlock r3, TransformerEncoder t3]])"
    by blast
  have a1: "nat cin + nat cout = nat (cin + cout)"
    and a2: "nat cout + nat cout = nat (cout + cout)"
    and a3: "nat cout + nat cmid = nat (cout + cmid)"
    using pos by (simp_all add: nat_add_distrib)
  note f1 = resblock_forward [OF r1 sz(2-), folded a1]
  note f2 = resblock_forward [OF r2 sz(2-), folded a2]
  note f3 = resblock_forward [OF r3 sz(2-), folded a3]
  show ?thesis
  proof (cases "int i = int (length cm) - 1")
    case True
    with blk have "up_block u = [[ResBlock r1], [ResBlock r2], [ResBlock r3]]" by simp
    then show ?thesis
      by (simp add: cat1_same f1 f2 f3 butlast_append)
  next
    case False
    from blk have "\<exists>t1 t2 t3.
               UNet_TransformerEncoder_init nh (cout div nh) cd lora = Inr t1
             \<and> UNet_TransformerEncoder_init nh (cout div nh) cd lora = Inr t2
             \<and> UNet_TransformerEncoder_init nh (cout div nh) cd lora = Inr t3
             \<and> up_block u = [[ResBlock r1, TransformerEncoder t1],
                              [ResBlock r2, TransformerEncoder t2],
                              [ResBlock r3, TransformerEncoder t3]]"
      by (simp only: False if_False)
    then obtain t1 t2 t3 where
      t1: "UNet_TransformerEncoder_init nh (cout div nh) cd lora = Inr t1" and
      t2: "UNet_TransformerEncoder_init nh (cout div nh) cd lora = Inr t2" and
      t3: "UNet_TransformerEncoder_init nh (cout div nh) cd lora = Inr t3" and
      b: "up_block u = [[ResBlock r1, TransformerEncoder t1],
                        [ResBlock r2, TransformerEncoder t2],
                        [ResBlock r3, TransformerEncoder t3]]"
      by blast
    have cp: "0 < cout div nh * nh" using dv [OF False] pos(2) by simp
    note g1 = transformer_encoder_forward [OF t1 cp sz(1-3), where s = s, unfolded dv [OF False]]
    note g2 = transformer_encoder_forward [OF t2 cp sz(1-3), where s = s, unfolded dv [OF False]]
    note g3 = transformer_encoder_forward [OF t3 cp sz(1-3), where s = s, unfolded dv [OF False]]
    show ?thesis
      by (simp add: b cat1_same f1 f2 f3 g1 g2 g3 butlast_append)
  qed
qed


lemma up_stage_forward:
  assumes init: "up_stage_init nh td cd cm lora i = Inr u"
    and cin: "int xin = (cm @ [4]) ! (i + 1) * 320"
    and cout: "int xout = (cm @ [4]) ! i * 320"
    and cmid: "int xmid = (if i > 0 then (cm @ [4]) ! (i - 1) * 320 else 320)"
    and td: "int tdn = td"
    and pos: "0 < xin" "0 < xout" "0 < xmid"
    and dv: "int i \<noteq> int (length cm) - 1 \<Longrightarrow> int xout div nh * nh = int xout"
    and sz: "0 < b" "0 < h" "0 < w" "n = b \<or> n = 1"
  shows "decoder_up_forward (u # us) (b, xin, h, w)
           (sk @ [(b, xmid, h, w), (b, xout, h, w), (b, xout, h, w)])
           (n, tdn) (Some (b, s, nat cd))
         = (if sk \<noteq> [] \<and> width (last sk) = w
            then (if i = 0 then Inl TypeError
                  else decoder_up_forward us (b, xout, h, w) sk (n, tdn)
                         (Some (b, s, nat cd)))
            else decoder_up_forward us
                   (if i = 0 then (b, xout, h, w) else (b, xout, 2 * h, 2 * w)) sk
                   (n, tdn) (Some (b, s, nat cd)))"
proof -
  have p: "0 < int xin" "0 < int xout" "0 < int xmid" using pos by simp_all
  note blk = up_block_forward [OF init cin cout cmid p dv sz, where s = s and sk = sk,
      unfolded nat_int td [symmetric]]
  from up_stage_init_Inr [OF init, folded cout] have
    us: "up_upsample u = (if i \<noteq> 0 then UNet_Upsample
            \<lparr>in_channels = int xout, out_channels = int xout,
             kernel_size = 3, stride = 1, padding = 1\<rparr> else Identity_up)"
    by blast
  show ?thesis
    using pos sz
    by (simp add: blk us width_def upsample_call_def UNet_Upsample_forward_def interpolate2_def)
qed

lemma emap_upt_Inr:
  assumes "emap f [0 ..< n] = Inr ys"
  shows "length ys = n" and "\<And>i. i < n \<Longrightarrow> f i = Inr (ys ! i)"
proof -
  from emap_Inr [OF assms] have l: "length ys = length [0 ..< n]"
    and nth: "\<forall>i<length [0 ..< n]. f ([0 ..< n] ! i) = Inr (ys ! i)" by blast+
  show "length ys = n" using l by simp
  fix i assume "i < n"
  then show "f i = Inr (ys ! i)" using nth by auto
qed

lemma emap_rev_upt_Inr:
  assumes "emap f (rev [0 ..< n]) = Inr ys"
  shows "length ys = n" and "\<And>j. j < n \<Longrightarrow> f (n - 1 - j) = Inr (ys ! j)"
proof -
  from emap_Inr [OF assms] have l: "length ys = length (rev [0 ..< n])"
    and nth: "\<forall>i<length (rev [0 ..< n]). f (rev [0 ..< n] ! i) = Inr (ys ! i)" by blast+
  show "length ys = n" using l by simp
  fix j assume j: "j < n"
  then have "rev [0 ..< n] ! j = n - 1 - j" by (simp add: rev_nth)
  then show "f (n - 1 - j) = Inr (ys ! j)" using nth j by auto
qed

lemma list4_nth: "length xs = 4 \<Longrightarrow> xs = [xs ! 0, xs ! 1, xs ! 2, xs ! 3]"
  by (auto simp: list_eq_iff_nth_eq nth_Cons' numeral_eq_Suc less_Suc_eq)

lemma encoder_default_forward:
  assumes init: "UNet_Encoder_init 4 8 1280 cd [1, 2, 4, 4] lora = Inr enc"
    and sz: "0 < b" "0 < h" "0 < w" "n = b \<or> n = 1"
  shows "UNet_Encoder_forward enc (b, 4, 8 * h, 8 * w) (n, 1280) (Some (b, s, nat cd))
       = Inr ((b, 1280, h, w),
              [(b, 320, 8 * h, 8 * w), (b, 320, 8 * h, 8 * w), (b, 320, 8 * h, 8 * w),
               (b, 320, 4 * h, 4 * w), (b, 640, 4 * h, 4 * w), (b, 640, 4 * h, 4 * w),
               (b, 640, 2 * h, 2 * w), (b, 1280, 2 * h, 2 * w), (b, 1280, 2 * h, 2 * w),
               (b, 1280, h, w), (b, 1280, h, w), (b, 1280, h, w)])"
proof -
  let ?cm = "[1, 2, 4, 4] :: int list"
  let ?c = "Some (b, s, nat cd)"
  let ?t = "(n, 1280 :: nat)"
  from init obtain ds where
    ci: "conv_in enc = \<lparr>in_channels = 4, out_channels = 320, kernel_size = 3, stride = 1,
                        padding = 1\<rparr>" and
    ds: "emap (down_stage_init 8 1280 cd ?cm lora) [0 ..< length ?cm] = Inr ds" and
    dn: "down enc = ds"
    by (auto simp: UNet_Encoder_init_def ebind_eq_Inr Conv2d_init_def)
  from emap_upt_Inr [OF ds] have len: "length ds = 4"
    and nth: "\<And>i. i < 4 \<Longrightarrow> down_stage_init 8 1280 cd ?cm lora i = Inr (ds ! i)"
    by simp_all
  have d0: "down_stage_init 8 1280 cd ?cm lora 0 = Inr (ds ! 0)"
    and d1: "down_stage_init 8 1280 cd ?cm lora 1 = Inr (ds ! 1)"
    and d2: "down_stage_init 8 1280 cd ?cm lora 2 = Inr (ds ! 2)"
    and d3: "down_stage_init 8 1280 cd ?cm lora 3 = Inr (ds ! 3)"
    using nth [of 0] nth [of 1] nth [of 2] nth [of 3] by simp_all
  have s0: "encoder_down_forward (ds ! 0 # r) (b, 320, 8 * h, 8 * w) ?t ?c sk
      = encoder_down_forward r (b, 320, 4 * h, 4 * w) ?t ?c
          (sk @ [(b, 320, 8 * h, 8 * w), (b, 320, 8 * h, 8 * w), (b, 320, 4 * h, 4 * w)])"
    for r sk
    by (rule down_stage_forward_mid [OF d0]) (use sz in simp_all)
  have s1: "encoder_down_forward (ds ! 1 # r) (b, 320, 4 * h, 4 * w) ?t ?c sk
      = encoder_down_forward r (b, 640, 2 * h, 2 * w) ?t ?c
          (sk @ [(b, 640, 4 * h, 4 * w), (b, 640, 4 * h, 4 * w), (b, 640, 2 * h, 2 * w)])"
    for r sk
    by (rule down_stage_forward_mid [OF d1]) (use sz in simp_all)
  have s2: "encoder_down_forward (ds ! 2 # r) (b, 640, 2 * h, 2 * w) ?t ?c sk
      = encoder_down_forward r (b, 1280, h, w) ?t ?c
          (sk @ [(b, 1280, 2 * h, 2 * w), (b, 1280, 2 * h, 2 * w), (b, 1280, h, w)])"
    for r sk
    by (rule down_stage_forward_mid [OF d2]) (use sz in simp_all)
  have s3: "encoder_down_forward (ds ! 3 # r) (b, 1280, h, w) ?t ?c sk
      = encoder_down_forward r (b, 1280, h, w) ?t ?c
          (sk @ [(b, 1280, h, w), (b, 1280, h, w)])"
    for r sk
    by (rule down_stage_forward_last [OF d3]) (use sz in simp_all)
  have "UNet_Encoder_forward enc (b, 4, 8 * h, 8 * w) ?t ?c
      = encoder_down_forward [ds ! 0, ds ! 1, ds ! 2, ds ! 3] (b, 320, 8 * h, 8 * w) ?t ?c
          [(b, 320, 8 * h, 8 * w)]"
    using sz list4_nth [OF len] by (simp add: UNet_Encoder_forward_def ci dn)
  also have "\<dots> = Inr ((b, 1280, h, w),
              [(b, 320, 8 * h, 8 * w), (b, 320, 8 * h, 8 * w), (b, 320, 8 * h, 8 * w),
               (b, 320, 4 * h, 4 * w), (b, 640, 4 * h, 4 * w), (b, 640, 4 * h, 4 * w),
               (b, 640, 2 * h, 2 * w), (b, 1280, 2 * h, 2 * w), (b, 1280, 2 * h, 2 * w),
               (b, 1280, h, w), (b, 1280, h, w), (b, 1280, h, w)])"
    unfolding s0 s1 s2 s3 by simp
  finally show ?thesis .
qed


lemma decoder_default_forward:
  assumes init: "UNet_Decoder_init 8 1280 cd [1, 2, 4, 4] lora = Inr dec"
    and sz: "0 < b" "0 < h" "0 < w" "n = b \<or> n = 1"
  shows "UNet_Decoder_forward dec (b, 1280, h, w)
           [(b, 320, 8 * h, 8 * w), (b, 320, 8 * h, 8 * w), (b, 320, 8 * h, 8 * w),
            (b, 320, 4 * h, 4 * w), (b, 640, 4 * h, 4 * w), (b, 640, 4 * h, 4 * w),
            (b, 640, 2 * h, 2 * w), (b, 1280, 2 * h, 2 * w), (b, 1280, 2 * h, 2 * w),
            (b, 1280, h, w), (b, 1280, h, w), (b, 1280, h, w)]
           (n, 1280) (Some (b, s, nat cd))
       = Inr ((b, 320, 8 * h, 8 * w), [])"
proof -
  let ?cm = "[1, 2, 4, 4] :: int list"
  let ?c = "Some (b, s, nat cd)"
  let ?t = "(n, 1280 :: nat)"
  from init obtain us where
    us: "emap (up_stage_init 8 1280 cd ?cm lora) (rev [0 ..< length ?cm]) = Inr us" and
    up: "up dec = us"
    by (auto simp: UNet_Decoder_init_def ebind_eq_Inr)
  from emap_rev_upt_Inr(1) [OF us] have len: "length us = 4" by simp
  have u3: "up_stage_init 8 1280 cd ?cm lora 3 = Inr (us ! 0)"
    and u2: "up_stage_init 8 1280 cd ?cm lora 2 = Inr (us ! 1)"
    and u1: "up_stage_init 8 1280 cd ?cm lora 1 = Inr (us ! 2)"
    and u0: "up_stage_init 8 1280 cd ?cm lora 0 = Inr (us ! 3)"
    using emap_rev_upt_Inr(2) [OF us, of 0] emap_rev_upt_Inr(2) [OF us, of 1]
      emap_rev_upt_Inr(2) [OF us, of 2] emap_rev_upt_Inr(2) [OF us, of 3]
    by (simp_all add: eval_nat_numeral)
  have p4: "0 < 4 * h" "0 < 4 * w" and p2: "0 < 2 * h" "0 < 2 * w"
    and p8: "0 < 8 * h" "0 < 8 * w" using sz by simp_all
  note s3 = up_stage_forward [OF u3, where xin = 1280 and xout = 1280 and xmid = 1280
      and tdn = 1280 and b = b and h = h and w = w and n = n and s = s]
  note s2 = up_stage_forward [OF u2, where xin = 1280 and xout = 1280 and xmid = 640
      and tdn = 1280 and b = b and h = "2 * h" and w = "2 * w" and n = n and s = s]
  note s1 = up_stage_forward [OF u1, where xin = 1280 and xout = 640 and xmid = 320
      and tdn = 1280 and b = b and h = "4 * h" and w = "4 * w" and n = n and s = s]
  note s0 = up_stage_forward [OF u0, where xin = 640 and xout = 320 and xmid = 320
      and tdn = 1280 and b = b and h = "8 * h" and w = "8 * w" and n = n and s = s]
  have e3: "decoder_up_forward (us ! 0 # r) (b, 1280, h, w)
           ([(b, 320, 8 * h, 8 * w), (b, 320, 8 * h, 8 * w), (b, 320, 8 * h, 8 * w),
            (b, 320, 4 * h, 4 * w), (b, 640, 4 * h, 4 * w), (b, 640, 4 * h, 4 * w),
            (b, 640, 2 * h, 2 * w), (b, 1280, 2 * h, 2 * w), (b, 1280, 2 * h, 2 * w)]
            @ [(b, 1280, h, w), (b, 1280, h, w), (b, 1280, h, w)]) ?t ?c
        = decoder_up_forward r (b, 1280, 2 * h, 2 * w)
           [(b, 320, 8 * h, 8 * w), (b, 320, 8 * h, 8 * w), (b, 320, 8 * h, 8 * w),
            (b, 320, 4 * h, 4 * w), (b, 640, 4 * h, 4 * w), (b, 640, 4 * h, 4 * w),
            (b, 640, 2 * h, 2 * w), (b, 1280, 2 * h, 2 * w), (b, 1280, 2 * h, 2 * w)] ?t ?c"
    for r
    using sz by (subst s3) (simp_all add: width_def)
  have e2: "decoder_up_forward (us ! 1 # r) (b, 1280, 2 * h, 2 * w)
           ([(b, 320, 8 * h, 8 * w), (b, 320, 8 * h, 8 * w), (b, 320, 8 * h, 8 * w),
            (b, 320, 4 * h, 4 * w), (b, 640, 4 * h, 4 * w), (b, 640, 4 * h, 4 * w)]
            @ [(b, 640, 2 * h, 2 * w), (b, 1280, 2 * h, 2 * w), (b, 1280, 2 * h, 2 * w)]) ?t ?c
        = decoder_up_forward r (b, 1280, 4 * h, 4 * w)
           [(b, 320, 8 * h, 8 * w), (b, 320, 8 * h, 8 * w), (b, 320, 8 * h, 8 * w),
            (b, 320, 4 * h, 4 * w), (b, 640, 4 * h, 4 * w), (b, 640, 4 * h, 4 * w)] ?t ?c"
    for r
    using sz by (subst s2) (simp_all add: width_def)
  have e1: "decoder_up_forward (us ! 2 # r) (b, 1280, 4 * h, 4 * w)
           ([(b, 320, 8 * h, 8 * w), (b, 320, 8 * h, 8 * w), (b, 320, 8 * h, 8 * w)]
            @ [(b, 320, 4 * h, 4 * w), (b, 640, 4 * h, 4 * w), (b, 640, 4 * h, 4 * w)]) ?t ?c
        = decoder_up_forward r (b, 640, 8 * h, 8 * w)
           [(b, 320, 8 * h, 8 * w), (b, 320, 8 * h, 8 * w), (b, 320, 8 * h, 8 * w)] ?t ?c"
    for r
    using sz by (subst s1) (simp_all add: width_def)
  have e0: "decoder_up_forward (us ! 3 # r) (b, 640, 8 * h, 8 * w)
           ([] @ [(b, 320, 8 * h, 8 * w), (b, 320, 8 * h, 8 * w), (b, 320, 8 * h, 8 * w)]) ?t ?c
        = decoder_up_forward r (b, 320, 8 * h, 8 * w) [] ?t ?c"
    for r
    using sz by (subst s0) (simp_all add: width_def)
  have "UNet_Decoder_forward dec (b, 1280, h, w)
           [(b, 320, 8 * h, 8 * w), (b, 320, 8 * h, 8 * w), (b, 320, 8 * h, 8 * w),
            (b, 320, 4 * h, 4 * w), (b, 640, 4 * h, 4 * w), (b, 640, 4 * h, 4 * w),
            (b, 640, 2 * h, 2 * w), (b, 1280, 2 * h, 2 * w), (b, 1280, 2 * h, 2 * w),
            (b, 1280, h, w), (b, 1280, h, w), (b, 1280, h, w)] ?t ?c
      = decoder_up_forward [us ! 0, us ! 1, us ! 2, us ! 3] (b, 1280, h, w)
           ([(b, 320, 8 * h, 8 * w), (b, 320, 8 * h, 8 * w), (b, 320, 8 * h, 8 * w),
            (b, 320, 4 * h, 4 * w), (b, 640, 4 * h, 4 * w), (b, 640, 4 * h, 4 * w),
            (b, 640, 2 * h, 2 * w), (b, 1280, 2 * h, 2 * w), (b, 1280, 2 * h, 2 * w)]
            @ [(b, 1280, h, w), (b, 1280, h, w), (b, 1280, h, w)]) ?t ?c"
    using list4_nth [OF len] by (simp add: UNet_Decoder_forward_def up)
  also have "\<dots> = decoder_up_forward [us ! 1, us ! 2, us ! 3] (b, 1280, 2 * h, 2 * w)
           ([(b, 320, 8 * h, 8 * w), (b, 320, 8 * h, 8 * w), (b, 320, 8 * h, 8 * w),
            (b, 320, 4 * h, 4 * w), (b, 640, 4 * h, 4 * w), (b, 640, 4 * h, 4 * w)]
            @ [(b, 640, 2 * h, 2 * w), (b, 1280, 2 * h, 2 * w), (b, 1280, 2 * h, 2 * w)]) ?t ?c"
    unfolding e3 by simp
  also have "\<dots> = decoder_up_forward [us ! 2, us ! 3] (b, 1280, 4 * h, 4 * w)
           ([(b, 320, 8 * h, 8 * w), (b, 320, 8 * h, 8 * w), (b, 320, 8 * h, 8 * w)]
            @ [(b, 320, 4 * h, 4 * w), (b, 640, 4 * h, 4 * w), (b, 640, 4 * h, 4 * w)]) ?t ?c"
    unfolding e2 by simp
  also have "\<dots> = decoder_up_forward [us ! 3] (b, 640, 8 * h, 8 * w)
           ([] @ [(b, 320, 8 * h, 8 * w), (b, 320, 8 * h, 8 * w), (b, 320, 8 * h, 8 * w)]) ?t ?c"
    unfolding e1 by simp
  also have "\<dots> = Inr ((b, 320, 8 * h, 8 * w), [])"
    unfolding e0 by simp
  finally show ?thesis .
qed


lemma emap_all_Inr:
  assumes "\<And>x. x \<in> set xs \<Longrightarrow> \<exists>y. f x = Inr y"
  shows "\<exists>ys. emap f xs = Inr ys"
  using assms
proof (induction xs)
  case Nil
  then show ?case by simp
next
  case (Cons x xs)
  from Cons.prems obtain y where y: "f x = Inr y" by auto
  from Cons.IH Cons.prems obtain ys where ys: "emap f xs = Inr ys" by auto
  show ?case by (simp add: y ys)
qed

lemmas layer_init_defs = UNet_ResBlock_init_def UNet_TransformerEncoder_init_def
  UNet_AttentionBlock_init_def LayerNorm_init_def MultiheadSelfAttention_init_def GeGELU_init_def
  Linear_init_def GroupNorm_init_def Conv2d_init_def UNet_Downsample_init_def
  UNet_Upsample_init_def TimeEmbedding_init_def floordiv_def

lemma less4_cases: "i < (4::nat) \<Longrightarrow> i = 0 \<or> i = 1 \<or> i = 2 \<or> i = 3"
  by arith

lemma encoder_default_init:
  assumes "0 \<le> cd"
  shows "\<exists>enc. UNet_Encoder_init 4 8 1280 cd [1, 2, 4, 4] lora = Inr enc"
proof -
  have "\<exists>d. down_stage_init 8 1280 cd [1, 2, 4, 4] lora i = Inr d" if "i < 4" for i
    using less4_cases [OF that] assms
    by (auto simp: down_stage_init_def Let_def layer_init_defs)
  then have "\<exists>ds. emap (down_stage_init 8 1280 cd [1, 2, 4, 4] lora) [0 ..< length [1, 2, 4, 4 :: int]]
               = Inr ds"
    by (intro emap_all_Inr) (simp del: upt_Suc)
  then show ?thesis
    by (auto simp: UNet_Encoder_init_def Conv2d_init_def)
qed

lemma decoder_default_init:
  assumes "0 \<le> cd"
  shows "\<exists>dec. UNet_Decoder_init 8 1280 cd [1, 2, 4, 4] lora = Inr dec"
proof -
  have "\<exists>u. up_stage_init 8 1280 cd [1, 2, 4, 4] lora i = Inr u" if "i < 4" for i
    using less4_cases [OF that] assms
    by (auto simp: up_stage_init_def Let_def layer_init_defs)
  then have "\<exists>us. emap (up_stage_init 8 1280 cd [1, 2, 4, 4] lora)
                    (rev [0 ..< length [1, 2, 4, 4 :: int]]) = Inr us"
    by (intro emap_all_Inr) (simp del: upt_Suc)
  then show ?thesis
    by (auto simp: UNet_Decoder_init_def)
qed

lemma UNet_default_init:
  assumes "0 \<le> cd"
  shows "\<exists>m. UNet_init 4 4 8 320 cd lora = Inr m"
proof -
  from encoder_default_init [OF assms] obtain enc where
    "UNet_Encoder_init 4 8 1280 cd [1, 2, 4, 4] lora = Inr enc" by blast
  moreover from decoder_default_init [OF assms] obtain dec where
    "UNet_Decoder_init 8 1280 cd [1, 2, 4, 4] lora = Inr dec" by blast
  ultimately show ?thesis
    using assms by (simp add: UNet_init_def layer_init_defs)
qed

lemma UNet_default_forward:
  assumes init: "UNet_init 4 4 8 320 cd lora = Inr m"
    and sz: "0 < b" "0 < h" "0 < w" "length timestep = b \<or> length timestep = 1"
  shows "UNet_forward m (b, 4, 8 * h, 8 * w) timestep (b, s, nat cd) = Inr (b, 4, 8 * h, 8 * w)"
proof -
  from init obtain te enc r1 t1 r2 dec gn co where
    te: "TimeEmbedding_init 320 = Inr te" and
    enc: "UNet_Encoder_init 4 8 1280 cd [1, 2, 4, 4] lora = Inr enc" and
    r1: "UNet_ResBlock_init 1280 1280 1280 = Inr r1" and
    t1: "UNet_TransformerEncoder_init 8 160 cd lora = Inr t1" and
    r2: "UNet_ResBlock_init 1280 1280 1280 = Inr r2" and
    dec: "UNet_Decoder_init 8 1280 cd [1, 2, 4, 4] lora = Inr dec" and
    gn: "GroupNorm_init 32 320 = Inr gn" and
    co: "Conv2d_init 320 4 3 1 1 = Inr co" and
    m: "m = \<lparr>time_embedding = te, encoder = enc,
             bottleneck = [ResBlock r1, TransformerEncoder t1, ResBlock r2],
             decoder = dec, output_norm = gn, output_conv = co\<rparr>"
    unfolding UNet_init_def by (auto simp: ebind_eq_Inr)
  let ?n = "length timestep"
  have temb: "TimeEmbedding_forward te ?n = Inr (?n, 1280)"
    using te by (auto simp: TimeEmbedding_init_def TimeEmbedding_forward_def Linear_init_def
        get_time_embedding_shape_def Linear_forward_def)
  note e = encoder_default_forward [OF enc sz, where s = s]
  note b1 = resblock_forward [OF r1 sz(2-), simplified]
  note b2 = transformer_encoder_forward [OF t1 _ sz(1-3), where s = s, simplified]
  note b3 = resblock_forward [OF r2 sz(2-), simplified]
  note d = decoder_default_forward [OF dec sz, where s = s]
  have out: "ebind (GroupNorm_forward gn (b, 320, 8 * h, 8 * w)) (Conv2d_forward co)
               = Inr (b, 4, 8 * h, 8 * w)"
    using gn co sz by (auto simp: GroupNorm_init_def Conv2d_init_def GroupNorm_forward_def)
  show ?thesis
    by (simp add: UNet_forward_def m temb e b1 b2 b3 d out)
qed

section \<open>The shape of the predicted noise\<close>

text \<open>
  Claim C1. The network built with its default configuration (4 latent channels in and
  out, 8 heads, time embedding width 320), for any conditioning width and with or without
  low-rank adapters, is constructed without error, and its forward pass on a latent of
  shape \<open>(b, 4, h, w)\<close> with \<open>h\<close> and \<open>w\<close> divisible by 8, a batch of integer timesteps (one
  per latent, or a single one that is broadcast) and a conditioning sequence
  \<open>(b, s, cond_dim)\<close> returns a tensor of the same shape \<open>(b, 4, h, w)\<close>. Tensors are not
  empty: \<open>b\<close>, \<open>h\<close> and \<open>w\<close> are positive.
\<close>

theorem UNet_forward_preserves_shape:
  assumes "0 \<le> cond_dim" and "0 < b" and "0 < h" and "0 < w" and "8 dvd h" and "8 dvd w"
    and "length timestep = b \<or> length timestep = 1"
  shows "\<exists>m. UNet_init 4 4 8 320 cond_dim use_lora = Inr m
           \<and> UNet_forward m (b, 4, h, w) timestep (b, s, nat cond_dim) = Inr (b, 4, h, w)"
proof -
  from UNet_default_init [OF assms(1)] obtain m where
    m: "UNet_init 4 4 8 320 cond_dim use_lora = Inr m" by blast
  from assms(5,6) obtain h' w' where hw: "h = 8 * h'" "w = 8 * w'"
    unfolding dvd_def by blast
  with assms(3,4) have p: "0 < h'" "0 < w'" by simp_all
  have "UNet_forward m (b, 4, h, w) timestep (b, s, nat cond_dim) = Inr (b, 4, h, w)"
    unfolding hw by (rule UNet_default_forward [OF m assms(2) p assms(7)])
  with m show ?thesis by blast
qed

theorem UNet_forward_preserves_shape_witness:
  "\<exists>m. UNet_init 4 4 8 320 768 False = Inr m
       \<and> UNet_forward m (1, 4, 64, 64) [500] (1, 77, 768) = Inr (1, 4, 64, 64)"
  using UNet_forward_preserves_shape [of 768 1 64 64 "[500]" False 77]
  by simp

section \<open>The skip-connection stack\<close>

lemma encoder_block_forward_outputs:
  "encoder_block_forward ls x temb cond sk
     = ebind (layer_outputs ls x temb cond) (\<lambda>outs. Inr (last (x # outs), sk @ outs))"
proof (induction ls arbitrary: x sk)
  case Nil
  then show ?case by simp
next
  case (Cons l ls)
  show ?case
  proof (cases "TimeStepSequential_forward l x temb cond")
    case (Inl e)
    then show ?thesis by simp
  next
    case (Inr x')
    show ?thesis
      by (cases "layer_outputs ls x' temb cond") (simp_all add: Inr Cons.IH)
  qed
qed

lemma last_Cons_snoc: "last (x # outs @ [y]) = y"
  by simp

lemma last_Cons_mid: "last (x # outs @ y # rest) = last (y # rest)"
  by simp

lemma last_single: "last [y] = y"
  by simp

lemma last_Cons_append: "last (x # ps @ rest) = last (last (x # ps) # rest)"
  by (cases rest) (simp_all add: last_append)

lemma encoder_down_forward_pushes:
  "encoder_down_forward ds x temb cond sk
     = ebind (encoder_pushes ds x temb cond) (\<lambda>ps. Inr (last (x # ps), sk @ ps))"
proof (induction ds arbitrary: x sk)
  case Nil
  then show ?case by simp
next
  case (Cons d ds)
  show ?case
  proof (cases "layer_outputs (down_block d) x temb cond")
    case (Inl e)
    then show ?thesis by (simp add: encoder_block_forward_outputs stage_pushes_def)
  next
    case (Inr outs)
    show ?thesis
    proof (cases "down_downsample d")
      case Identity_down
      then show ?thesis
        by (cases "encoder_pushes ds (last (x # outs)) temb cond")
           (simp_all add: encoder_block_forward_outputs stage_pushes_def Inr Cons.IH
              downsample_forward_def last_Cons_append del: last.simps)
    next
      case (UNet_Downsample cv)
      show ?thesis
      proof (cases "Conv2d_forward cv (last (x # outs))")
        case (Inl e)
        then show ?thesis
          by (simp add: encoder_block_forward_outputs stage_pushes_def Inr UNet_Downsample
              downsample_forward_def del: last.simps)
      next
        case y: (Inr y)
        show ?thesis
          by (cases "encoder_pushes ds y temb cond")
             (simp_all add: encoder_block_forward_outputs stage_pushes_def Inr UNet_Downsample
                downsample_forward_def y Cons.IH last_Cons_snoc last_Cons_mid last_single
                del: last.simps)
      qed
    qed
  qed
qed

lemma layer_outputs_length:
  "layer_outputs ls x temb cond = Inr outs \<Longrightarrow> length outs = length ls"
  by (induction ls arbitrary: x outs) (auto simp: ebind_eq_Inr)

lemma stage_pushes_length:
  assumes "stage_pushes d x temb cond = Inr ps"
  shows "length ps = stage_push_count d"
proof (cases "down_downsample d")
  case (UNet_Downsample cv)
  with assms show ?thesis
    by (auto simp: stage_pushes_def stage_push_count_def ebind_eq_Inr
        dest: layer_outputs_length)
next
  case Identity_down
  with assms show ?thesis
    by (auto simp: stage_pushes_def stage_push_count_def ebind_eq_Inr
        dest: layer_outputs_length)
qed

lemma encoder_pushes_length:
  "encoder_pushes ds x temb cond = Inr ps \<Longrightarrow> length ps = sum_list (map stage_push_count ds)"
proof (induction ds arbitrary: x ps)
  case Nil
  then show ?case by simp
next
  case (Cons d ds)
  from Cons.prems obtain p rest where
    p: "stage_pushes d x temb cond = Inr p" and
    r: "encoder_pushes ds (last (x # p)) temb cond = Inr rest" and
    ps: "ps = p @ rest"
    by (auto simp: ebind_eq_Inr simp del: last.simps)
  show ?case
    using stage_pushes_length [OF p] Cons.IH [OF r] ps by simp
qed

lemma encoder_init_push_count:
  assumes "UNet_Encoder_init c_in nh td cd cm lora = Inr enc"
  shows "length (down enc) = length cm
       \<and> sum_list (map stage_push_count (down enc)) = 2 * length cm + (length cm - 1)"
proof -
  from assms obtain ds where
    ds: "emap (down_stage_init nh td cd cm lora) [0 ..< length cm] = Inr ds"
    and dn: "down enc = ds"
    by (auto simp: UNet_Encoder_init_def ebind_eq_Inr)
  note len = emap_upt_Inr(1) [OF ds]
  have cnt: "stage_push_count (ds ! i) = 2 + (if Suc i = length cm then 0 else 1)"
    if "i < length cm" for i
    using down_stage_init_structure [OF emap_upt_Inr(2) [OF ds that]] that
    by (auto simp: stage_push_count_def)
  have "sum_list (map stage_push_count ds) = (\<Sum>i<length cm. stage_push_count (ds ! i))"
    using len by (simp add: sum_list_sum_nth atLeast0LessThan)
  also have "\<dots> = (\<Sum>i<length cm. 2 + (if Suc i = length cm then 0 else 1))"
    by (rule sum.cong) (simp_all add: cnt)
  also have "\<dots> = 2 * length cm + (length cm - 1)"
  proof (cases "length cm")
    case 0
    then show ?thesis by simp
  next
    case (Suc k)
    then show ?thesis by (simp add: sum.distrib)
  qed
  finally show ?thesis using dn len by simp
qed


lemma ebind_no_IndexError:
  assumes "m \<noteq> Inl IndexError" and "\<And>a. f a \<noteq> Inl IndexError"
  shows "ebind m f \<noteq> Inl IndexError"
  using assms by (cases m) simp_all

lemma Conv2d_forward_no_IndexError: "Conv2d_forward cv x \<noteq> Inl IndexError"
  by (simp add: Conv2d_forward_def split: prod.splits)

lemma GroupNorm_forward_no_IndexError: "GroupNorm_forward gn x \<noteq> Inl IndexError"
  by (simp add: GroupNorm_forward_def split: prod.splits)

lemma LayerNorm_forward_no_IndexError: "LayerNorm_forward l x \<noteq> Inl IndexError"
  by (simp add: LayerNorm_forward_def split: prod.splits)

lemma Linear_forward_no_IndexError: "Linear_forward l d \<noteq> Inl IndexError"
  by (simp add: Linear_forward_def)

lemma iadd4_no_IndexError: "iadd4 x y \<noteq> Inl IndexError"
  by (simp add: iadd4_def split: prod.splits)

lemma iadd3_no_IndexError: "iadd3 x y \<noteq> Inl IndexError"
  by (simp add: iadd3_def split: prod.splits)

lemma cat1_no_IndexError: "cat1 x y \<noteq> Inl IndexError"
  by (simp add: cat1_def split: prod.splits)

lemma attention_no_IndexError: "MultiheadSelfAttention_forward a x c \<noteq> Inl IndexError"
  by (simp add: MultiheadSelfAttention_forward_def split: prod.splits option.splits)

lemma chunk2_no_IndexError: "chunk2 n \<noteq> Inl IndexError"
  by (simp add: chunk2_def Let_def)

lemma GeGELU_forward_no_IndexError: "GeGELU_forward g d \<noteq> Inl IndexError"
  unfolding GeGELU_forward_def
  by (intro ebind_no_IndexError Linear_forward_no_IndexError chunk2_no_IndexError)
     (simp split: prod.splits)

lemma ffn_forward_no_IndexError: "ffn_forward f x \<noteq> Inl IndexError"
  unfolding ffn_forward_def
  by (cases x) (simp, intro ebind_no_IndexError GeGELU_forward_no_IndexError
      Linear_forward_no_IndexError, simp)

lemma attention_block_no_IndexError: "UNet_AttentionBlock_forward blk x c \<noteq> Inl IndexError"
  unfolding UNet_AttentionBlock_forward_def checkpoint_def
  by (intro ebind_no_IndexError LayerNorm_forward_no_IndexError iadd3_no_IndexError
      ffn_forward_no_IndexError)
     (simp_all add: attention_no_IndexError)

lemma view_no_IndexError: "view_b_c_rest b c x \<noteq> Inl IndexError"
  by (simp add: view_b_c_rest_def Let_def split: prod.splits)

lemma view4_no_IndexError: "view4 b c h w x \<noteq> Inl IndexError"
  by (simp add: view4_def split: prod.splits)

lemma transformer_encoder_no_IndexError:
  "UNet_TransformerEncoder_forward te x c \<noteq> Inl IndexError"
  unfolding UNet_TransformerEncoder_forward_def
  by (cases x) (simp, intro ebind_no_IndexError GroupNorm_forward_no_IndexError
      Conv2d_forward_no_IndexError view_no_IndexError attention_block_no_IndexError
      view4_no_IndexError iadd4_no_IndexError)

lemma resblock_no_IndexError: "UNet_ResBlock_forward rb x t \<noteq> Inl IndexError"
  unfolding UNet_ResBlock_forward_def
  by (intro ebind_no_IndexError GroupNorm_forward_no_IndexError
      Conv2d_forward_no_IndexError Linear_forward_no_IndexError iadd4_no_IndexError)
     (simp add: Conv2d_forward_no_IndexError split: option.splits)

lemma TimeStepSequential_no_IndexError:
  "TimeStepSequential_forward ls x t c \<noteq> Inl IndexError"
proof (induction ls arbitrary: x)
  case Nil
  then show ?case by simp
next
  case (Cons l ls)
  show ?case
    by (cases l)
       (simp_all add: ebind_no_IndexError resblock_no_IndexError
          transformer_encoder_no_IndexError Cons.IH)
qed

lemma upsample_call_no_IndexError: "upsample_call u x kw \<noteq> Inl IndexError"
  by (simp add: upsample_call_def UNet_Upsample_forward_def Conv2d_forward_no_IndexError
      split: upsample.splits option.splits)


lemma decoder_block_forward_pops:
  assumes "length ls \<le> length sk"
  shows "decoder_block_forward ls x sk t c \<noteq> Inl IndexError
       \<and> (\<forall>r sk'. decoder_block_forward ls x sk t c = Inr (r, sk')
              \<longrightarrow> sk' = take (length sk - length ls) sk)"
  using assms
proof (induction ls arbitrary: x sk)
  case Nil
  then show ?case by simp
next
  case (Cons l ls)
  from Cons.prems have ne: "sk \<noteq> []" and le: "length ls \<le> length (butlast sk)" by auto
  have tk: "take (length (butlast sk) - length ls) (butlast sk)
              = take (length sk - length (l # ls)) sk"
    using ne by (simp add: take_butlast)
  note IH = Cons.IH [OF le]
  show ?case
  proof (intro conjI allI impI)
    show "decoder_block_forward (l # ls) x sk t c \<noteq> Inl IndexError"
      using ne IH
      by (simp add: Let_def)
         (intro ebind_no_IndexError cat1_no_IndexError TimeStepSequential_no_IndexError, simp)
  next
    fix r sk'
    assume "decoder_block_forward (l # ls) x sk t c = Inr (r, sk')"
    then obtain x1 x2 where
      "decoder_block_forward ls x2 (butlast sk) t c = Inr (r, sk')"
      using ne by (auto simp: Let_def ebind_eq_Inr)
    with IH have "sk' = take (length (butlast sk) - length ls) (butlast sk)" by blast
    then show "sk' = take (length sk - length (l # ls)) sk" using tk by simp
  qed
qed

lemma decoder_up_forward_balanced:
  assumes "\<forall>u\<in>set us. length (up_block u) = 3" and "length sk = 3 * length us"
  shows "decoder_up_forward us x sk t c \<noteq> Inl IndexError
       \<and> (\<forall>r sk'. decoder_up_forward us x sk t c = Inr (r, sk') \<longrightarrow> sk' = [])"
  using assms
proof (induction us arbitrary: x sk)
  case Nil
  then show ?case by simp
next
  case (Cons u us)
  from Cons.prems have ne: "sk \<noteq> []" and b3: "length (up_block u) = 3"
    and le: "length (up_block u) \<le> length sk" by auto
  note blk = decoder_block_forward_pops [OF le, of x t c]
  have rest: "length (take (length sk - length (up_block u)) sk) = 3 * length us"
    using Cons.prems b3 by simp
  have us3: "\<forall>u\<in>set us. length (up_block u) = 3" using Cons.prems by simp
  show ?case
  proof (cases "decoder_block_forward (up_block u) x sk t c")
    case (Inl e)
    with blk have "e \<noteq> IndexError" by auto
    with Inl ne show ?thesis by (simp add: Let_def)
  next
    case (Inr p)
    obtain x1 sk1 where p: "p = (x1, sk1)" by (cases p)
    with Inr blk have sk1: "sk1 = take (length sk - length (up_block u)) sk" by blast
    with rest have l1: "length sk1 = 3 * length us" by simp
    note IH = Cons.IH [OF us3 l1]
    show ?thesis
    proof (intro conjI allI impI)
      show "decoder_up_forward (u # us) x sk t c \<noteq> Inl IndexError"
        using ne Inr p IH
        by (simp add: Let_def)
           (intro ebind_no_IndexError upsample_call_no_IndexError conjI impI, simp_all)
    next
      fix r sk'
      assume "decoder_up_forward (u # us) x sk t c = Inr (r, sk')"
      then obtain x2 where "decoder_up_forward us x2 sk1 t c = Inr (r, sk')"
        using ne Inr p by (auto simp: Let_def ebind_eq_Inr split: if_splits)
      with IH show "sk' = []" by blast
    qed
  qed
qed

lemma UNet_Encoder_forward_pushes:
  "UNet_Encoder_forward enc x temb cond
     = ebind (Conv2d_forward (conv_in enc) x) (\<lambda>x0.
       ebind (encoder_pushes (down enc) x0 temb cond) (\<lambda>ps.
         Inr (last (x0 # ps), x0 # ps)))"
  by (cases "Conv2d_forward (conv_in enc) x")
     (simp_all add: UNet_Encoder_forward_def encoder_down_forward_pushes del: last.simps)

lemma UNet_Encoder_forward_length:
  assumes init: "UNet_Encoder_init c_in nh td cd cm lora = Inr enc"
    and run: "UNet_Encoder_forward enc x temb cond = Inr (y, sk)"
  shows "length sk = 1 + 2 * length cm + (length cm - 1)"
proof -
  from run obtain x0 ps where "encoder_pushes (down enc) x0 temb cond = Inr ps"
    and sk: "sk = x0 # ps"
    unfolding UNet_Encoder_forward_pushes by (auto simp: ebind_eq_Inr simp del: last.simps)
  from encoder_pushes_length [OF this(1)] encoder_init_push_count [OF init] sk
  show ?thesis by simp
qed

lemma UNet_Encoder_init_structure:
  assumes init: "UNet_Encoder_init c_in nh td cd cm lora = Inr enc"
  shows "length (down enc) = length cm
      \<and> (\<forall>i<length cm. length (down_block (down enc ! i)) = 2
             \<and> (down_downsample (down enc ! i) = Identity_down \<longleftrightarrow> Suc i = length cm))"
proof -
  from init obtain ds where
    ds: "emap (down_stage_init nh td cd cm lora) [0 ..< length cm] = Inr ds"
    and dn: "down enc = ds"
    by (auto simp: UNet_Encoder_init_def ebind_eq_Inr)
  have "length (down_block (ds ! i)) = 2
      \<and> (down_downsample (ds ! i) = Identity_down \<longleftrightarrow> Suc i = length cm)"
    if "i < length cm" for i
    using down_stage_init_structure [OF emap_upt_Inr(2) [OF ds that]] that by auto
  then show ?thesis using emap_upt_Inr(1) [OF ds] dn by simp
qed

text \<open>
  Claim C4. An encoder pass returns the stack that holds first the output of \<open>conv_in\<close> and
  then the pushes the specification lists (\<open>encoder_pushes\<close>: the output of every layer of
  every stage and the output of every downsample that is not the identity), and the
  activation it returns is the last tensor pushed. An encoder built for a schedule has one
  stage per entry, two layers in every stage and an identity downsample in the last stage
  only, so a pass pushes \<open>1 + 2 n + (n - 1)\<close> tensors for a schedule of length \<open>n\<close>: for the
  default schedule \<open>[1, 2, 4, 4]\<close> that is \<open>1 + 8 + 3 = 12\<close>.
\<close>

theorem encoder_pushes_onto_skip_stack:
  "UNet_Encoder_forward enc x temb cond
     = ebind (Conv2d_forward (conv_in enc) x) (\<lambda>x0.
       ebind (encoder_pushes (down enc) x0 temb cond) (\<lambda>ps.
         Inr (last (x0 # ps), x0 # ps)))
   \<and> (UNet_Encoder_init c_in nh td cd cm lora = Inr enc \<longrightarrow>
        length (down enc) = length cm
      \<and> (\<forall>i<length cm. length (down_block (down enc ! i)) = 2
             \<and> (down_downsample (down enc ! i) = Identity_down \<longleftrightarrow> Suc i = length cm))
      \<and> (\<forall>y sk. UNet_Encoder_forward enc x temb cond = Inr (y, sk) \<longrightarrow>
             length sk = 1 + 2 * length cm + (length cm - 1)))
   \<and> (UNet_Encoder_init c_in nh td cd [1, 2, 4, 4] lora = Inr enc
        \<and> UNet_Encoder_forward enc x temb cond = Inr (y, sk) \<longrightarrow>
        length sk = 1 + 8 + 3 \<and> length sk = 12)"
  using UNet_Encoder_forward_pushes [of enc x temb cond]
    UNet_Encoder_init_structure [of c_in nh td cd cm lora enc]
    UNet_Encoder_forward_length [of c_in nh td cd cm lora enc x temb cond]
    UNet_Encoder_forward_length [of c_in nh td cd "[1, 2, 4, 4]" lora enc x temb cond y sk]
  by (simp del: last.simps)

theorem encoder_pushes_onto_skip_stack_witness:
  "\<exists>enc y sk. UNet_Encoder_init 4 8 1280 768 [1, 2, 4, 4] False = Inr enc
      \<and> UNet_Encoder_forward enc (1, 4, 64, 64) (1, 1280) (Some (1, 77, 768)) = Inr (y, sk)
      \<and> length (down enc) = 4
      \<and> down_downsample (down enc ! 3) = Identity_down
      \<and> down_downsample (down enc ! 0) \<noteq> Identity_down
      \<and> length sk = 12"
proof -
  from encoder_default_init [of 768 False] obtain enc where
    enc: "UNet_Encoder_init 4 8 1280 768 [1, 2, 4, 4] False = Inr enc" by auto
  from encoder_default_forward [OF enc, of 1 8 8 1 77] obtain y sk where
    run: "UNet_Encoder_forward enc (1, 4, 64, 64) (1, 1280) (Some (1, 77, 768)) = Inr (y, sk)"
    by auto
  note T = encoder_pushes_onto_skip_stack
    [of enc "(1, 4, 64, 64)" "(1, 1280)" "Some (1, 77, 768)" 4 8 1280 768 "[1, 2, 4, 4]" False
      y sk]
  note S = T [THEN conjunct2, THEN conjunct1, THEN mp, OF enc]
  from S have l4: "length (down enc) = 4" by simp
  from S [THEN conjunct2, THEN conjunct1, THEN spec, of 3]
  have d3: "down_downsample (down enc ! 3) = Identity_down" by simp
  from S [THEN conjunct2, THEN conjunct1, THEN spec, of 0]
  have d0: "down_downsample (down enc ! 0) \<noteq> Identity_down" by simp
  from S [THEN conjunct2, THEN conjunct2, THEN spec, THEN spec, THEN mp, OF run]
  have l12: "length sk = 12" by simp
  from enc run l4 d3 d0 l12 show ?thesis by blast
qed

lemma UNet_Decoder_init_structure:
  assumes init: "UNet_Decoder_init nh td cd cm lora = Inr dec"
  shows "length (up dec) = length cm
      \<and> (\<forall>j<length cm. length (up_block (up dec ! j)) = 3
             \<and> (if Suc j = length cm then up_upsample (up dec ! j) = Identity_up
                 else \<exists>cv. up_upsample (up dec ! j) = UNet_Upsample cv \<and> kernel_size cv = 3
                        \<and> stride cv = 1 \<and> padding cv = 1))"
proof -
  from init obtain us where
    us: "emap (up_stage_init nh td cd cm lora) (rev [0 ..< length cm]) = Inr us"
    and up: "up dec = us"
    by (auto simp: UNet_Decoder_init_def ebind_eq_Inr)
  have "length (up_block (us ! j)) = 3
      \<and> (if Suc j = length cm then up_upsample (us ! j) = Identity_up
          else \<exists>cv. up_upsample (us ! j) = UNet_Upsample cv \<and> kernel_size cv = 3
                 \<and> stride cv = 1 \<and> padding cv = 1)"
    if "j < length cm" for j
  proof -
    have z: "length cm - 1 - j = 0 \<longleftrightarrow> Suc j = length cm" using that by auto
    from up_stage_init_structure [OF emap_rev_upt_Inr(2) [OF us that]] z
    show ?thesis by auto
  qed
  with emap_rev_upt_Inr(1) [OF us] show ?thesis unfolding up by blast
qed

lemma UNet_Decoder_forward_balanced:
  assumes init: "UNet_Decoder_init nh td cd cm lora = Inr dec"
    and len: "length sk = 3 * length cm"
  shows "UNet_Decoder_forward dec x sk t c \<noteq> Inl IndexError
       \<and> (\<forall>r sk'. UNet_Decoder_forward dec x sk t c = Inr (r, sk') \<longrightarrow> sk' = [])"
proof -
  note st = UNet_Decoder_init_structure [OF init]
  have "\<forall>u\<in>set (up dec). length (up_block u) = 3"
    using st by (auto simp: in_set_conv_nth)
  moreover have "length sk = 3 * length (up dec)" using st len by simp
  ultimately show ?thesis
    unfolding UNet_Decoder_forward_def by (rule decoder_up_forward_balanced)
qed

text \<open>
  Claim C2, amended. For every non-empty channel-multiplier schedule, of length \<open>n\<close>, an
  encoder pass pushes \<open>3 n\<close> tensors onto the skip stack and the decoder built for the same
  schedule has \<open>3 n\<close> layers, each of which pops one tensor: on the stack the encoder
  returns, the decoder pass never pops from an empty stack (it never raises \<open>IndexError\<close>)
  and, when it returns, it has popped all \<open>3 n\<close> tensors (the stack is empty).
\<close>

theorem skip_stack_balance:
  assumes "ch_multiplier \<noteq> []"
    and "UNet_Encoder_init c_in nh td cd ch_multiplier lora = Inr enc"
    and "UNet_Decoder_init nh' td' cd' ch_multiplier lora' = Inr dec"
    and "UNet_Encoder_forward enc x temb cond = Inr (y, skips)"
  shows "length skips = 3 * length ch_multiplier
       \<and> sum_list (map (\<lambda>u. length (up_block u)) (up dec)) = 3 * length ch_multiplier
       \<and> UNet_Decoder_forward dec z skips temb' cond' \<noteq> Inl IndexError
       \<and> (\<forall>r rest. UNet_Decoder_forward dec z skips temb' cond' = Inr (r, rest)
             \<longrightarrow> rest = [])"
proof -
  from assms(1) have n: "0 < length ch_multiplier" by simp
  from UNet_Encoder_forward_length [OF assms(2,4)] n
  have len: "length skips = 3 * length ch_multiplier" by simp
  note st = UNet_Decoder_init_structure [OF assms(3)]
  have "map (\<lambda>u. length (up_block u)) (up dec) = replicate (length ch_multiplier) 3"
    using st by (auto simp: list_eq_iff_nth_eq)
  then have pops: "sum_list (map (\<lambda>u. length (up_block u)) (up dec)) = 3 * length ch_multiplier"
    by (simp add: sum_list_replicate)
  from len pops UNet_Decoder_forward_balanced [OF assms(3) len, of z temb' cond']
  show ?thesis by blast
qed

theorem skip_stack_balance_witness:
  "\<exists>enc dec y skips r. UNet_Encoder_init 4 8 1280 768 [1, 2, 4, 4] False = Inr enc
      \<and> UNet_Decoder_init 8 1280 768 [1, 2, 4, 4] False = Inr dec
      \<and> UNet_Encoder_forward enc (1, 4, 64, 64) (1, 1280) (Some (1, 77, 768)) = Inr (y, skips)
      \<and> length skips = 12
      \<and> UNet_Decoder_forward dec y skips (1, 1280) (Some (1, 77, 768)) = Inr (r, [])"
proof -
  from encoder_default_init [of 768 False] obtain enc where
    enc: "UNet_Encoder_init 4 8 1280 768 [1, 2, 4, 4] False = Inr enc" by auto
  from decoder_default_init [of 768 False] obtain dec where
    dec: "UNet_Decoder_init 8 1280 768 [1, 2, 4, 4] False = Inr dec" by auto
  from encoder_default_forward [OF enc, of 1 8 8 1 77] obtain skips where
    run: "UNet_Encoder_forward enc (1, 4, 64, 64) (1, 1280) (Some (1, 77, 768))
            = Inr ((1, 1280, 8, 8), skips)"
    by auto
  have ne: "[1, 2, 4, 4 :: int] \<noteq> []" by simp
  note T = skip_stack_balance [OF ne enc dec run, of "(1, 1280, 8, 8)" "(1, 1280)"
      "Some (1, 77, 768)"]
  from T have l12: "length skips = 12" by simp
  from decoder_default_forward [OF dec, of 1 8 8 1 77] run
    encoder_default_forward [OF enc, of 1 8 8 1 77]
  obtain r rest where d: "UNet_Decoder_forward dec (1, 1280, 8, 8) skips (1, 1280)
      (Some (1, 77, 768)) = Inr (r, rest)"
    by auto
  with T have "rest = []" by blast
  with enc dec run l12 d show ?thesis by blast
qed

text \<open>
  The claim as stated fails for the empty schedule: the encoder pushes the output of
  \<open>conv_in\<close>, and the decoder, which has no stage, pops nothing.
\<close>

theorem skip_stack_balance_empty_schedule:
  "UNet_Encoder_init 4 8 1280 768 [] False
     = Inr \<lparr>conv_in = \<lparr>in_channels = 4, out_channels = 320, kernel_size = 3, stride = 1,
                       padding = 1\<rparr>, down = []\<rparr>
   \<and> UNet_Decoder_init 8 1280 768 [] False = Inr \<lparr>up = []\<rparr>
   \<and> UNet_Encoder_forward
        \<lparr>conv_in = \<lparr>in_channels = 4, out_channels = 320, kernel_size = 3, stride = 1,
                    padding = 1\<rparr>, down = []\<rparr>
        (1, 4, 64, 64) (1, 1280) (Some (1, 77, 768))
      = Inr ((1, 320, 64, 64), [(1, 320, 64, 64)])
   \<and> UNet_Decoder_forward \<lparr>up = []\<rparr> (1, 320, 64, 64) [(1, 320, 64, 64)] (1, 1280)
        (Some (1, 77, 768))
      = Inr ((1, 320, 64, 64), [(1, 320, 64, 64)])
   \<and> length [(1, 320, 64, 64) :: shape4] \<noteq> 3 * length ([] :: int list)"
  by (simp add: UNet_Encoder_init_def Conv2d_init_def UNet_Decoder_init_def
      UNet_Encoder_forward_def UNet_Decoder_forward_def)

lemma cat1_width: "cat1 x tmp = Inr r \<Longrightarrow> width tmp = width x"
  by (cases x; cases tmp) (auto simp: cat1_def width_def split: if_splits)

lemma decoder_stage_rule:
  "decoder_up_forward (u # us) x sk temb cond =
     (if sk = [] then Inl IndexError
      else ebind (decoder_block_forward (up_block u) x sk temb cond) (\<lambda>(x1, sk1).
           ebind (case up_upsample u of
                    UNet_Upsample cv \<Rightarrow>
                      if sk1 \<noteq> [] \<and> width (last sk1) = width (last sk)
                      then Conv2d_forward cv x1
                      else Conv2d_forward cv (interpolate2 x1)
                  | Identity_up \<Rightarrow>
                      if sk1 \<noteq> [] \<and> width (last sk1) = width (last sk)
                      then Inl TypeError
                      else Inr x1)
             (\<lambda>x2. decoder_up_forward us x2 sk1 temb cond)))"
  by (cases "up_upsample u")
     (auto simp: Let_def upsample_call_def UNet_Upsample_forward_def
        intro!: arg_cong2 [where f = ebind] split: prod.splits)

lemma decoder_final_stage_identity:
  assumes "up_upsample u = Identity_up" and "length (up_block u) = length sk" and "sk \<noteq> []"
  shows "decoder_up_forward [u] x sk temb cond
           = decoder_block_forward (up_block u) x sk temb cond"
proof (cases "decoder_block_forward (up_block u) x sk temb cond")
  case (Inl e)
  then show ?thesis using assms(3) by (simp add: Let_def)
next
  case (Inr p)
  obtain x1 sk1 where p: "p = (x1, sk1)" by (cases p)
  from decoder_block_forward_pops [of "up_block u" sk x temb cond] assms(2) Inr p
  have "sk1 = []" by (cases x1) simp
  then show ?thesis using assms Inr p by (simp add: Let_def upsample_call_def)
qed

text \<open>
  Claim C3. Every layer of a decoder stage pops one skip tensor and concatenates it to
  the activation along the channels before it runs. After the layers of a stage, a stage
  with an upsampling module applies nearest-neighbour doubling followed by its
  convolution, unless a skip tensor remains and the last dimension of the top one equals
  \<open>prev_hw\<close>, the last dimension the top of the stack had when the stage began, in which case
  it applies the convolution alone; a stage whose upsampling module is the identity leaves
  the activation as it is. The comparison is made on the tensors at hand, and \<open>prev_hw\<close> is
  the width of the stage's input whenever the first concatenation succeeds. A
  decoder built for a schedule has three layers in every stage, a 3x3 convolution (stride
  1, padding 1) as the upsampling module of every stage but the last, and the identity in
  the last stage, which finds the stack empty when it is left exactly its own skips.
  The identity module takes no \<open>upscale\<close> keyword, so the last stage raises \<open>TypeError\<close> if a
  skip tensor of the same width were still on the stack.
\<close>

theorem decoder_stage_upsampling:
  "decoder_block_forward (l # ls) x sk temb cond =
     (if sk = [] then Inl IndexError
      else ebind (cat1 x (last sk)) (\<lambda>x1.
           ebind (TimeStepSequential_forward l x1 temb cond) (\<lambda>x2.
             decoder_block_forward ls x2 (butlast sk) temb cond)))
   \<and> (decoder_block_forward (l # ls) x sk temb cond = Inr r \<longrightarrow> width (last sk) = width x)
   \<and> decoder_up_forward (u # us) x sk temb cond =
     (if sk = [] then Inl IndexError
      else ebind (decoder_block_forward (up_block u) x sk temb cond) (\<lambda>(x1, sk1).
           ebind (case up_upsample u of
                    UNet_Upsample cv \<Rightarrow>
                      if sk1 \<noteq> [] \<and> width (last sk1) = width (last sk)
                      then Conv2d_forward cv x1
                      else Conv2d_forward cv (interpolate2 x1)
                  | Identity_up \<Rightarrow>
                      if sk1 \<noteq> [] \<and> width (last sk1) = width (last sk)
                      then Inl TypeError
                      else Inr x1)
             (\<lambda>x2. decoder_up_forward us x2 sk1 temb cond)))
   \<and> (up_upsample u = Identity_up \<and> length (up_block u) = length sk \<and> sk \<noteq> [] \<longrightarrow>
        decoder_up_forward [u] x sk temb cond
          = decoder_block_forward (up_block u) x sk temb cond)
   \<and> (UNet_Decoder_init nh td cd cm lora = Inr dec \<longrightarrow>
        length (up dec) = length cm
      \<and> (\<forall>j<length cm. length (up_block (up dec ! j)) = 3
             \<and> (if Suc j = length cm then up_upsample (up dec ! j) = Identity_up
                 else \<exists>cv. up_upsample (up dec ! j) = UNet_Upsample cv \<and> kernel_size cv = 3
                        \<and> stride cv = 1 \<and> padding cv = 1)))"
proof -
  have a: "decoder_block_forward (l # ls) x sk temb cond =
     (if sk = [] then Inl IndexError
      else ebind (cat1 x (last sk)) (\<lambda>x1.
           ebind (TimeStepSequential_forward l x1 temb cond) (\<lambda>x2.
             decoder_block_forward ls x2 (butlast sk) temb cond)))"
    by (simp add: Let_def)
  have b: "width (last sk) = width x"
    if "decoder_block_forward (l # ls) x sk temb cond = Inr r"
    using that unfolding a by (auto simp: ebind_eq_Inr split: if_splits dest: cat1_width)
  show ?thesis
    using a b decoder_stage_rule [of u us x sk temb cond]
      decoder_final_stage_identity [of u sk x temb cond]
      UNet_Decoder_init_structure [of nh td cd cm lora dec]
    by blast
qed


theorem decoder_stage_upsampling_witness:
  "width (last [(1, 5, 3, 4)]) = width (1, 2, 3, 4)
   \<and> decoder_up_forward [\<lparr>up_block = [[]], up_upsample = Identity_up\<rparr>] (1, 2, 3, 4)
        [(1, 5, 3, 4)] (1, 1280) None = Inr ((1, 7, 3, 4), [])
   \<and> decoder_up_forward
        [\<lparr>up_block = [[]], up_upsample = UNet_Upsample
            \<lparr>in_channels = 7, out_channels = 7, kernel_size = 3, stride = 1, padding = 1\<rparr>\<rparr>]
        (1, 2, 3, 4) [(1, 9, 3, 4), (1, 5, 3, 4)] (1, 1280) None
      = Inr ((1, 7, 3, 4), [(1, 9, 3, 4)])
   \<and> decoder_up_forward
        [\<lparr>up_block = [[]], up_upsample = UNet_Upsample
            \<lparr>in_channels = 7, out_channels = 7, kernel_size = 3, stride = 1, padding = 1\<rparr>\<rparr>]
        (1, 2, 3, 4) [(1, 9, 6, 8), (1, 5, 3, 4)] (1, 1280) None
      = Inr ((1, 7, 6, 8), [(1, 9, 6, 8)])
   \<and> (\<exists>dec. UNet_Decoder_init 8 1280 768 [1, 2, 4, 4] False = Inr dec
          \<and> length (up dec) = 4 \<and> up_upsample (up dec ! 3) = Identity_up
          \<and> (\<exists>cv. up_upsample (up dec ! 0) = UNet_Upsample cv \<and> kernel_size cv = 3))"
proof -
  let ?u = "\<lparr>up_block = [[]], up_upsample = Identity_up\<rparr>"
  let ?v = "\<lparr>up_block = [[]], up_upsample = UNet_Upsample
            \<lparr>in_channels = 7, out_channels = 7, kernel_size = 3, stride = 1, padding = 1\<rparr>\<rparr>"
  have blk: "decoder_block_forward [[]] (1, 2, 3, 4) [(1, 5, 3, 4)] (1, 1280) None
               = Inr ((1, 7, 3, 4), [])"
    by (simp add: cat1_def)
  from decoder_default_init [of 768 False] obtain dec where
    dec: "UNet_Decoder_init 8 1280 768 [1, 2, 4, 4] False = Inr dec" by auto
  note T = decoder_stage_upsampling [of "[]" "[]" "(1, 2, 3, 4)" "[(1, 5, 3, 4)]" "(1, 1280)"
      None "((1, 7, 3, 4), [])" ?u "[]" 8 1280 768 "[1, 2, 4, 4]" False dec]
  note W = T [THEN conjunct2, THEN conjunct1, THEN mp, OF blk]
  have w: "width (last [(1, 5, 3, 4)]) = width (1, 2, 3, 4)" by (rule W)
  have hyp: "up_upsample ?u = Identity_up
      \<and> length (up_block ?u) = length [(1, 5, 3, 4) :: shape4]
      \<and> [(1, 5, 3, 4) :: shape4] \<noteq> []" by simp
  have ub: "up_block ?u = [[]]" by simp
  note F = T [THEN conjunct2, THEN conjunct2, THEN conjunct2, THEN conjunct1, THEN mp, OF hyp,
      unfolded ub]
  have fin: "decoder_up_forward [?u] (1, 2, 3, 4) [(1, 5, 3, 4)] (1, 1280) None
      = Inr ((1, 7, 3, 4), [])"
    by (rule trans [OF F blk])
  note S = T [THEN conjunct2, THEN conjunct2, THEN conjunct2, THEN conjunct2, THEN mp, OF dec]
  from S have l4: "length (up dec) = 4" by simp
  from S [THEN conjunct2, THEN spec, of 3]
  have u3: "up_upsample (up dec ! 3) = Identity_up" by simp
  from S [THEN conjunct2, THEN spec, of 0]
  have u0: "\<exists>cv. up_upsample (up dec ! 0) = UNet_Upsample cv \<and> kernel_size cv = 3" by auto
  have same: "decoder_up_forward [?v] (1, 2, 3, 4) [(1, 9, 3, 4), (1, 5, 3, 4)] (1, 1280) None
      = Inr ((1, 7, 3, 4), [(1, 9, 3, 4)])"
    unfolding decoder_stage_upsampling [of "[]" "[]" "(1, 2, 3, 4)" "[(1, 9, 3, 4), (1, 5, 3, 4)]"
        "(1, 1280)" None "((1, 7, 3, 4), [])" ?v "[]" 8 1280 768 "[1, 2, 4, 4]" False dec,
        THEN conjunct2, THEN conjunct2, THEN conjunct1]
    by (simp add: cat1_def width_def Conv2d_forward_def conv_out_def)
  have dbl: "decoder_up_forward [?v] (1, 2, 3, 4) [(1, 9, 6, 8), (1, 5, 3, 4)] (1, 1280) None
      = Inr ((1, 7, 6, 8), [(1, 9, 6, 8)])"
    unfolding decoder_stage_upsampling [of "[]" "[]" "(1, 2, 3, 4)" "[(1, 9, 6, 8), (1, 5, 3, 4)]"
        "(1, 1280)" None "((1, 7, 3, 4), [])" ?v "[]" 8 1280 768 "[1, 2, 4, 4]" False dec,
        THEN conjunct2, THEN conjunct2, THEN conjunct1]
    by (simp add: cat1_def width_def Conv2d_forward_def conv_out_def interpolate2_def)
  from w fin same dbl dec l4 u3 u0 show ?thesis by blast
qed

section \<open>The configuration toggles\<close>

lemma set_gradient_checkpointing_idem:
  "set_gradient_checkpointing e (set_gradient_checkpointing e l) = set_gradient_checkpointing e l"
  by (cases l) (simp_all add: set_gradient_checkpointing_def)

lemma set_flash_attention_idem:
  "set_flash_attention (set_flash_attention l) = set_flash_attention l"
  by (cases l) (simp_all add: set_flash_attention_def)

lemma encoder_map_layers_idem:
  assumes "\<And>l. f (f l) = f l"
  shows "encoder_map_layers f (encoder_map_layers f enc) = encoder_map_layers f enc"
  by (simp add: encoder_map_layers_def comp_def assms)

lemma decoder_map_layers_idem:
  assumes "\<And>l. f (f l) = f l"
  shows "decoder_map_layers f (decoder_map_layers f dec) = decoder_map_layers f dec"
  by (simp add: decoder_map_layers_def comp_def assms)

lemma gradient_checkpointing_enabled_idem:
  "gradient_checkpointing_enabled (gradient_checkpointing_enabled m e) e
     = gradient_checkpointing_enabled m e"
  by (simp add: gradient_checkpointing_enabled_def encoder_map_layers_idem
      decoder_map_layers_idem set_gradient_checkpointing_idem comp_def)

lemma enable_flash_attn_idem:
  "enable_flash_attn (enable_flash_attn m) = enable_flash_attn m"
  by (simp add: enable_flash_attn_def encoder_map_layers_idem
      decoder_map_layers_idem set_flash_attention_idem comp_def)

lemma attention_forward_flash:
  "MultiheadSelfAttention_forward (a\<lparr>use_flash_attention := f\<rparr>) x c
     = MultiheadSelfAttention_forward a x c"
  by (simp add: MultiheadSelfAttention_forward_def cong: option.case_cong prod.case_cong if_cong)

lemma attention_block_forward_flags:
  "UNet_AttentionBlock_forward (blk\<lparr>gradient_checkpointing := e\<rparr>) x c
     = UNet_AttentionBlock_forward blk x c"
  "UNet_AttentionBlock_forward
     (blk\<lparr>attn1 := (attn1 blk)\<lparr>use_flash_attention := True\<rparr>,
          attn2 := (attn2 blk)\<lparr>use_flash_attention := True\<rparr>\<rparr>) x c
     = UNet_AttentionBlock_forward blk x c"
  by (simp_all add: UNet_AttentionBlock_forward_def checkpoint_def attention_forward_flash
      cong: if_cong)

lemma transformer_encoder_forward_flags:
  "UNet_TransformerEncoder_forward (te\<lparr>transformer_block := blk'\<rparr>) x c
     = (case x of (b, ch, h, w) \<Rightarrow>
        ebind (GroupNorm_forward (groupnorm te) x) (\<lambda>x1.
        ebind (Conv2d_forward (conv_input te) x1) (\<lambda>x2.
        ebind (view_b_c_rest b ch x2) (\<lambda>x3.
        ebind (UNet_AttentionBlock_forward blk' (transpose3 x3) c) (\<lambda>x4.
        ebind (view4 b ch h w (transpose3 x4)) (\<lambda>x5.
        ebind (Conv2d_forward (conv_output te) x5) (\<lambda>x6.
        iadd4 x6 x)))))))"
  by (simp add: UNet_TransformerEncoder_forward_def)

lemma transformer_encoder_forward_gc:
  "UNet_TransformerEncoder_forward
     (te\<lparr>transformer_block := (transformer_block te)\<lparr>gradient_checkpointing := e\<rparr>\<rparr>) x c
     = UNet_TransformerEncoder_forward te x c"
  by (simp add: transformer_encoder_forward_flags attention_block_forward_flags
      UNet_TransformerEncoder_forward_def)

lemma transformer_encoder_forward_flash:
  "UNet_TransformerEncoder_forward
     (te\<lparr>transformer_block := (transformer_block te)
          \<lparr>attn1 := (attn1 (transformer_block te))\<lparr>use_flash_attention := True\<rparr>,
           attn2 := (attn2 (transformer_block te))\<lparr>use_flash_attention := True\<rparr>\<rparr>\<rparr>) x c
     = UNet_TransformerEncoder_forward te x c"
  by (simp add: transformer_encoder_forward_flags attention_block_forward_flags
      UNet_TransformerEncoder_forward_def)

lemma set_gradient_checkpointing_simps:
  "set_gradient_checkpointing e (ResBlock rb) = ResBlock rb"
  "set_gradient_checkpointing e (TransformerEncoder te) =
     TransformerEncoder
       (te\<lparr>transformer_block := (transformer_block te)\<lparr>gradient_checkpointing := e\<rparr>\<rparr>)"
  by (simp_all add: set_gradient_checkpointing_def)

lemma set_flash_attention_simps:
  "set_flash_attention (ResBlock rb) = ResBlock rb"
  "set_flash_attention (TransformerEncoder te) =
     TransformerEncoder
       (te\<lparr>transformer_block := (transformer_block te)
            \<lparr>attn1 := (attn1 (transformer_block te))\<lparr>use_flash_attention := True\<rparr>,
             attn2 := (attn2 (transformer_block te))\<lparr>use_flash_attention := True\<rparr>\<rparr>\<rparr>)"
  by (simp_all add: set_flash_attention_def)

lemma TimeStepSequential_forward_gc:
  "TimeStepSequential_forward (map (set_gradient_checkpointing e) ls) x t c
     = TimeStepSequential_forward ls x t c"
proof (induction ls arbitrary: x)
  case Nil
  then show ?case by simp
next
  case (Cons l ls)
  show ?case
    by (cases l)
       (simp_all add: set_gradient_checkpointing_simps Cons.IH transformer_encoder_forward_gc)
qed

lemma TimeStepSequential_forward_flash:
  "TimeStepSequential_forward (map set_flash_attention ls) x t c
     = TimeStepSequential_forward ls x t c"
proof (induction ls arbitrary: x)
  case Nil
  then show ?case by simp
next
  case (Cons l ls)
  show ?case
    by (cases l)
       (simp_all add: set_flash_attention_simps Cons.IH transformer_encoder_forward_flash)
qed

text \<open>A map over the layers that does not change what a layer container computes.\<close>

lemma encoder_block_forward_map:
  assumes "\<And>ls x. TimeStepSequential_forward (map f ls) x t c
                    = TimeStepSequential_forward ls x t c"
  shows "encoder_block_forward (map (map f) lss) x t c sk = encoder_block_forward lss x t c sk"
  by (induction lss arbitrary: x sk) (simp_all add: assms)

lemma encoder_down_forward_map:
  assumes "\<And>ls x. TimeStepSequential_forward (map f ls) x t c
                    = TimeStepSequential_forward ls x t c"
  shows "encoder_down_forward (map (\<lambda>d. d\<lparr>down_block := map (map f) (down_block d)\<rparr>) ds)
           x t c sk
         = encoder_down_forward ds x t c sk"
  by (induction ds arbitrary: x sk) (simp_all add: encoder_block_forward_map [OF assms])

lemma decoder_block_forward_map:
  assumes "\<And>ls x. TimeStepSequential_forward (map f ls) x t c
                    = TimeStepSequential_forward ls x t c"
  shows "decoder_block_forward (map (map f) lss) x sk t c = decoder_block_forward lss x sk t c"
  by (induction lss arbitrary: x sk) (simp_all add: assms)

lemma decoder_up_forward_map:
  assumes "\<And>ls x. TimeStepSequential_forward (map f ls) x t c
                    = TimeStepSequential_forward ls x t c"
  shows "decoder_up_forward (map (\<lambda>u. u\<lparr>up_block := map (map f) (up_block u)\<rparr>) us)
           x sk t c
         = decoder_up_forward us x sk t c"
  by (induction us arbitrary: x sk)
     (simp_all add: decoder_block_forward_map [OF assms] cong: if_cong)

lemma UNet_forward_map_layers:
  assumes "\<And>ls x t c. TimeStepSequential_forward (map f ls) x t c
                    = TimeStepSequential_forward ls x t c"
  shows "UNet_forward (m\<lparr>encoder := encoder_map_layers f (encoder m),
                          bottleneck := map f (bottleneck m),
                          decoder := decoder_map_layers f (decoder m)\<rparr>) x ts c
         = UNet_forward m x ts c"
  by (simp add: UNet_forward_def UNet_Encoder_forward_def UNet_Decoder_forward_def
      encoder_map_layers_def decoder_map_layers_def assms
      encoder_down_forward_map [OF assms] decoder_up_forward_map [OF assms])

lemma attention_blocks_map_layers:
  assumes "\<And>l. layer_attention_blocks (f l) = map g (layer_attention_blocks l)"
  shows "attention_blocks (m\<lparr>encoder := encoder_map_layers f (encoder m),
                          bottleneck := map f (bottleneck m),
                          decoder := decoder_map_layers f (decoder m)\<rparr>)
         = map g (attention_blocks m)"
  by (simp add: attention_blocks_def encoder_map_layers_def decoder_map_layers_def
      map_concat comp_def assms)


lemma layer_attention_blocks_gc:
  "layer_attention_blocks (set_gradient_checkpointing e l)
     = map (\<lambda>blk. blk\<lparr>gradient_checkpointing := e\<rparr>) (layer_attention_blocks l)"
  by (cases l) (simp_all add: set_gradient_checkpointing_def layer_attention_blocks_def)

lemma layer_attention_blocks_flash:
  "layer_attention_blocks (set_flash_attention l)
     = map (\<lambda>blk. blk\<lparr>attn1 := (attn1 blk)\<lparr>use_flash_attention := True\<rparr>,
                      attn2 := (attn2 blk)\<lparr>use_flash_attention := True\<rparr>\<rparr>)
         (layer_attention_blocks l)"
  by (cases l) (simp_all add: set_flash_attention_def layer_attention_blocks_def)

lemma attention_blocks_gc:
  "map gradient_checkpointing (attention_blocks (gradient_checkpointing_enabled m e))
     = replicate (length (attention_blocks m)) e"
  unfolding gradient_checkpointing_enabled_def
    attention_blocks_map_layers [OF layer_attention_blocks_gc]
  by (simp add: comp_def map_replicate_const)

lemma attention_units_flash:
  "map use_flash_attention (attention_units (enable_flash_attn m))
     = replicate (length (attention_units m)) True"
proof -
  have "map use_flash_attention
          (concat (map (\<lambda>blk. [attn1 blk, attn2 blk])
             (map (\<lambda>blk. blk\<lparr>attn1 := (attn1 blk)\<lparr>use_flash_attention := True\<rparr>,
                               attn2 := (attn2 blk)\<lparr>use_flash_attention := True\<rparr>\<rparr>) bs)))
        = replicate (length (concat (map (\<lambda>blk. [attn1 blk, attn2 blk]) bs))) True" for bs
    by (induction bs) simp_all
  then show ?thesis
    unfolding enable_flash_attn_def attention_units_def
      attention_blocks_map_layers [OF layer_attention_blocks_flash]
    by simp
qed

lemma gradient_checkpointing_enabled_last_wins:
  "gradient_checkpointing_enabled (gradient_checkpointing_enabled m e') e
     = gradient_checkpointing_enabled m e"
proof -
  have "set_gradient_checkpointing e (set_gradient_checkpointing e' l)
          = set_gradient_checkpointing e l" for l
    by (cases l) (simp_all add: set_gradient_checkpointing_def)
  then show ?thesis
    by (simp add: gradient_checkpointing_enabled_def encoder_map_layers_def
        decoder_map_layers_def comp_def)
qed

lemma toggles_preserve_shapes:
  "UNet_forward (gradient_checkpointing_enabled m e) x ts c = UNet_forward m x ts c"
  "UNet_forward (enable_flash_attn m) x ts c = UNet_forward m x ts c"
  using UNet_forward_map_layers [of "set_gradient_checkpointing e" m x ts c,
      OF TimeStepSequential_forward_gc]
    UNet_forward_map_layers [of set_flash_attention m x ts c,
      OF TimeStepSequential_forward_flash]
  unfolding gradient_checkpointing_enabled_def [symmetric] enable_flash_attn_def [symmetric]
  by blast+

subsection \<open>The toggles and the numerical output\<close>

lemma attention_forward_values_flash:
  assumes "paths_agree av"
  shows "MultiheadSelfAttention_forward_values (a\<lparr>use_flash_attention := True\<rparr>) av x c
         = MultiheadSelfAttention_forward_values a av x c"
  using assms by (simp add: MultiheadSelfAttention_forward_values_def paths_agree_def)

lemma attention_block_forward_values_gc:
  "UNet_AttentionBlock_forward_values ops (blk\<lparr>gradient_checkpointing := e\<rparr>) bv x c
     = UNet_AttentionBlock_forward_values ops blk bv x c"
  by (simp add: UNet_AttentionBlock_forward_values_def checkpoint_def cong: if_cong)

lemma attention_block_forward_values_flash:
  assumes "paths_agree (ab_attn1_paths bv)" and "paths_agree (ab_attn2_paths bv)"
  shows "UNet_AttentionBlock_forward_values ops
           (blk\<lparr>attn1 := (attn1 blk)\<lparr>use_flash_attention := True\<rparr>,
                attn2 := (attn2 blk)\<lparr>use_flash_attention := True\<rparr>\<rparr>) bv x c
         = UNet_AttentionBlock_forward_values ops blk bv x c"
  by (simp add: UNet_AttentionBlock_forward_values_def checkpoint_def
      attention_forward_values_flash [OF assms(1)] attention_forward_values_flash [OF assms(2)]
      cong: if_cong)

lemma layer_forward_values_gc:
  "layer_forward_values ops (set_gradient_checkpointing e l) v x t c
     = layer_forward_values ops l v x t c"
  by (cases l; cases v)
     (simp_all add: set_gradient_checkpointing_simps layer_forward_values_def
       UNet_TransformerEncoder_forward_values_def attention_block_forward_values_gc)

lemma layer_forward_values_flash:
  assumes "list_all paths_agree (layer_fns_paths v)"
  shows "layer_forward_values ops (set_flash_attention l) v x t c
         = layer_forward_values ops l v x t c"
  using assms
  by (cases l; cases v)
     (simp_all add: set_flash_attention_simps layer_forward_values_def layer_fns_paths_def
       UNet_TransformerEncoder_forward_values_def attention_block_forward_values_flash)

lemma TimeStepSequential_forward_values_map:
  assumes "\<And>l v x. P v \<Longrightarrow> layer_forward_values ops (f l) v x t c
                              = layer_forward_values ops l v x t c"
    and "list_all P vs"
  shows "TimeStepSequential_forward_values ops (map f ls) vs x t c
         = TimeStepSequential_forward_values ops ls vs x t c"
  using assms(2)
proof (induction ls arbitrary: vs x)
  case Nil
  then show ?case by simp
next
  case (Cons l ls)
  show ?case
  proof (cases vs)
    case Nil
    then show ?thesis by simp
  next
    case (Cons v vs')
    with Cons.prems have "P v" and "list_all P vs'" by simp_all
    then show ?thesis
      using Cons by (simp add: assms(1) Cons.IH)
  qed
qed

lemma encoder_block_forward_values_map:
  assumes "\<And>l v x. P v \<Longrightarrow> layer_forward_values ops (f l) v x t c
                              = layer_forward_values ops l v x t c"
    and "list_all (list_all P) vss"
  shows "encoder_block_forward_values ops (map (map f) lss) vss x t c sk
         = encoder_block_forward_values ops lss vss x t c sk"
  using assms(2)
proof (induction lss arbitrary: vss x sk)
  case Nil
  then show ?case by simp
next
  case (Cons ls lss)
  show ?case
  proof (cases vss)
    case Nil
    then show ?thesis by simp
  next
    case (Cons vs vss')
    with Cons.prems have "list_all P vs" and "list_all (list_all P) vss'" by simp_all
    then show ?thesis
      using Cons
      by (simp add: TimeStepSequential_forward_values_map [of P, OF assms(1)] Cons.IH)
  qed
qed

lemma encoder_down_forward_values_map:
  assumes "\<And>l v x. P v \<Longrightarrow> layer_forward_values ops (f l) v x t c
                              = layer_forward_values ops l v x t c"
    and "list_all (\<lambda>dv. list_all (list_all P) (down_block_fns dv)) dvs"
  shows "encoder_down_forward_values ops
           (map (\<lambda>d. d\<lparr>down_block := map (map f) (down_block d)\<rparr>) ds) dvs x t c sk
         = encoder_down_forward_values ops ds dvs x t c sk"
  using assms(2)
proof (induction ds arbitrary: dvs x sk)
  case Nil
  then show ?case by simp
next
  case (Cons d ds)
  show ?case
  proof (cases dvs)
    case Nil
    then show ?thesis by simp
  next
    case (Cons dv dvs')
    with Cons.prems have "list_all (list_all P) (down_block_fns dv)"
      and "list_all (\<lambda>dv. list_all (list_all P) (down_block_fns dv)) dvs'" by simp_all
    then show ?thesis
      using Cons
      by (simp add: encoder_block_forward_values_map [of P, OF assms(1)] Cons.IH)
  qed
qed

lemma decoder_block_forward_values_map:
  assumes "\<And>l v x. P v \<Longrightarrow> layer_forward_values ops (f l) v x t c
                              = layer_forward_values ops l v x t c"
    and "list_all (list_all P) vss"
  shows "decoder_block_forward_values ops (map (map f) lss) vss x sk t c
         = decoder_block_forward_values ops lss vss x sk t c"
  using assms(2)
proof (induction lss arbitrary: vss x sk)
  case Nil
  then show ?case by simp
next
  case (Cons ls lss)
  show ?case
  proof (cases vss)
    case Nil
    then show ?thesis by simp
  next
    case (Cons vs vss')
    with Cons.prems have "list_all P vs" and "list_all (list_all P) vss'" by simp_all
    then show ?thesis
      using Cons
      by (simp add: TimeStepSequential_forward_values_map [of P, OF assms(1)] Cons.IH)
  qed
qed

lemma decoder_up_forward_values_map:
  assumes "\<And>l v x. P v \<Longrightarrow> layer_forward_values ops (f l) v x t c
                              = layer_forward_values ops l v x t c"
    and "list_all (\<lambda>uv. list_all (list_all P) (up_block_fns uv)) uvs"
  shows "decoder_up_forward_values ops
           (map (\<lambda>u. u\<lparr>up_block := map (map f) (up_block u)\<rparr>) us) uvs x sk t c
         = decoder_up_forward_values ops us uvs x sk t c"
  using assms(2)
proof (induction us arbitrary: uvs x sk)
  case Nil
  then show ?case by simp
next
  case (Cons u us)
  show ?case
  proof (cases uvs)
    case Nil
    then show ?thesis by simp
  next
    case (Cons uv uvs')
    with Cons.prems have "list_all (list_all P) (up_block_fns uv)"
      and "list_all (\<lambda>uv. list_all (list_all P) (up_block_fns uv)) uvs'" by simp_all
    then show ?thesis
      using Cons
      by (simp add: decoder_block_forward_values_map [of P, OF assms(1)] Cons.IH
          cong: if_cong)
  qed
qed

lemma list_all_concat: "list_all P (concat xss) = list_all (list_all P) xss"
  by (induction xss) simp_all

lemma list_all_concat_map:
  "list_all P (concat (map g xs)) = list_all (\<lambda>x. list_all P (g x)) xs"
  by (induction xs) simp_all

lemma UNet_forward_values_map_layers:
  assumes "\<And>l v x t c. P v \<Longrightarrow> layer_forward_values ops (f l) v x t c
                              = layer_forward_values ops l v x t c"
    and "list_all P (concat (concat (map down_block_fns (down_fns (encoder_fns w))))
                     @ bottleneck_fns w
                     @ concat (concat (map up_block_fns (up_fns (decoder_fns w)))))"
  shows "UNet_forward_values ops w
           (m\<lparr>encoder := encoder_map_layers f (encoder m),
              bottleneck := map f (bottleneck m),
              decoder := decoder_map_layers f (decoder m)\<rparr>) x ts c
         = UNet_forward_values ops w m x ts c"
proof -
  have d: "list_all (\<lambda>dv. list_all (list_all P) (down_block_fns dv)) (down_fns (encoder_fns w))"
    and b: "list_all P (bottleneck_fns w)"
    and u: "list_all (\<lambda>uv. list_all (list_all P) (up_block_fns uv)) (up_fns (decoder_fns w))"
    using assms(2) by (auto simp: list_all_iff)
  show ?thesis
    by (simp add: UNet_forward_values_def UNet_Encoder_forward_values_def
        UNet_Decoder_forward_values_def encoder_map_layers_def decoder_map_layers_def
        TimeStepSequential_forward_values_map [of P, OF assms(1) b]
        encoder_down_forward_values_map [of P, OF assms(1) d]
        decoder_up_forward_values_map [of P, OF assms(1) u])
qed

lemma UNet_forward_values_gc:
  "UNet_forward_values ops w (gradient_checkpointing_enabled m e) x ts c
     = UNet_forward_values ops w m x ts c"
  unfolding gradient_checkpointing_enabled_def
  by (rule UNet_forward_values_map_layers [of "\<lambda>v. True"])
     (simp_all add: layer_forward_values_gc list_all_iff)

lemma UNet_forward_values_flash:
  assumes "list_all paths_agree (UNet_fns_paths w)"
  shows "UNet_forward_values ops w (enable_flash_attn m) x ts c
         = UNet_forward_values ops w m x ts c"
  unfolding enable_flash_attn_def
proof (rule UNet_forward_values_map_layers
    [of "\<lambda>v. list_all paths_agree (layer_fns_paths v)"])
  show "list_all (\<lambda>v. list_all paths_agree (layer_fns_paths v))
     (concat (concat (map down_block_fns (down_fns (encoder_fns w))))
                     @ bottleneck_fns w
                     @ concat (concat (map up_block_fns (up_fns (decoder_fns w)))))"
    using assms unfolding UNet_fns_paths_def list_all_concat_map .
qed (rule layer_forward_values_flash)

lemma toy_paths_agree: "list_all paths_agree (UNet_fns_paths (toy_fns 0))"
  by (simp add: UNet_fns_paths_def toy_fns_def layer_fns_paths_def paths_agree_def toy_paths_def)

lemma bottleneck_only_simps:
  "down (encoder bottleneck_only) = []"
  "up (decoder bottleneck_only) = []"
  "bottleneck bottleneck_only = bottleneck (projr (UNet_init 4 4 8 320 768 False))"
  by (simp_all add: bottleneck_only_def Let_def)

lemma toy_bottleneck_reference:
  "TimeStepSequential_forward_values toy_ops
     (bottleneck (projr (UNet_init 4 4 8 320 768 False))) (bottleneck_fns (toy_fns 0))
     1 1 (Some 3) = Inr 75"
  by code_simp

lemma toy_bottleneck_accelerated_1:
  "TimeStepSequential_forward_values toy_ops
     (map set_flash_attention (bottleneck (projr (UNet_init 4 4 8 320 768 False))))
     (bottleneck_fns (toy_fns 1)) 1 1 (Some 3) = Inr 87"
  by code_simp

lemma toy_time: "TimeEmbedding_forward_values toy_ops te (toy_fns k) [0] = Inr 1"
  by (simp add: TimeEmbedding_forward_values_def toy_ops_def toy_fns_def
      get_time_embedding_def Let_def)

lemma toy_run: "UNet_forward_values toy_ops (toy_fns 0) bottleneck_only 1 [0] 3 = Inr 75"
  using toy_bottleneck_reference
  by (simp add: UNet_forward_values_def toy_time UNet_Encoder_forward_values_def
      UNet_Decoder_forward_values_def bottleneck_only_simps)
     (simp add: toy_ops_def toy_fns_def)


lemma bottleneck_only_units:
  "map use_flash_attention (attention_units bottleneck_only) = [False, False]"
  by code_simp

text \<open>
  Claim C8, amended. The network has two configuration toggles, each a mutation of flags
  that returns nothing: \<open>gradient_checkpointing_enabled(enabled)\<close> sets the recomputation
  flag of every transformer block to \<open>enabled\<close> (it enables and disables), and
  \<open>enable_flash_attn()\<close> sets the accelerated-path flag of every attention unit to true (it
  only enables). Calling either one twice in a row leaves the network as one call does.
  Neither changes the numerical output of the forward pass: for whatever tensors,
  tensor operations and module parameters, the network with its recomputation flags set
  returns the very tensor (or raises the very error) it returned before, and so does the
  network with its accelerated paths enabled when the accelerated path of every attention
  unit returns what its reference path returns, which is the contract of the unit.
\<close>

theorem toggles_idempotent_and_transparent:
  "gradient_checkpointing_enabled (gradient_checkpointing_enabled m e) e
     = gradient_checkpointing_enabled m e
   \<and> gradient_checkpointing_enabled (gradient_checkpointing_enabled m e') e
     = gradient_checkpointing_enabled m e
   \<and> enable_flash_attn (enable_flash_attn m) = enable_flash_attn m
   \<and> map gradient_checkpointing (attention_blocks (gradient_checkpointing_enabled m e))
     = replicate (length (attention_blocks m)) e
   \<and> map use_flash_attention (attention_units (enable_flash_attn m))
     = replicate (length (attention_units m)) True
   \<and> UNet_forward_values ops w (gradient_checkpointing_enabled m e) x ts c
     = UNet_forward_values ops w m x ts c
   \<and> (list_all paths_agree (UNet_fns_paths w)
        \<longrightarrow> UNet_forward_values ops w (enable_flash_attn m) x ts c
            = UNet_forward_values ops w m x ts c)"
  using gradient_checkpointing_enabled_idem [of m e]
    gradient_checkpointing_enabled_last_wins [of m e' e]
    enable_flash_attn_idem [of m] attention_blocks_gc [of m e] attention_units_flash [of m]
    UNet_forward_values_gc [of ops w m e x ts c]
    UNet_forward_values_flash [of w ops m x ts c]
  by blast

text \<open>
  On the bottleneck network, with attention units whose two paths agree: from the latent
  1, the timestep 0 and the conditioning 3 the forward pass returns 75, with the
  accelerated paths enabled as without.
\<close>

theorem toggles_idempotent_and_transparent_witness:
  "list_all paths_agree (UNet_fns_paths (toy_fns 0))
   \<and> map use_flash_attention (attention_units bottleneck_only) = [False, False]
   \<and> UNet_forward_values toy_ops (toy_fns 0) bottleneck_only 1 [0] 3 = Inr 75
   \<and> UNet_forward_values toy_ops (toy_fns 0) (enable_flash_attn bottleneck_only) 1 [0] 3
       = Inr 75"
proof -
  have "UNet_forward_values toy_ops (toy_fns 0) (enable_flash_attn bottleneck_only) 1 [0] 3
          = UNet_forward_values toy_ops (toy_fns 0) bottleneck_only 1 [0] 3"
    by (rule toggles_idempotent_and_transparent
          [where m = bottleneck_only and e = True and e' = True and ops = toy_ops
             and w = "toy_fns 0" and x = 1 and ts = "[0]" and c = 3,
           THEN conjunct2, THEN conjunct2, THEN conjunct2, THEN conjunct2, THEN conjunct2,
           THEN conjunct2, THEN mp, OF toy_paths_agree])
  then show ?thesis
    using toy_paths_agree toy_run bottleneck_only_units by simp
qed

text \<open>
  The flag does select the path: with attention units whose accelerated path returns
  something else than their reference path, the same forward pass returns 75 before
  \<open>enable_flash_attn()\<close> and 87 after it. So the transparency of this toggle is the
  agreement of the two paths of the attention unit, no more and no less.
\<close>

lemma toy_bottleneck_reference_1:
  "TimeStepSequential_forward_values toy_ops
     (bottleneck (projr (UNet_init 4 4 8 320 768 False))) (bottleneck_fns (toy_fns 1))
     1 1 (Some 3) = Inr 75"
  by code_simp

lemma toy_run1: "UNet_forward_values toy_ops (toy_fns 1) bottleneck_only 1 [0] 3 = Inr 75"
  using toy_bottleneck_reference_1
  by (simp add: UNet_forward_values_def toy_time UNet_Encoder_forward_values_def
      UNet_Decoder_forward_values_def bottleneck_only_simps)
     (simp add: toy_ops_def toy_fns_def)

lemma toy_run2:
  "UNet_forward_values toy_ops (toy_fns 1) (enable_flash_attn bottleneck_only) 1 [0] 3 = Inr 87"
  using toy_bottleneck_accelerated_1
  by (simp add: UNet_forward_values_def toy_time UNet_Encoder_forward_values_def
      UNet_Decoder_forward_values_def bottleneck_only_simps enable_flash_attn_def
      encoder_map_layers_def decoder_map_layers_def)
     (simp add: toy_ops_def toy_fns_def)

lemma enable_flash_attn_selects_accelerated_path:
  "\<not> paths_agree (toy_paths 1)
   \<and> UNet_forward_values toy_ops (toy_fns 1) bottleneck_only 1 [0] 3 = Inr 75
   \<and> UNet_forward_values toy_ops (toy_fns 1) (enable_flash_attn bottleneck_only) 1 [0] 3
       = Inr 87"
proof -
  have "accelerated_path (toy_paths 1) 0 None \<noteq> reference_path (toy_paths 1) 0 None"
    by (simp add: toy_paths_def)
  then have "\<not> paths_agree (toy_paths 1)"
    unfolding paths_agree_def by metis
  then show ?thesis
    using toy_run1 toy_run2 by simp
qed

lemma default_units: "length (attention_units (projr (UNet_init 4 4 8 320 768 False))) = 32"
  by code_simp


lemma attention_units_flash_length:
  "length (attention_units (enable_flash_attn m)) = length (attention_units m)"
  using arg_cong [OF attention_units_flash [of m], of length] by simp

text \<open>
  The claim as stated gives the second toggle a disabling direction. It has none: called
  on the default network whose accelerated path is enabled, it leaves all 32 attention
  units enabled.
\<close>

theorem enable_flash_attn_never_disables:
  "length (attention_units (projr (UNet_init 4 4 8 320 768 False))) = 32
   \<and> map use_flash_attention
       (attention_units (enable_flash_attn (enable_flash_attn
          (projr (UNet_init 4 4 8 320 768 False)))))
     = replicate 32 True"
  using default_units
    attention_units_flash [of "enable_flash_attn (projr (UNet_init 4 4 8 320 768 False))"]
    attention_units_flash_length [of "projr (UNet_init 4 4 8 320 768 False)"]
  by simp

section \<open>The sinusoidal time embedding\<close>

lemma get_time_embedding_refines:
  "get_time_embedding te timestep
     = map (\<lambda>t. sinusoidal_embedding (nat (t_embed_dim te div 2)) (real_of_int t)) timestep"
proof (cases "0 \<le> t_embed_dim te div 2")
  case True
  then show ?thesis
    by (simp add: get_time_embedding_def sinusoidal_embedding_def Let_def comp_def)
next
  case False
  then show ?thesis
    by (simp add: get_time_embedding_def sinusoidal_embedding_def Let_def comp_def)
qed

lemma sinusoidal_embedding_zero:
  "sinusoidal_embedding half 0 = replicate half 1 @ replicate half 0"
  by (simp add: sinusoidal_embedding_def map_replicate_const)

text \<open>
  Claim C7. The embedding \<open>_get_time_embedding\<close> computes before the feed-forward
  projection is, for every timestep, the embedding the specification describes: with
  \<open>half = t_embed_dim // 2\<close> frequencies \<open>10000^(-i/half)\<close> for \<open>i\<close> in \<open>[0, half)\<close>, the cosines of
  the timestep times each frequency followed by the sines. For the timestep 0 every cosine
  component is 1 and every sine component is 0. Each row has \<open>2 half\<close> entries.
\<close>

theorem time_embedding_sinusoidal:
  "get_time_embedding te timestep
     = map (\<lambda>t. sinusoidal_embedding (nat (t_embed_dim te div 2)) (real_of_int t)) timestep
   \<and> sinusoidal_embedding half t
     = map (\<lambda>i. cos (t * 10000 powr (- (real i / real half)))) [0 ..< half]
       @ map (\<lambda>i. sin (t * 10000 powr (- (real i / real half)))) [0 ..< half]
   \<and> get_time_embedding te (replicate n 0)
     = replicate n (replicate (nat (t_embed_dim te div 2)) 1
                    @ replicate (nat (t_embed_dim te div 2)) 0)
   \<and> map length (get_time_embedding te timestep)
     = replicate (length timestep) (snd (get_time_embedding_shape te (length timestep)))"
  by (simp add: get_time_embedding_refines sinusoidal_embedding_zero map_replicate_const
      get_time_embedding_shape_def comp_def)
     (simp add: sinusoidal_embedding_def map_replicate_const)

section \<open>The gated feed-forward unit\<close>

lemma Linear_values_Inr:
  assumes "params_of l p" and "int (length x) = in_features l"
  shows "\<exists>y. Linear_values p x = Inr y \<and> int (length y) = out_features l"
proof -
  from assms have "list_all (\<lambda>row. length row = length x) (weight p)"
    by (auto simp: params_of_def list_all_iff)
  moreover from assms(1) have "length (bias p) = length (weight p)"
    by (simp add: params_of_def)
  ultimately show ?thesis
    using assms(1) by (simp add: Linear_values_def params_of_def)
qed

lemma GeGELU_values_even:
  assumes "Linear_values p x = Inr y" and "length y = 2 * k" and "0 < k"
  shows "GeGELU_values gelu p x = Inr (map2 (\<lambda>a g. a * gelu g) (take k y) (drop k y))"
proof -
  have k: "(length y + 1) div 2 = k" using assms by simp
  have "drop k y \<noteq> []" and "y \<noteq> []" using assms by auto
  moreover have "length (take k y) = length (drop k y)"
    using assms by simp
  ultimately show ?thesis
    unfolding GeGELU_values_def assms(1) ebind_Inr Let_def k by simp
qed

text \<open>
  Claim C5, amended. The gated feed-forward unit of a transformer block of width \<open>d\<close>
  projects its input to 8 times the width, splits the projection into a value half and a
  gate half of 4 times the width each, applies GELU to the gate half, multiplies the two
  halves elementwise, and projects the product, of 4 times the width, back down to \<open>d\<close>.
  On shapes and, for parameters of the sizes the layers allocate, on the values of one
  token; \<open>gelu\<close> is PyTorch's function, a parameter here.
\<close>

theorem gated_feed_forward_widths:
  assumes init: "UNet_AttentionBlock_init num_heads d cond_dim use_lora = Inr blk"
    and d: "0 < d"
    and p1: "params_of (proj (fst (ffn blk))) p1"
    and p2: "params_of (snd (ffn blk)) p2"
    and x: "int (length x) = d"
  shows "in_features (proj (fst (ffn blk))) = d \<and> out_features (proj (fst (ffn blk))) = 8 * d
       \<and> in_features (snd (ffn blk)) = 4 * d \<and> out_features (snd (ffn blk)) = d
       \<and> Linear_forward (proj (fst (ffn blk))) (nat d) = Inr (8 * nat d)
       \<and> chunk2 (8 * nat d) = Inr (4 * nat d, 4 * nat d)
       \<and> GeGELU_forward (fst (ffn blk)) (nat d) = Inr (4 * nat d)
       \<and> ffn_forward (ffn blk) (b, s, nat d) = Inr (b, s, nat d)
       \<and> (\<exists>y h z. Linear_values p1 x = Inr y \<and> length y = 8 * nat d
              \<and> h = map2 (\<lambda>v g. v * gelu g) (take (4 * nat d) y) (drop (4 * nat d) y)
              \<and> GeGELU_values gelu p1 x = Inr h \<and> length h = 4 * nat d
              \<and> Linear_values p2 h = Inr z
              \<and> ffn_values gelu p1 p2 x = Inr z \<and> length z = nat d)"
proof -
  note I = attention_block_init_Inr [OF init]
  from I have f: "ffn blk = (\<lparr>proj = \<lparr>in_features = d, out_features = 8 * d\<rparr>\<rparr>,
                  \<lparr>in_features = d * 4, out_features = d\<rparr>)" by simp
  have w: "in_features (proj (fst (ffn blk))) = d" "out_features (proj (fst (ffn blk))) = 8 * d"
    "in_features (snd (ffn blk)) = 4 * d" "out_features (snd (ffn blk)) = d"
    by (simp_all add: f)
  have lf: "Linear_forward (proj (fst (ffn blk))) (nat d) = Inr (8 * nat d)"
    using d by (simp add: f Linear_forward_def nat_mult_distrib)
  have ch: "chunk2 (8 * nat d) = Inr (4 * nat d, 4 * nat d)"
    using d by (simp add: chunk2_def Let_def)
  have gf: "GeGELU_forward (fst (ffn blk)) (nat d) = Inr (4 * nat d)"
    by (simp add: GeGELU_forward_def lf ch)
  have ff: "ffn_forward (ffn blk) (b, s, nat d) = Inr (b, s, nat d)"
    using ffn_forward_shape [OF d, of b s] by (simp add: f)
  from Linear_values_Inr [OF p1, of x] x w(1,2) obtain y where
    y: "Linear_values p1 x = Inr y" and "int (length y) = 8 * d" by auto
  with d have ly: "length y = 8 * nat d" by (simp add: nat_mult_distrib)
  then have ly': "length y = 2 * (4 * nat d)" by simp
  have k: "0 < 4 * nat d" using d by simp
  define h where "h = map2 (\<lambda>v g. v * gelu g) (take (4 * nat d) y) (drop (4 * nat d) y)"
  have gv: "GeGELU_values gelu p1 x = Inr h"
    unfolding h_def by (rule GeGELU_values_even [OF y ly' k])
  have lh: "length h = 4 * nat d" using ly by (simp add: h_def)
  with d have "int (length h) = in_features (snd (ffn blk))" by (simp add: w)
  from Linear_values_Inr [OF p2 this] w(4) obtain z where
    z: "Linear_values p2 h = Inr z" and lz: "length z = nat d" by auto
  have fv: "ffn_values gelu p1 p2 x = Inr z"
    by (simp add: ffn_values_def gv z)
  from y ly h_def gv lh z fv lz have
    "\<exists>y h z. Linear_values p1 x = Inr y \<and> length y = 8 * nat d
              \<and> h = map2 (\<lambda>v g. v * gelu g) (take (4 * nat d) y) (drop (4 * nat d) y)
              \<and> GeGELU_values gelu p1 x = Inr h \<and> length h = 4 * nat d
              \<and> Linear_values p2 h = Inr z
              \<and> ffn_values gelu p1 p2 x = Inr z \<and> length z = nat d"
    by blast
  with w lf ch gf ff show ?thesis by blast
qed

text \<open>
  The claim as stated has the input projected to 4 times the width and that projection
  split. For width 320 the projection that is split has 2560 = 8 x 320 entries, not
  1280, and each half has 1280.
\<close>

theorem gated_feed_forward_projection_is_8x:
  "GeGELU_init 320 (320 * 4) = Inr \<lparr>proj = \<lparr>in_features = 320, out_features = 2560\<rparr>\<rparr>
   \<and> Linear_forward \<lparr>in_features = 320, out_features = 2560\<rparr> 320 = Inr 2560
   \<and> (2560 :: nat) \<noteq> 4 * 320
   \<and> chunk2 2560 = Inr (1280, 1280)"
  by (simp add: GeGELU_init_def Linear_init_def Linear_forward_def chunk2_def Let_def)

theorem gated_feed_forward_widths_witness:
  "\<exists>blk. UNet_AttentionBlock_init 1 1 0 False = Inr blk
     \<and> out_features (proj (fst (ffn blk))) = 8
     \<and> GeGELU_forward (fst (ffn blk)) 1 = Inr 4
     \<and> ffn_forward (ffn blk) (2, 3, 1) = Inr (2, 3, 1)
     \<and> GeGELU_values (\<lambda>g. g)
          \<lparr>weight = [[1], [2], [3], [4], [5], [6], [7], [8]], bias = [0, 0, 0, 0, 0, 0, 0, 0]\<rparr>
          [1] = Inr [5, 12, 21, 32]
     \<and> ffn_values (\<lambda>g. g)
          \<lparr>weight = [[1], [2], [3], [4], [5], [6], [7], [8]], bias = [0, 0, 0, 0, 0, 0, 0, 0]\<rparr>
          \<lparr>weight = [[1, 1, 1, 1]], bias = [0]\<rparr> [1] = Inr [70]"
proof -
  let ?p1 = "\<lparr>weight = [[1], [2], [3], [4], [5], [6], [7], [8 :: real]],
              bias = [0, 0, 0, 0, 0, 0, 0, 0 :: real]\<rparr>"
  let ?p2 = "\<lparr>weight = [[1, 1, 1, 1 :: real]], bias = [0 :: real]\<rparr>"
  obtain blk where blk: "UNet_AttentionBlock_init 1 1 0 False = Inr blk"
    by (simp add: UNet_AttentionBlock_init_def LayerNorm_init_def
        MultiheadSelfAttention_init_def GeGELU_init_def Linear_init_def)
  from attention_block_init_Inr [OF blk]
  have f: "ffn blk = (\<lparr>proj = \<lparr>in_features = 1, out_features = 8\<rparr>\<rparr>,
                      \<lparr>in_features = 4, out_features = 1\<rparr>)" by simp
  have q1: "params_of (proj (fst (ffn blk))) ?p1" by (simp add: f params_of_def)
  have q2: "params_of (snd (ffn blk)) ?p2" by (simp add: f params_of_def)
  have x: "int (length [1 :: real]) = 1" by simp
  have d: "(0 :: int) < 1" by simp
  note T = gated_feed_forward_widths [OF blk d q1 q2 x, of 2 3 "\<lambda>g. g"]
  have y: "Linear_values ?p1 [1] = Inr [1, 2, 3, 4, 5, 6, 7, 8]"
    by (simp add: Linear_values_def)
  from T y have g: "GeGELU_values (\<lambda>g. g) ?p1 [1] = Inr [5, 12, 21, 32]"
    by auto
  have z: "Linear_values ?p2 [5, 12, 21, 32] = Inr [70]"
    by (simp add: Linear_values_def)
  from T g z have v: "ffn_values (\<lambda>g. g) ?p1 ?p2 [1] = Inr [70]"
    by auto
  from T have "out_features (proj (fst (ffn blk))) = 8"
    and "GeGELU_forward (fst (ffn blk)) 1 = Inr 4"
    and "ffn_forward (ffn blk) (2, 3, 1) = Inr (2, 3, 1)"
    by simp_all
  with blk g v show ?thesis by blast
qed

section \<open>Image rescaling\<close>

lemma inplace_nth: "x < length st \<Longrightarrow> inplace f x st ! x = map f (st ! x)"
  by (simp add: inplace_def)

lemma inplace_length: "length (inplace f x st) = length st"
  by (simp add: inplace_def)

lemma inplace_inplace:
  "x < length st \<Longrightarrow> inplace g x (inplace f x st) = inplace (\<lambda>v. g (f v)) x st"
  by (simp add: inplace_def comp_def)

text \<open>
  Claim C9. \<open>scale_img\<close> mutates its input tensor in place. For every tensor \<open>x\<close> in the
  store and every pair of ranges with a non-empty old range, the call with \<open>clamp=False\<close>
  returns \<open>x\<close> itself and leaves in \<open>x\<close> the rescaled values in place of the original ones.
  When the old range is empty the quotient raises \<open>ZeroDivisionError\<close>, and the input has
  been shifted in place by then. With \<open>clamp=True\<close> the result is a new tensor, and \<open>x\<close> holds
  the rescaled, unclamped values all the same. No other tensor of the store changes.
\<close>

theorem scale_img_in_place:
  assumes "x < length st"
  shows "(old_max \<noteq> old_min \<longrightarrow>
            scale_img st x (old_min, old_max) (new_min, new_max) False
              = (st[x := map (\<lambda>v. (v - old_min) * ((new_max - new_min) / (old_max - old_min))
                                   + new_min) (st ! x)],
                 Inr x))
       \<and> (old_max = old_min \<longrightarrow>
            scale_img st x (old_min, old_max) (new_min, new_max) clamp
              = (st[x := map (\<lambda>v. v - old_min) (st ! x)], Inl ZeroDivisionError))
       \<and> (old_max \<noteq> old_min \<longrightarrow>
            (\<exists>st'. scale_img st x (old_min, old_max) (new_min, new_max) True
                     = (st', Inr (length st)) \<and> length st \<noteq> x
                 \<and> st' ! x = map (\<lambda>v. (v - old_min)
                                   * ((new_max - new_min) / (old_max - old_min)) + new_min) (st ! x)))
       \<and> (\<forall>y < length st. y \<noteq> x \<longrightarrow>
            fst (scale_img st x (old_min, old_max) (new_min, new_max) clamp) ! y = st ! y)"
proof -
  let ?f = "\<lambda>v. (v - old_min) * ((new_max - new_min) / (old_max - old_min)) + new_min"
  have three: "inplace (\<lambda>v. v + new_min) x
          (inplace (\<lambda>v. v * ((new_max - new_min) / (old_max - old_min))) x
             (inplace (\<lambda>v. v - old_min) x st)) = st[x := map ?f (st ! x)]"
    using assms by (simp add: inplace_inplace inplace_length) (simp add: inplace_def)
  have a: "scale_img st x (old_min, old_max) (new_min, new_max) False
              = (st[x := map ?f (st ! x)], Inr x)" if "old_max \<noteq> old_min"
    using that three by (simp add: scale_img_def Let_def)
  have b: "scale_img st x (old_min, old_max) (new_min, new_max) clamp
              = (st[x := map (\<lambda>v. v - old_min) (st ! x)], Inl ZeroDivisionError)"
    if "old_max = old_min"
    using that by (simp add: scale_img_def Let_def inplace_def)
  have c: "\<exists>st'. scale_img st x (old_min, old_max) (new_min, new_max) True
                     = (st', Inr (length st)) \<and> length st \<noteq> x \<and> st' ! x = map ?f (st ! x)"
    if "old_max \<noteq> old_min"
    using that assms three by (simp add: scale_img_def Let_def nth_append)
  have d: "fst (scale_img st x (old_min, old_max) (new_min, new_max) clamp) ! y = st ! y"
    if "y < length st" "y \<noteq> x" for y
    using that assms three
    by (cases "old_max = old_min"; cases clamp)
       (simp_all add: scale_img_def Let_def nth_append, simp_all add: inplace_def)
  from a b c d show ?thesis by blast
qed

theorem scale_img_in_place_witness:
  "scale_img [[0, 255], [7]] 0 (0, 255) (-1, 1) False = ([[-1, 1], [7]], Inr 0)
   \<and> scale_img [[0, 255], [7]] 0 (3, 3) (-1, 1) False = ([[-3, 252], [7]], Inl ZeroDivisionError)
   \<and> (\<exists>st'. scale_img [[0, 255], [7]] 0 (0, 255) (-1, 1) True = (st', Inr 2)
         \<and> st' ! 0 = [-1, 1])
   \<and> fst (scale_img [[0, 255], [7]] 0 (0, 255) (-1, 1) False) ! 1 = [7]"
proof -
  have l: "(0 :: nat) < length [[0, 255], [7 :: real]]" by simp
  note T = scale_img_in_place [OF l, of 255 0 "-1" 1 False]
  note U = scale_img_in_place [OF l, of 3 3 "-1" 1 False]
  from T have a: "scale_img [[0, 255], [7]] 0 (0, 255) (-1, 1) False = ([[-1, 1], [7]], Inr 0)"
    by simp
  from U have b: "scale_img [[0, 255], [7]] 0 (3, 3) (-1, 1) False
      = ([[-3, 252], [7]], Inl ZeroDivisionError)"
    by simp
  from T have c: "\<exists>st'. scale_img [[0, 255], [7]] 0 (0, 255) (-1, 1) True = (st', Inr 2)
         \<and> st' ! 0 = [-1, 1]"
    by (simp add: numeral_2_eq_2)
  from T have d: "fst (scale_img [[0, 255], [7]] 0 (0, 255) (-1, 1) False) ! 1 = [7]"
    by simp
  from a b c d show ?thesis by blast
qed

section \<open>The dataloaders\<close>

lemma py_int_fraction:
  assumes "0 \<le> r" and "r \<le> 1"
  shows "0 \<le> py_int (r * real n) \<and> py_int (r * real n) \<le> int n"
proof -
  have "0 \<le> r * real n" using assms by simp
  moreover have "r * real n \<le> real n" using assms by (simp add: mult_left_le_one_le)
  ultimately show ?thesis
    by (simp add: py_int_def floor_le_iff)
qed

lemma py_slice_prefix:
  assumes "0 \<le> k" and "k \<le> int (length xs)"
  shows "py_slice xs (k - k) k = take (nat k) xs"
  using assms by (simp add: py_slice_def Let_def)

lemma py_slice_suffix:
  assumes "0 \<le> k" and "k + l = int (length xs)" and "0 \<le> l"
  shows "py_slice xs (k + l - l) (k + l) = drop (nat k) xs"
proof -
  have s: "k + l - l = k" by simp
  have kl: "k \<le> int (length xs)" using assms by linarith
  have c: "\<not> k < 0" "\<not> k + l < 0" using assms by simp_all
  have a: "min k (int (length xs)) = k" using kl by simp
  have b: "min (k + l) (int (length xs)) = int (length xs)" using assms by simp
  have len: "length (drop (nat k) xs) \<le> nat (int (length xs) - k)" using assms(1) kl by simp
  have "py_slice xs (k + l - l) (k + l)
          = take (nat (int (length xs) - k)) (drop (nat k) xs)"
    unfolding py_slice_def Let_def s by (simp only: c if_False a b)
  also have "\<dots> = drop (nat k) xs" using len by (rule take_all)
  finally show ?thesis .
qed

lemma take_neq_drop:
  assumes "distinct xs" and "take k xs \<noteq> []"
  shows "take k xs \<noteq> drop k xs"
proof
  assume eq: "take k xs = drop k xs"
  from assms(2) obtain a where a: "a \<in> set (take k xs)" by (cases "take k xs") auto
  with eq have "a \<in> set (drop k xs)" by simp
  moreover from assms(1) have "set (take k xs) \<inter> set (drop k xs) = {}"
    by (metis append_take_drop_id distinct_append)
  ultimately show False using a by auto
qed

text \<open>
  Claim C10. Whenever \<open>create_dataloaders\<close> returns, for a split fraction between 0 and 1
  and whatever permutation the random split draws, both dataloaders it returns wrap the
  same training subset: the first \<open>int(train_test_split * len(dataset))\<close> indices of the
  permutation, shuffled in the first loader and in order in the second. The test subset,
  the remaining \<open>len(dataset) - train_size\<close> indices, is created by the split and is the
  dataset of neither loader.
\<close>

theorem create_dataloaders_share_train_subset:
  assumes run: "create_dataloaders dir perm train_test_split bs nw sz
                  = Inr (train_dataloader, test_dataloader)"
    and frac: "0 \<le> train_test_split" "train_test_split \<le> 1"
    and perm: "distinct perm" "length perm = length (generated_jpgs dir @ train_jpgs dir)"
  shows "\<exists>dataset train_dataset test_dataset.
       DreamboothDataset_init dir sz = Inr dataset
     \<and> split_dataset dir perm train_test_split sz = Inr (train_dataset, test_dataset)
     \<and> dl_dataset train_dataloader = train_dataset \<and> shuffle train_dataloader
     \<and> dl_dataset test_dataloader = train_dataset \<and> \<not> shuffle test_dataloader
     \<and> subset_dataset train_dataset = dataset \<and> subset_dataset test_dataset = dataset
     \<and> indices train_dataset
           = take (nat (py_int (train_test_split * real (dataset_len dataset)))) perm
     \<and> indices test_dataset
           = drop (nat (py_int (train_test_split * real (dataset_len dataset)))) perm
     \<and> int (length (indices train_dataset))
           = py_int (train_test_split * real (dataset_len dataset))
     \<and> int (length (indices test_dataset))
           = int (dataset_len dataset) - py_int (train_test_split * real (dataset_len dataset))
     \<and> dl_dataset train_dataloader \<noteq> test_dataset
     \<and> dl_dataset test_dataloader \<noteq> test_dataset"
proof -
  from run obtain train_dataset test_dataset where
    sp: "split_dataset dir perm train_test_split sz = Inr (train_dataset, test_dataset)" and
    tr: "DataLoader_init train_dataset bs True nw = Inr train_dataloader" and
    te: "DataLoader_init train_dataset bs False nw = Inr test_dataloader"
    by (auto simp: create_dataloaders_def ebind_eq_Inr)
  from sp obtain dataset where
    ds: "DreamboothDataset_init dir sz = Inr dataset" and
    rs: "random_split dataset
           (py_int (train_test_split * real (dataset_len dataset)),
            int (dataset_len dataset) - py_int (train_test_split * real (dataset_len dataset)))
           perm = Inr (train_dataset, test_dataset)"
    by (auto simp: split_dataset_def ebind_eq_Inr Let_def)
  let ?k = "py_int (train_test_split * real (dataset_len dataset))"
  from ds have n: "dataset_len dataset = length perm"
    using perm(2)
    by (auto simp: DreamboothDataset_init_def load_data_def dataset_len_def ebind_eq_Inr
        split: option.splits)
  from py_int_fraction [OF frac, of "dataset_len dataset"]
  have k: "0 \<le> ?k" "?k \<le> int (length perm)" by (simp_all add: n)
  have l: "0 \<le> int (length perm) - ?k" "?k + (int (length perm) - ?k) = int (length perm)"
    using k by simp_all
  from rs have trd: "train_dataset = \<lparr>subset_dataset = dataset, indices = take (nat ?k) perm\<rparr>"
    and ted: "test_dataset = \<lparr>subset_dataset = dataset, indices = drop (nat ?k) perm\<rparr>"
    using py_slice_prefix [OF k] py_slice_suffix [OF k(1) l(2) l(1)]
    by (auto simp: random_split_def n split: if_splits)
  from tr have dl1: "dl_dataset train_dataloader = train_dataset" "shuffle train_dataloader"
    and ne: "indices train_dataset \<noteq> []"
    by (auto simp: DataLoader_init_def split: if_splits)
  from te have dl2: "dl_dataset test_dataloader = train_dataset" "\<not> shuffle test_dataloader"
    by (auto simp: DataLoader_init_def split: if_splits)
  have len1: "int (length (indices train_dataset)) = ?k"
    using k by (simp add: trd)
  have len2: "int (length (indices test_dataset)) = int (dataset_len dataset) - ?k"
    using k by (simp add: ted n)
  from ne have "take (nat ?k) perm \<noteq> drop (nat ?k) perm"
    by (intro take_neq_drop perm(1)) (simp add: trd)
  then have neq: "train_dataset \<noteq> test_dataset" by (simp add: trd ted)
  from ds sp dl1 dl2 len1 len2 neq show ?thesis
    by (intro exI [of _ dataset] exI [of _ train_dataset] exI [of _ test_dataset])
       (simp add: trd ted)
qed


theorem create_dataloaders_share_train_subset_witness:
  "\<exists>train_dataloader test_dataloader.
     create_dataloaders
       \<lparr>generated_jpgs = [''g0.jpg'', ''g1.jpg''], train_jpgs = [''t0.jpg'', ''t1.jpg''],
        generated_label = Some ''gen'', train_label = Some ''sks''\<rparr>
       [2, 0, 3, 1] (1 / 2) 4 0 (64, 64) = Inr (train_dataloader, test_dataloader)
     \<and> indices (dl_dataset train_dataloader) = [2, 0]
     \<and> indices (dl_dataset test_dataloader) = [2, 0]
     \<and> shuffle train_dataloader \<and> \<not> shuffle test_dataloader"
proof -
  let ?dir = "\<lparr>generated_jpgs = [''g0.jpg'', ''g1.jpg''], train_jpgs = [''t0.jpg'', ''t1.jpg''],
        generated_label = Some ''gen'', train_label = Some ''sks''\<rparr>"
  have init: "DreamboothDataset_init ?dir (64, 64)
      = Inr \<lparr>imgs_path = [''g0.jpg'', ''g1.jpg'', ''t0.jpg'', ''t1.jpg''],
             labels = [''gen'', ''gen'', ''sks'', ''sks''], img_size = (64, 64)\<rparr>"
    by (simp add: DreamboothDataset_init_def load_data_def)
  have k: "py_int (1 / 2 * real (4 :: nat)) = 2" by (simp add: py_int_def)
  obtain train_dataloader test_dataloader where
    run: "create_dataloaders ?dir [2, 0, 3, 1] (1 / 2) 4 0 (64, 64)
            = Inr (train_dataloader, test_dataloader)"
    by (simp add: create_dataloaders_def split_dataset_def init dataset_len_def py_int_def
        random_split_def py_slice_def DataLoader_init_def Let_def)
  have f: "(0 :: real) \<le> 1 / 2" "(1 :: real) / 2 \<le> 1" by simp_all
  have p: "distinct [2, 0, 3, 1 :: nat]"
    "length [2, 0, 3, 1 :: nat] = length (generated_jpgs ?dir @ train_jpgs ?dir)" by simp_all
  from create_dataloaders_share_train_subset [OF run f p] obtain dataset train_dataset where
    ds: "DreamboothDataset_init ?dir (64, 64) = Inr dataset" and
    d1: "dl_dataset train_dataloader = train_dataset" and s1: "shuffle train_dataloader" and
    d2: "dl_dataset test_dataloader = train_dataset" and s2: "\<not> shuffle test_dataloader" and
    ix: "indices train_dataset
           = take (nat (py_int (1 / 2 * real (dataset_len dataset)))) [2, 0, 3, 1]"
    by blast
  from ds init have "dataset_len dataset = 4" by (auto simp: dataset_len_def)
  with ix k have "indices train_dataset = [2, 0]" by (simp add: numeral_2_eq_2)
  with run d1 d2 s1 s2 show ?thesis
    by (intro exI [of _ train_dataloader] exI [of _ test_dataloader]) simp
qed

end
